theory Spec2Isabelle
  imports Main
begin

section \<open>Go values\<close>

text \<open>
  A Go pointer \<^verbatim>\<open>*T\<close> is a \<^typ>\<open>'a option\<close> (\<^term>\<open>None\<close> is nil). A Go slice is
  either the nil slice or a slice with elements; \<^verbatim>\<open>len\<close> and \<^verbatim>\<open>range\<close> see the
  nil slice as empty, \<^verbatim>\<open>make([]T, 0)\<close> is empty and not nil, and \<^verbatim>\<open>append\<close> always
  yields a slice that is not nil. Dereferencing nil and a failed type assertion panic.
\<close>

datatype 'a slice = NilSlice | Slice "'a list"

fun elems :: "'a slice \<Rightarrow> 'a list" where
  "elems NilSlice = []"
| "elems (Slice xs) = xs"

definition make0 :: "'a slice" where
  "make0 = Slice []"

definition append_slice :: "'a slice \<Rightarrow> 'a \<Rightarrow> 'a slice" where
  "append_slice s x = Slice (elems s @ [x])"

datatype panic = NilPointerDereference | TypeAssertionFailed

text \<open>
  A value of type \<^verbatim>\<open>interface{}\<close> as the handlers meet it: nil, a string, an int, a
  \<^verbatim>\<open>[]interface{}\<close>, a \<^verbatim>\<open>map[string]interface{}\<close> (its entries, looked up with
  \<^term>\<open>map_of\<close>), or a \<^verbatim>\<open>*pluginsdk.Set\<close>, given by the items its \<^verbatim>\<open>List()\<close> returns.
\<close>

datatype val =
    VNil
  | VString string
  | VInt int
  | VSlice "val slice"
  | VMap "(string \<times> val) list"
  | VSet "val list"

section \<open>Resource identifiers\<close>

text \<open>
  The structured identifiers of the generated SDK, one constructor per identifier type
  (\<^verbatim>\<open>cosmosdb.NewTriggerID\<close>, ..., \<^verbatim>\<open>rbacs.NewAccountID\<close>), with the field names of
  the source as selectors.
\<close>

datatype resource_id =
    TriggerId (SubscriptionId: string) (ResourceGroupName: string)
      (DatabaseAccountName: string) (SqlDatabaseName: string) (ContainerName: string)
      (TriggerName: string)
  | UserDefinedFunctionId (SubscriptionId: string) (ResourceGroupName: string)
      (DatabaseAccountName: string) (SqlDatabaseName: string) (ContainerName: string)
      (UserDefinedFunctionName: string)
  | StoredProcedureId (SubscriptionId: string) (ResourceGroupName: string)
      (DatabaseAccountName: string) (SqlDatabaseName: string) (ContainerName: string)
      (StoredProcedureName: string)
  | ContainerId (SubscriptionId: string) (ResourceGroupName: string)
      (DatabaseAccountName: string) (SqlDatabaseName: string) (ContainerName: string)
  | SqlDatabaseId (SubscriptionId: string) (ResourceGroupName: string)
      (DatabaseAccountName: string) (SqlDatabaseName: string)
  | DatabaseAccountId (SubscriptionId: string) (ResourceGroupName: string)
      (DatabaseAccountName: string)
  | AccountId (SubscriptionId: string) (ResourceGroupName: string)
      (DatabaseAccountName: string) (RoleAssignmentId: string)
  | SqlRoleDefinitionId (SubscriptionId: string) (ResourceGroupName: string)
      (DatabaseAccountName: string) (RoleDefinitionId: string)

section \<open>Errors, panics and what a handler returns\<close>

text \<open>
  An \<^verbatim>\<open>error\<close> is an opaque error of a client or a parser (\<open>ErrorString\<close>), an error
  built by \<^verbatim>\<open>fmt.Errorf\<close> (its format string and its arguments in order), or the
  error of \<^verbatim>\<open>tf.ImportAsExistsError(resourceName, id)\<close>.
\<close>

datatype error =
    ErrorString string
  | Errorf string "fmtarg list"
  | ImportAsExistsError string string
and fmtarg =
    ArgS string
  | ArgId resource_id
  | ArgE error

text \<open>A handler returns nil or an error, or it panics.\<close>

datatype outcome = Returned "error option" | Panicked panic

text \<open>
  What a handler does to the outside, in order: taking and releasing a named lock,
  a call of a client method (the method and the identifier it is called with), waiting
  for a poller, and storing the resource identifier in the state.
\<close>

datatype event =
    LockByName string string
  | UnlockByName string string
  | ClientCall string resource_id
  | PollUntilDone
  | SetIdTo string

section \<open>The resource data of the plugin SDK\<close>

text \<open>
  \<^verbatim>\<open>*pluginsdk.ResourceData\<close>: the stored identifier, whether the resource is new, and
  the fields. The schema types every field the handlers read, so a type assertion on
  \<^verbatim>\<open>d.Get\<close> cannot fail; \<open>GetString\<close> and \<open>GetSetList\<close> read a field of that type
  and give the zero value for a field that holds none. \<^verbatim>\<open>d.Set\<close> of a string pointer
  stores the string, or nil for a nil pointer.
\<close>

record ResourceData =
  rd_Id :: string
  rd_IsNewResource :: bool
  rd_fields :: "string \<Rightarrow> val"

definition Get :: "ResourceData \<Rightarrow> string \<Rightarrow> val" where
  "Get d k = rd_fields d k"

definition GetString :: "ResourceData \<Rightarrow> string \<Rightarrow> string" where
  "GetString d k = (case rd_fields d k of VString s \<Rightarrow> s | _ \<Rightarrow> '''')"

definition GetSetList :: "ResourceData \<Rightarrow> string \<Rightarrow> val slice" where
  "GetSetList d k = (case rd_fields d k of VSet xs \<Rightarrow> Slice xs | _ \<Rightarrow> Slice [])"

definition is_zero :: "val \<Rightarrow> bool" where
  "is_zero v =
     (case v of
        VNil \<Rightarrow> True
      | VString s \<Rightarrow> s = ''''
      | VInt i \<Rightarrow> i = 0
      | VSlice s \<Rightarrow> elems s = []
      | VMap m \<Rightarrow> m = []
      | VSet xs \<Rightarrow> xs = [])"

definition GetOk :: "ResourceData \<Rightarrow> string \<Rightarrow> val \<times> bool" where
  "GetOk d k = (rd_fields d k, \<not> is_zero (rd_fields d k))"

definition Set :: "ResourceData \<Rightarrow> string \<Rightarrow> val \<Rightarrow> ResourceData" where
  "Set d k v = d\<lparr>rd_fields := (rd_fields d)(k := v)\<rparr>"

definition SetId :: "ResourceData \<Rightarrow> string \<Rightarrow> ResourceData" where
  "SetId d s = d\<lparr>rd_Id := s\<rparr>"

definition ptr :: "string option \<Rightarrow> val" where
  "ptr p = (case p of None \<Rightarrow> VNil | Some s \<Rightarrow> VString s)"

record 'w result =
  events :: "event list"
  outcome :: outcome
  rd :: ResourceData
  remote :: 'w

text \<open>
  \<open>ret\<close> ends a handler; \<open>emit\<close> puts an event before what follows it; \<open>deferred\<close> is
  \<^verbatim>\<open>defer\<close>: its event comes last, whether the body returns or panics.
\<close>

definition ret :: "outcome \<Rightarrow> ResourceData \<Rightarrow> 'w \<Rightarrow> 'w result" where
  "ret oc d w = \<lparr>events = [], outcome = oc, rd = d, remote = w\<rparr>"

definition emit :: "event \<Rightarrow> 'w result \<Rightarrow> 'w result" where
  "emit e r = r\<lparr>events := e # events r\<rparr>"

definition deferred :: "event \<Rightarrow> 'w result \<Rightarrow> 'w result" where
  "deferred e r = r\<lparr>events := events r @ [e]\<rparr>"

section \<open>Models of the generated SDK\<close>

text \<open>
  The generated models share one shape: an envelope with \<^verbatim>\<open>Id\<close> and \<^verbatim>\<open>Properties\<close>
  pointers, and, for a SQL child resource, properties that hold a \<^verbatim>\<open>Resource\<close> pointer.
  Only the fields the handlers touch are kept.
\<close>

record Capability =
  Name :: "string option"

record DatabaseAccountGetProperties =
  Capabilities :: "Capability slice option"

record SqlDatabaseGetPropertiesResource =
  Id :: string

record SqlResourceBody =
  Body :: "string option"

record SqlTriggerGetPropertiesResource = SqlResourceBody +
  TriggerOperation :: "string option"
  TriggerType :: "string option"

record SqlRoleAssignmentResource =
  PrincipalId :: "string option"
  RoleDefinitionId :: "string option"
  Scope :: "string option"

record Permission =
  DataActions :: "string slice option"

record SqlRoleDefinitionResource =
  RoleName :: "string option"
  AssignableScopes :: "string slice option"
  Permissions :: "Permission slice option"
  Type :: "string option"

record AutoscaleSettings =
  MaxThroughput :: "int option"

record ThroughputSettingsResource =
  Throughput :: "int option"
  AutoscaleSettings :: "AutoscaleSettings option"

record RestorableLocationResource =
  CreationTime :: "string option"
  DeletionTime :: "string option"
  LocationName :: "string option"
  RegionalDatabaseAccountInstanceId :: "string option"

record RestorableDatabaseAccountProperties =
  AccountName :: "string option"
  ApiType :: "string option"
  CreationTime :: "string option"
  DeletionTime :: "string option"
  RestorableLocations :: "RestorableLocationResource slice option"

record 'r GetProperties =
  Resource :: "'r option"

record 'p GetResults =
  Id :: "string option"
  Properties :: "'p option"

type_synonym DatabaseAccountGetResults = "DatabaseAccountGetProperties GetResults"
type_synonym SqlTriggerGetResults = "SqlTriggerGetPropertiesResource GetProperties GetResults"
type_synonym SqlUserDefinedFunctionGetResults = "SqlResourceBody GetProperties GetResults"
type_synonym SqlStoredProcedureGetResults = "SqlResourceBody GetProperties GetResults"
type_synonym SqlDatabaseGetResults = "SqlDatabaseGetPropertiesResource GetProperties GetResults"
type_synonym SqlRoleAssignmentGetResults = "SqlRoleAssignmentResource GetResults"
type_synonym SqlRoleDefinitionGetResults = "SqlRoleDefinitionResource GetResults"
type_synonym ThroughputSettingsGetResults = "ThroughputSettingsResource GetProperties GetResults"
type_synonym RestorableDatabaseAccountGetResult = "RestorableDatabaseAccountProperties GetResults"

text \<open>
  The request bodies, each with the fields the handlers fill, in the order of the struct
  literal: trigger (Id, Body, TriggerType, TriggerOperation), user-defined function and
  stored procedure (Id, Body), role assignment (PrincipalId, RoleDefinitionId, Scope),
  role definition (RoleName, AssignableScopes, Permissions, Type), SQL database
  (Id, Options.Throughput, Options.AutoScaleSettings).
\<close>

datatype SqlTriggerCreateUpdateParameters =
  SqlTriggerCreateUpdateParameters string "string option" "string option" "string option"

datatype SqlUserDefinedFunctionCreateUpdateParameters =
  SqlUserDefinedFunctionCreateUpdateParameters string "string option"

datatype SqlStoredProcedureCreateUpdateParameters =
  SqlStoredProcedureCreateUpdateParameters string "string option"

datatype SqlRoleAssignmentCreateUpdateParameters =
  SqlRoleAssignmentCreateUpdateParameters "string option" "string option" "string option"

datatype SqlRoleDefinitionCreateUpdateParameters =
  SqlRoleDefinitionCreateUpdateParameters "string option" "string slice option"
    "Permission slice option" "string option"

datatype SqlDatabaseCreateUpdateParameters =
  SqlDatabaseCreateUpdateParameters string "int option" "AutoscaleSettings option"

type_synonym ThroughputSettingsUpdateParameters = ThroughputSettingsResource

section \<open>Responses and clients\<close>

text \<open>
  A response of a client method carries \<^verbatim>\<open>HttpResponse\<close> (nil, or a response with its
  status code) and either a \<^verbatim>\<open>Model\<close> pointer or a \<^verbatim>\<open>Poller\<close>; the method returns it
  together with an error. The poller is given by what its \<^verbatim>\<open>PollUntilDone()\<close> returns.
\<close>

record HttpResult =
  HttpResponse :: "nat option"

record 'm GetOperationResponse = HttpResult +
  Model :: "'m option"

record PollerOperationResponse = HttpResult +
  Poller :: "error option"

text \<open>
  Modelled from the spec: \<^verbatim>\<open>response.WasNotFound\<close> is not under src/; a response is
  "not found" when it is present and its status code is 404.
\<close>

definition WasNotFound :: "nat option \<Rightarrow> bool" where
  "WasNotFound resp = (case resp of None \<Rightarrow> False | Some code \<Rightarrow> code = 404)"

text \<open>
  The remote API is a state \<^typ>\<open>'w\<close> that every call of a client method reads and may
  change; what a method answers is up to the remote.
\<close>

type_synonym ('w, 'm) get_method =
  "resource_id \<Rightarrow> 'w \<Rightarrow> ('m GetOperationResponse \<times> error option) \<times> 'w"

type_synonym ('w, 'p) put_method =
  "resource_id \<Rightarrow> 'p \<Rightarrow> 'w \<Rightarrow> (PollerOperationResponse \<times> error option) \<times> 'w"

type_synonym 'w delete_method =
  "resource_id \<Rightarrow> 'w \<Rightarrow> (PollerOperationResponse \<times> error option) \<times> 'w"

record 'w CosmosDBClient =
  SqlResourcesGetSqlTrigger :: "('w, SqlTriggerGetResults) get_method"
  SqlResourcesCreateUpdateSqlTrigger :: "('w, SqlTriggerCreateUpdateParameters) put_method"
  SqlResourcesDeleteSqlTrigger :: "'w delete_method"
  SqlResourcesGetSqlUserDefinedFunction :: "('w, SqlUserDefinedFunctionGetResults) get_method"
  SqlResourcesCreateUpdateSqlUserDefinedFunction ::
    "('w, SqlUserDefinedFunctionCreateUpdateParameters) put_method"
  SqlResourcesDeleteSqlUserDefinedFunction :: "'w delete_method"
  SqlResourcesGetSqlStoredProcedure :: "('w, SqlStoredProcedureGetResults) get_method"
  SqlResourcesCreateUpdateSqlStoredProcedure ::
    "('w, SqlStoredProcedureCreateUpdateParameters) put_method"
  SqlResourcesDeleteSqlStoredProcedure :: "'w delete_method"
  SqlResourcesGetSqlDatabase :: "('w, SqlDatabaseGetResults) get_method"
  SqlResourcesCreateUpdateSqlDatabase :: "('w, SqlDatabaseCreateUpdateParameters) put_method"
  SqlResourcesDeleteSqlDatabase :: "'w delete_method"
  DatabaseAccountsGet :: "('w, DatabaseAccountGetResults) get_method"
  SqlResourcesGetSqlDatabaseThroughput :: "('w, ThroughputSettingsGetResults) get_method"
  SqlResourcesUpdateSqlDatabaseThroughput ::
    "('w, ThroughputSettingsUpdateParameters) put_method"

record 'w RbacsClient =
  SqlResourcesGetSqlRoleAssignment :: "('w, SqlRoleAssignmentGetResults) get_method"
  SqlResourcesCreateUpdateSqlRoleAssignment ::
    "('w, SqlRoleAssignmentCreateUpdateParameters) put_method"
  SqlResourcesDeleteSqlRoleAssignment :: "'w delete_method"
  SqlResourcesGetSqlRoleDefinition :: "('w, SqlRoleDefinitionGetResults) get_method"
  SqlResourcesCreateUpdateSqlRoleDefinition ::
    "('w, SqlRoleDefinitionCreateUpdateParameters) put_method"
  SqlResourcesDeleteSqlRoleDefinition :: "'w delete_method"

text \<open>\<^verbatim>\<open>meta.(*clients.Client)\<close>: the subscription and the two clients the handlers use.\<close>

record 'w Client =
  Account_SubscriptionId :: string
  Cosmos_CosmosDBClient :: "'w CosmosDBClient"
  Cosmos_RbacsClient :: "'w RbacsClient"

section \<open>Declarations the handlers import\<close>

text \<open>
  \<^verbatim>\<open>utils.ExpandStringSlice\<close> and \<^verbatim>\<open>utils.FlattenStringSlice\<close> are called by the code
  below and declared outside of it: they are parameters of every function that calls
  them. Expanding may panic (it asserts that each item is a string).
\<close>

record utils =
  ExpandStringSlice :: "val slice \<Rightarrow> panic + string slice option"
  FlattenStringSlice :: "string slice option \<Rightarrow> val slice"

text \<open>
  The other declarations the handlers use and do not contain, as parameters: the
  identifier codec (\<^verbatim>\<open>id.ID()\<close> and the parsers), \<^verbatim>\<open>uuid.GenerateUUID()\<close> (its
  result), the constant \<^verbatim>\<open>CosmosDbAccountResourceName\<close>, and the throughput helpers of
  package \<^verbatim>\<open>common\<close>.
\<close>

record deps =
  ID :: "resource_id \<Rightarrow> string"
  ParseContainerID :: "string \<Rightarrow> error + resource_id"
  ParseTriggerID :: "string \<Rightarrow> error + resource_id"
  ParseUserDefinedFunctionID :: "string \<Rightarrow> error + resource_id"
  ParseStoredProcedureID :: "string \<Rightarrow> error + resource_id"
  ParseSqlDatabaseID :: "string \<Rightarrow> error + resource_id"
  ParseAccountID :: "string \<Rightarrow> error + resource_id"
  ParseSqlRoleDefinitionID :: "string \<Rightarrow> error + resource_id"
  GenerateUUID :: "error + string"
  CosmosDbAccountResourceName :: string
  utils_pkg :: utils
  ConvertThroughputFromResourceData :: "val \<Rightarrow> int option"
  ExpandCosmosDbAutoscaleSettings :: "ResourceData \<Rightarrow> AutoscaleSettings option"
  CheckForChangeFromAutoscaleAndManualThroughput :: "ResourceData \<Rightarrow> error option"
  HasThroughputChange :: "ResourceData \<Rightarrow> bool"
  ExpandCosmosDBThroughputSettingsUpdateParameters ::
    "ResourceData \<Rightarrow> ThroughputSettingsUpdateParameters option"
  SetResourceDataThroughputFromResponse ::
    "ThroughputSettingsGetResults \<Rightarrow> ResourceData \<Rightarrow> ResourceData"

section \<open>common/capabilities.go\<close>

text \<open>The loop of \<^verbatim>\<open>IsServerlessCapacityMode\<close> over \<^verbatim>\<open>*props.Capabilities\<close>.\<close>

fun IsServerlessCapacityMode_range :: "Capability list \<Rightarrow> bool" where
  "IsServerlessCapacityMode_range [] = False"
| "IsServerlessCapacityMode_range (v # vs) =
     (if Name v \<noteq> None \<and> the (Name v) = ''EnableServerless'' then True
      else IsServerlessCapacityMode_range vs)"

definition IsServerlessCapacityMode :: "DatabaseAccountGetResults \<Rightarrow> bool" where
  "IsServerlessCapacityMode accResp =
     (case Properties accResp of
        None \<Rightarrow> False
      | Some props \<Rightarrow>
          (if Capabilities props \<noteq> None
           then IsServerlessCapacityMode_range (elems (the (Capabilities props)))
           else False))"

section \<open>Role-definition permissions: expand and flatten\<close>

text \<open>
  \<^verbatim>\<open>expandSqlRoleDefinitionPermissions\<close> asserts that each item is a map and that its
  \<^verbatim>\<open>"data_actions"\<close> entry is a \<^verbatim>\<open>*pluginsdk.Set\<close>; a key the map lacks gives the nil
  interface, on which the assertion fails as well.
\<close>

fun expandSqlRoleDefinitionPermissions_range ::
  "utils \<Rightarrow> val list \<Rightarrow> Permission slice \<Rightarrow> panic + Permission slice" where
  "expandSqlRoleDefinitionPermissions_range u [] results = Inr results"
| "expandSqlRoleDefinitionPermissions_range u (item # rest) results =
     (case item of
        VMap v \<Rightarrow>
          (case map_of v ''data_actions'' of
             Some (VSet xs) \<Rightarrow>
               (case ExpandStringSlice u (Slice xs) of
                  Inl p \<Rightarrow> Inl p
                | Inr da \<Rightarrow>
                    expandSqlRoleDefinitionPermissions_range u rest
                      (append_slice results \<lparr>DataActions = da\<rparr>))
           | _ \<Rightarrow> Inl TypeAssertionFailed)
      | _ \<Rightarrow> Inl TypeAssertionFailed)"

definition expandSqlRoleDefinitionPermissions ::
  "utils \<Rightarrow> val slice \<Rightarrow> panic + Permission slice option" where
  "expandSqlRoleDefinitionPermissions u input =
     (case expandSqlRoleDefinitionPermissions_range u (elems input) make0 of
        Inl p \<Rightarrow> Inl p
      | Inr results \<Rightarrow> Inr (Some results))"

fun flattenSqlRoleDefinitionPermissions_range ::
  "utils \<Rightarrow> Permission list \<Rightarrow> val slice \<Rightarrow> val slice" where
  "flattenSqlRoleDefinitionPermissions_range u [] results = results"
| "flattenSqlRoleDefinitionPermissions_range u (item # rest) results =
     flattenSqlRoleDefinitionPermissions_range u rest
       (append_slice results
          (VMap [(''data_actions'', VSlice (FlattenStringSlice u (DataActions item)))]))"

definition flattenSqlRoleDefinitionPermissions ::
  "utils \<Rightarrow> Permission slice option \<Rightarrow> val slice" where
  "flattenSqlRoleDefinitionPermissions u input =
     (let results = make0 in
      if input = None then results
      else flattenSqlRoleDefinitionPermissions_range u (elems (the input)) results)"

section \<open>Restorable database accounts: flatten\<close>

text \<open>
  Both functions take the length of \<^verbatim>\<open>*input\<close> before anything else; on a nil pointer
  that dereference panics. The string variables start at the zero value \<^verbatim>\<open>""\<close> and
  take the value of each pointer that is not nil.
\<close>

definition deref_or_zero :: "string option \<Rightarrow> string" where
  "deref_or_zero p = (if p \<noteq> None then the p else '''')"

fun flattenCosmosDbRestorableDatabaseAccountsRestorableLocations_range ::
  "RestorableLocationResource list \<Rightarrow> val slice \<Rightarrow> val slice" where
  "flattenCosmosDbRestorableDatabaseAccountsRestorableLocations_range [] result = result"
| "flattenCosmosDbRestorableDatabaseAccountsRestorableLocations_range (item # rest) result =
     (let location = deref_or_zero (LocationName item);
          regionalDatabaseAccountInstanceId =
            deref_or_zero (RegionalDatabaseAccountInstanceId item);
          creationTime = deref_or_zero (RestorableLocationResource.CreationTime item);
          deletionTime = deref_or_zero (RestorableLocationResource.DeletionTime item)
      in flattenCosmosDbRestorableDatabaseAccountsRestorableLocations_range rest
           (append_slice result
              (VMap [(''creation_time'', VString creationTime),
                     (''deletion_time'', VString deletionTime),
                     (''location'', VString location),
                     (''regional_database_account_instance_id'',
                        VString regionalDatabaseAccountInstanceId)])))"

definition flattenCosmosDbRestorableDatabaseAccountsRestorableLocations ::
  "RestorableLocationResource slice option \<Rightarrow> panic + val slice" where
  "flattenCosmosDbRestorableDatabaseAccountsRestorableLocations input =
     (let result = make0 in
      case input of
        None \<Rightarrow> Inl NilPointerDereference
      | Some s \<Rightarrow>
          if length (elems s) = 0 then Inr result
          else Inr (flattenCosmosDbRestorableDatabaseAccountsRestorableLocations_range
                      (elems s) result))"

fun flattenCosmosDbRestorableDatabaseAccounts_range ::
  "RestorableDatabaseAccountGetResult list \<Rightarrow> string \<Rightarrow> val slice \<Rightarrow> panic + val slice" where
  "flattenCosmosDbRestorableDatabaseAccounts_range [] accountName result = Inr result"
| "flattenCosmosDbRestorableDatabaseAccounts_range (item # rest) accountName result =
     (case Properties item of
        None \<Rightarrow> flattenCosmosDbRestorableDatabaseAccounts_range rest accountName result
      | Some props \<Rightarrow>
          if AccountName props \<noteq> None \<and> the (AccountName props) = accountName then
            (let id' = deref_or_zero (GetResults.Id item);
                 apiType = deref_or_zero (ApiType props);
                 creationTime =
                   deref_or_zero (RestorableDatabaseAccountProperties.CreationTime props);
                 deletionTime =
                   deref_or_zero (RestorableDatabaseAccountProperties.DeletionTime props)
             in case flattenCosmosDbRestorableDatabaseAccountsRestorableLocations
                       (RestorableLocations props) of
                  Inl p \<Rightarrow> Inl p
                | Inr locations \<Rightarrow>
                    flattenCosmosDbRestorableDatabaseAccounts_range rest accountName
                      (append_slice result
                         (VMap [(''id'', VString id'),
                                (''api_type'', VString apiType),
                                (''creation_time'', VString creationTime),
                                (''deletion_time'', VString deletionTime),
                                (''restorable_locations'', VSlice locations)])))
          else flattenCosmosDbRestorableDatabaseAccounts_range rest accountName result)"

definition flattenCosmosDbRestorableDatabaseAccounts ::
  "RestorableDatabaseAccountGetResult slice option \<Rightarrow> string \<Rightarrow> panic + val slice" where
  "flattenCosmosDbRestorableDatabaseAccounts input accountName =
     (let result = make0 in
      case input of
        None \<Rightarrow> Inl NilPointerDereference
      | Some s \<Rightarrow>
          if length (elems s) = 0 then Inr result
          else flattenCosmosDbRestorableDatabaseAccounts_range (elems s) accountName result)"

section \<open>Shorthands for the ends of a handler\<close>

definition succeed :: "ResourceData \<Rightarrow> 'w \<Rightarrow> 'w result" where
  "succeed d w = ret (Returned None) d w"

definition fail :: "error \<Rightarrow> ResourceData \<Rightarrow> 'w \<Rightarrow> 'w result" where
  "fail e d w = ret (Returned (Some e)) d w"

definition crash :: "panic \<Rightarrow> ResourceData \<Rightarrow> 'w \<Rightarrow> 'w result" where
  "crash p d w = ret (Panicked p) d w"

text \<open>\<^verbatim>\<open>d.SetId(s)\<close>, and then the rest of the handler on the changed data.\<close>

definition set_id :: "string \<Rightarrow> ResourceData \<Rightarrow> (ResourceData \<Rightarrow> 'w result) \<Rightarrow> 'w result" where
  "set_id s d k = emit (SetIdTo s) (k (SetId d s))"

section \<open>cosmosdb_sql_trigger_resource.go\<close>

definition resourceCosmosDbSQLTriggerRead ::
  "deps \<Rightarrow> ResourceData \<Rightarrow> 'w Client \<Rightarrow> 'w \<Rightarrow> 'w result" where
  "resourceCosmosDbSQLTriggerRead sdk d meta w =
     (let client = Cosmos_CosmosDBClient meta in
      case ParseTriggerID sdk (rd_Id d) of
        Inl err \<Rightarrow> fail err d w
      | Inr rid \<Rightarrow>
          (case SqlResourcesGetSqlTrigger client rid w of
             ((resp, err), w1) \<Rightarrow>
               emit (ClientCall ''SqlResourcesGetSqlTrigger'' rid)
                 (if err \<noteq> None then
                    (if WasNotFound (HttpResponse resp)
                     then set_id '''' d (\<lambda>d. succeed d w1)
                     else fail (Errorf ''retrieving CosmosDb SQLTrigger %q: %+v''
                                  [ArgId rid, ArgE (the err)]) d w1)
                  else
                    (let containerId =
                           ContainerId (SubscriptionId rid) (ResourceGroupName rid)
                             (DatabaseAccountName rid) (SqlDatabaseName rid) (ContainerName rid);
                         d = Set d ''name'' (VString (TriggerName rid));
                         d = Set d ''container_id'' (VString (ID sdk containerId))
                     in case Model resp of
                          None \<Rightarrow> crash NilPointerDereference d w1
                        | Some model \<Rightarrow>
                            (case Properties model of
                               None \<Rightarrow> succeed d w1
                             | Some props \<Rightarrow>
                                 (case Resource props of
                                    None \<Rightarrow> succeed d w1
                                  | Some res \<Rightarrow>
                                      (let d = Set d ''body'' (ptr (Body res));
                                           d = Set d ''operation'' (ptr (TriggerOperation res));
                                           d = Set d ''type'' (ptr (TriggerType res))
                                       in succeed d w1)))))))"

text \<open>The part of \<^verbatim>\<open>resourceCosmosDbSQLTriggerCreateUpdate\<close> after the existence check.\<close>

definition resourceCosmosDbSQLTriggerCreateUpdate_put ::
  "deps \<Rightarrow> ResourceData \<Rightarrow> 'w Client \<Rightarrow> resource_id \<Rightarrow> 'w \<Rightarrow> 'w result" where
  "resourceCosmosDbSQLTriggerCreateUpdate_put sdk d meta rid w =
     (let client = Cosmos_CosmosDBClient meta;
          createUpdateSqlTriggerParameters =
            SqlTriggerCreateUpdateParameters (GetString d ''name'')
              (Some (GetString d ''body'')) (Some (GetString d ''type''))
              (Some (GetString d ''operation''))
      in case SqlResourcesCreateUpdateSqlTrigger client rid createUpdateSqlTriggerParameters w of
           ((future, err), w1) \<Rightarrow>
             emit (ClientCall ''SqlResourcesCreateUpdateSqlTrigger'' rid)
               (if err \<noteq> None then
                  fail (Errorf ''creating/updating CosmosDb SQLTrigger %q: %+v''
                          [ArgId rid, ArgE (the err)]) d w1
                else
                  emit PollUntilDone
                    (if Poller future \<noteq> None then
                       fail (Errorf ''waiting for creation/update of the CosmosDb SQLTrigger %q: %+v''
                               [ArgId rid, ArgE (the (Poller future))]) d w1
                     else
                       set_id (ID sdk rid) d
                         (\<lambda>d. resourceCosmosDbSQLTriggerRead sdk d meta w1))))"

text \<open>
  The error of \<^verbatim>\<open>ParseContainerID\<close> is dropped; without a container identifier the
  next line dereferences nil.
\<close>

definition resourceCosmosDbSQLTriggerCreateUpdate ::
  "deps \<Rightarrow> ResourceData \<Rightarrow> 'w Client \<Rightarrow> 'w \<Rightarrow> 'w result" where
  "resourceCosmosDbSQLTriggerCreateUpdate sdk d meta w =
     (let subscriptionId = Account_SubscriptionId meta;
          client = Cosmos_CosmosDBClient meta;
          name = GetString d ''name''
      in case ParseContainerID sdk (GetString d ''container_id'') of
           Inl _ \<Rightarrow> crash NilPointerDereference d w
         | Inr containerId \<Rightarrow>
             (let rid = TriggerId subscriptionId (ResourceGroupName containerId)
                         (DatabaseAccountName containerId) (SqlDatabaseName containerId)
                         (ContainerName containerId) name
              in if rd_IsNewResource d then
                   (case SqlResourcesGetSqlTrigger client rid w of
                      ((existing, err), w1) \<Rightarrow>
                        emit (ClientCall ''SqlResourcesGetSqlTrigger'' rid)
                          (if err \<noteq> None \<and> \<not> WasNotFound (HttpResponse existing) then
                             fail (Errorf ''checking for existing CosmosDb SQLTrigger %q: %+v''
                                     [ArgId rid, ArgE (the err)]) d w1
                           else if \<not> WasNotFound (HttpResponse existing) then
                             fail (ImportAsExistsError ''azurerm_cosmosdb_sql_trigger''
                                     (ID sdk rid)) d w1
                           else resourceCosmosDbSQLTriggerCreateUpdate_put sdk d meta rid w1))
                 else resourceCosmosDbSQLTriggerCreateUpdate_put sdk d meta rid w))"

definition resourceCosmosDbSQLTriggerDelete ::
  "deps \<Rightarrow> ResourceData \<Rightarrow> 'w Client \<Rightarrow> 'w \<Rightarrow> 'w result" where
  "resourceCosmosDbSQLTriggerDelete sdk d meta w =
     (let client = Cosmos_CosmosDBClient meta in
      case ParseTriggerID sdk (rd_Id d) of
        Inl err \<Rightarrow> fail err d w
      | Inr rid \<Rightarrow>
          (case SqlResourcesDeleteSqlTrigger client rid w of
             ((future, err), w1) \<Rightarrow>
               emit (ClientCall ''SqlResourcesDeleteSqlTrigger'' rid)
                 (if err \<noteq> None then
                    fail (Errorf ''deleting CosmosDb SQLResourcesSQLTrigger %q: %+v''
                            [ArgId rid, ArgE (the err)]) d w1
                  else
                    emit PollUntilDone
                      (if Poller future \<noteq> None then
                         fail (Errorf ''waiting for deletion of the CosmosDb SQLResourcesSQLTrigger %q: %+v''
                                 [ArgId rid, ArgE (the (Poller future))]) d w1
                       else succeed d w1))))"

section \<open>The SQL function resource\<close>

definition resourceCosmosDbSQLFunctionRead ::
  "deps \<Rightarrow> ResourceData \<Rightarrow> 'w Client \<Rightarrow> 'w \<Rightarrow> 'w result" where
  "resourceCosmosDbSQLFunctionRead sdk d meta w =
     (let client = Cosmos_CosmosDBClient meta in
      case ParseUserDefinedFunctionID sdk (rd_Id d) of
        Inl err \<Rightarrow> fail err d w
      | Inr rid \<Rightarrow>
          (case SqlResourcesGetSqlUserDefinedFunction client rid w of
             ((resp, err), w1) \<Rightarrow>
               emit (ClientCall ''SqlResourcesGetSqlUserDefinedFunction'' rid)
                 (if err \<noteq> None then
                    (if WasNotFound (HttpResponse resp)
                     then set_id '''' d (\<lambda>d. succeed d w1)
                     else fail (Errorf ''retrieving CosmosDb SqlFunction %q: %+v''
                                  [ArgId rid, ArgE (the err)]) d w1)
                  else
                    (let containerId =
                           ContainerId (SubscriptionId rid) (ResourceGroupName rid)
                             (DatabaseAccountName rid) (SqlDatabaseName rid) (ContainerName rid);
                         d = Set d ''name'' (VString (UserDefinedFunctionName rid));
                         d = Set d ''container_id'' (VString (ID sdk containerId))
                     in case Model resp of
                          None \<Rightarrow> crash NilPointerDereference d w1
                        | Some model \<Rightarrow>
                            (case Properties model of
                               None \<Rightarrow> succeed d w1
                             | Some props \<Rightarrow>
                                 (case Resource props of
                                    None \<Rightarrow> succeed d w1
                                  | Some res \<Rightarrow>
                                      succeed (Set d ''body'' (ptr (Body res))) w1))))))"

definition resourceCosmosDbSQLFunctionCreateUpdate_put ::
  "deps \<Rightarrow> ResourceData \<Rightarrow> 'w Client \<Rightarrow> resource_id \<Rightarrow> 'w \<Rightarrow> 'w result" where
  "resourceCosmosDbSQLFunctionCreateUpdate_put sdk d meta rid w =
     (let client = Cosmos_CosmosDBClient meta;
          createUpdateSqlUserDefinedFunctionParameters =
            SqlUserDefinedFunctionCreateUpdateParameters (GetString d ''name'')
              (Some (GetString d ''body''))
      in case SqlResourcesCreateUpdateSqlUserDefinedFunction client rid
                createUpdateSqlUserDefinedFunctionParameters w of
           ((future, err), w1) \<Rightarrow>
             emit (ClientCall ''SqlResourcesCreateUpdateSqlUserDefinedFunction'' rid)
               (if err \<noteq> None then
                  fail (Errorf ''creating/updating CosmosDb SqlFunction %q: %+v''
                          [ArgId rid, ArgE (the err)]) d w1
                else
                  emit PollUntilDone
                    (if Poller future \<noteq> None then
                       fail (Errorf ''waiting for creation/update of the CosmosDb SqlFunction %q: %+v''
                               [ArgId rid, ArgE (the (Poller future))]) d w1
                     else
                       set_id (ID sdk rid) d
                         (\<lambda>d. resourceCosmosDbSQLFunctionRead sdk d meta w1))))"

definition resourceCosmosDbSQLFunctionCreateUpdate ::
  "deps \<Rightarrow> ResourceData \<Rightarrow> 'w Client \<Rightarrow> 'w \<Rightarrow> 'w result" where
  "resourceCosmosDbSQLFunctionCreateUpdate sdk d meta w =
     (let client = Cosmos_CosmosDBClient meta;
          subscriptionId = Account_SubscriptionId meta;
          name = GetString d ''name''
      in case ParseContainerID sdk (GetString d ''container_id'') of
           Inl _ \<Rightarrow> crash NilPointerDereference d w
         | Inr containerId \<Rightarrow>
             (let rid = UserDefinedFunctionId subscriptionId (ResourceGroupName containerId)
                         (DatabaseAccountName containerId) (SqlDatabaseName containerId)
                         (ContainerName containerId) name
              in if rd_IsNewResource d then
                   (case SqlResourcesGetSqlUserDefinedFunction client rid w of
                      ((existing, err), w1) \<Rightarrow>
                        emit (ClientCall ''SqlResourcesGetSqlUserDefinedFunction'' rid)
                          (if err \<noteq> None \<and> \<not> WasNotFound (HttpResponse existing) then
                             fail (Errorf ''checking for existing CosmosDb SqlFunction %q: %+v''
                                     [ArgId rid, ArgE (the err)]) d w1
                           else if \<not> WasNotFound (HttpResponse existing) then
                             fail (ImportAsExistsError ''azurerm_cosmosdb_sql_function''
                                     (ID sdk rid)) d w1
                           else resourceCosmosDbSQLFunctionCreateUpdate_put sdk d meta rid w1))
                 else resourceCosmosDbSQLFunctionCreateUpdate_put sdk d meta rid w))"

definition resourceCosmosDbSQLFunctionDelete ::
  "deps \<Rightarrow> ResourceData \<Rightarrow> 'w Client \<Rightarrow> 'w \<Rightarrow> 'w result" where
  "resourceCosmosDbSQLFunctionDelete sdk d meta w =
     (let client = Cosmos_CosmosDBClient meta in
      case ParseUserDefinedFunctionID sdk (rd_Id d) of
        Inl err \<Rightarrow> fail err d w
      | Inr rid \<Rightarrow>
          (case SqlResourcesDeleteSqlUserDefinedFunction client rid w of
             ((future, err), w1) \<Rightarrow>
               emit (ClientCall ''SqlResourcesDeleteSqlUserDefinedFunction'' rid)
                 (if err \<noteq> None then
                    fail (Errorf ''deleting CosmosDb SqlFunction %q: %+v''
                            [ArgId rid, ArgE (the err)]) d w1
                  else
                    emit PollUntilDone
                      (if Poller future \<noteq> None then
                         fail (Errorf ''waiting for deletion of the CosmosDb SqlFunction %q: %+v''
                                 [ArgId rid, ArgE (the (Poller future))]) d w1
                       else succeed d w1))))"

section \<open>Conditions that dereference\<close>

text \<open>
  \<^verbatim>\<open>*p == s\<close> panics on a nil pointer. \<^verbatim>\<open>a && b\<close> evaluates \<^verbatim>\<open>b\<close> only when \<^verbatim>\<open>a\<close> is
  true, and \<^verbatim>\<open>a || b\<close> only when \<^verbatim>\<open>a\<close> is false.
\<close>

definition deref :: "'a option \<Rightarrow> panic + 'a" where
  "deref p = (case p of None \<Rightarrow> Inl NilPointerDereference | Some x \<Rightarrow> Inr x)"

definition deref_eq :: "string option \<Rightarrow> string \<Rightarrow> panic + bool" where
  "deref_eq p s = (case deref p of Inl e \<Rightarrow> Inl e | Inr x \<Rightarrow> Inr (x = s))"

definition and_then :: "bool \<Rightarrow> panic + bool \<Rightarrow> panic + bool" where
  "and_then a b = (if a then b else Inr False)"

definition or_else :: "bool \<Rightarrow> panic + bool \<Rightarrow> panic + bool" where
  "or_else a b = (if a then Inr True else b)"

section \<open>The SQL stored procedure resource\<close>

definition resourceCosmosDbSQLStoredProcedureRead ::
  "deps \<Rightarrow> ResourceData \<Rightarrow> 'w Client \<Rightarrow> 'w \<Rightarrow> 'w result" where
  "resourceCosmosDbSQLStoredProcedureRead sdk d meta w =
     (let client = Cosmos_CosmosDBClient meta in
      case ParseStoredProcedureID sdk (rd_Id d) of
        Inl err \<Rightarrow> fail err d w
      | Inr rid \<Rightarrow>
          (case SqlResourcesGetSqlStoredProcedure client rid w of
             ((resp, err), w1) \<Rightarrow>
               emit (ClientCall ''SqlResourcesGetSqlStoredProcedure'' rid)
                 (if err \<noteq> None then
                    (if WasNotFound (HttpResponse resp)
                     then set_id '''' d (\<lambda>d. succeed d w1)
                     else fail (Errorf ''retrieving SQL Stored Procedure %q (Container %q / Database %q / Account %q): %+v''
                                  [ArgS (StoredProcedureName rid), ArgS (ContainerName rid),
                                   ArgS (SqlDatabaseName rid), ArgS (DatabaseAccountName rid),
                                   ArgE (the err)]) d w1)
                  else
                    (let d = Set d ''resource_group_name'' (VString (ResourceGroupName rid));
                         d = Set d ''account_name'' (VString (DatabaseAccountName rid));
                         d = Set d ''database_name'' (VString (SqlDatabaseName rid));
                         d = Set d ''container_name'' (VString (ContainerName rid));
                         d = Set d ''name'' (VString (StoredProcedureName rid))
                     in case Model resp of
                          None \<Rightarrow> crash NilPointerDereference d w1
                        | Some model \<Rightarrow>
                            (case Properties model of
                               None \<Rightarrow> succeed d w1
                             | Some props \<Rightarrow>
                                 (case Resource props of
                                    None \<Rightarrow> succeed d w1
                                  | Some res \<Rightarrow>
                                      succeed (Set d ''body'' (ptr (Body res))) w1))))))"

definition resourceCosmosDbSQLStoredProcedureCreate ::
  "deps \<Rightarrow> ResourceData \<Rightarrow> 'w Client \<Rightarrow> 'w \<Rightarrow> 'w result" where
  "resourceCosmosDbSQLStoredProcedureCreate sdk d meta w =
     (let client = Cosmos_CosmosDBClient meta;
          subscriptionId = Account_SubscriptionId meta;
          storedProcBody = GetString d ''body'';
          rid = StoredProcedureId subscriptionId (GetString d ''resource_group_name'')
                  (GetString d ''account_name'') (GetString d ''database_name'')
                  (GetString d ''container_name'') (GetString d ''name'')
      in case SqlResourcesGetSqlStoredProcedure client rid w of
           ((existing, err), w1) \<Rightarrow>
             emit (ClientCall ''SqlResourcesGetSqlStoredProcedure'' rid)
               (if err \<noteq> None \<and> \<not> WasNotFound (HttpResponse existing) then
                  fail (Errorf ''checking for presence of %s: %+v''
                          [ArgId rid, ArgE (the err)]) d w1
                else if err = None then
                  (case Model existing of
                     None \<Rightarrow> crash NilPointerDereference d w1
                   | Some model \<Rightarrow>
                       (case and_then (Id model = None) (deref_eq (Id model) '''') of
                          Inl p \<Rightarrow> crash p d w1
                        | Inr True \<Rightarrow>
                            fail (Errorf ''generating import ID for %s'' [ArgId rid]) d w1
                        | Inr False \<Rightarrow>
                            (case deref (Id model) of
                               Inl p \<Rightarrow> crash p d w1
                             | Inr existingId \<Rightarrow>
                                 fail (ImportAsExistsError
                                         ''azurerm_cosmosdb_sql_stored_procedure'' existingId)
                                   d w1)))
                else
                  (let storedProcParams =
                         SqlStoredProcedureCreateUpdateParameters (StoredProcedureName rid)
                           (Some storedProcBody)
                   in case SqlResourcesCreateUpdateSqlStoredProcedure client rid
                             storedProcParams w1 of
                        ((future, err), w2) \<Rightarrow>
                          emit (ClientCall ''SqlResourcesCreateUpdateSqlStoredProcedure'' rid)
                            (if err \<noteq> None then
                               fail (Errorf ''creating %s: %+v'' [ArgId rid, ArgE (the err)]) d w2
                             else
                               emit PollUntilDone
                                 (if Poller future \<noteq> None then
                                    fail (Errorf ''waiting for creation of %s: %+v''
                                            [ArgId rid, ArgE (the (Poller future))]) d w2
                                  else
                                    set_id (ID sdk rid) d
                                      (\<lambda>d. resourceCosmosDbSQLStoredProcedureRead sdk d meta w2))))))"


text \<open>
  The delete handler goes on to the poller when the delete call failed with a response
  that was not found.
\<close>

definition resourceCosmosDbSQLStoredProcedureDelete ::
  "deps \<Rightarrow> ResourceData \<Rightarrow> 'w Client \<Rightarrow> 'w \<Rightarrow> 'w result" where
  "resourceCosmosDbSQLStoredProcedureDelete sdk d meta w =
     (let client = Cosmos_CosmosDBClient meta in
      case ParseStoredProcedureID sdk (rd_Id d) of
        Inl err \<Rightarrow> fail err d w
      | Inr rid \<Rightarrow>
          (case SqlResourcesDeleteSqlStoredProcedure client rid w of
             ((future, err), w1) \<Rightarrow>
               emit (ClientCall ''SqlResourcesDeleteSqlStoredProcedure'' rid)
                 (if err \<noteq> None \<and> \<not> WasNotFound (HttpResponse future) then
                    fail (Errorf ''deleting SQL Stored Procedure %q (Container %q / Database %q / Account %q): %+v''
                            [ArgS (StoredProcedureName rid), ArgS (ContainerName rid),
                             ArgS (SqlDatabaseName rid), ArgS (DatabaseAccountName rid),
                             ArgE (the err)]) d w1
                  else
                    emit PollUntilDone
                      (if Poller future \<noteq> None then
                         fail (Errorf ''waiting for deletion of SQL Stored Procedure %q (Container %q / Database %q / Account %q): %+v''
                                 [ArgS (StoredProcedureName rid), ArgS (ContainerName rid),
                                  ArgS (SqlDatabaseName rid), ArgS (DatabaseAccountName rid),
                                  ArgE (the (Poller future))]) d w1
                       else succeed d w1))))"

section \<open>The SQL database resource\<close>

text \<open>
  The throughput part shared, line for line, by \<^verbatim>\<open>resourceCosmosDbSQLDatabaseRead\<close> and
  \<^verbatim>\<open>dataSourceCosmosDbSQLDatabaseRead\<close>: from the fetch of the database account to
  the end of the handler.
\<close>

definition readAccountAndThroughput ::
  "deps \<Rightarrow> ResourceData \<Rightarrow> 'w Client \<Rightarrow> resource_id \<Rightarrow> 'w \<Rightarrow> 'w result" where
  "readAccountAndThroughput sdk d meta rid w =
     (let client = Cosmos_CosmosDBClient meta;
          subscriptionId = Account_SubscriptionId meta;
          accountId = DatabaseAccountId subscriptionId (ResourceGroupName rid)
                        (DatabaseAccountName rid)
      in case DatabaseAccountsGet client accountId w of
           ((accResp, err), w1) \<Rightarrow>
             emit (ClientCall ''DatabaseAccountsGet'' accountId)
               (if err \<noteq> None then
                  fail (Errorf ''reading CosmosDB Account %q (Resource Group %q): %+v''
                          [ArgS (DatabaseAccountName rid), ArgS (ResourceGroupName rid),
                           ArgE (the err)]) d w1
                else
                  (case Model accResp of
                     None \<Rightarrow> crash NilPointerDereference d w1
                   | Some accModel \<Rightarrow>
                       (case or_else (Id accModel = None) (deref_eq (Id accModel) '''') of
                          Inl p \<Rightarrow> crash p d w1
                        | Inr True \<Rightarrow>
                            fail (Errorf ''cosmosDB Account %q (Resource Group %q) ID is empty or nil''
                                    [ArgS (DatabaseAccountName rid),
                                     ArgS (ResourceGroupName rid)]) d w1
                        | Inr False \<Rightarrow>
                            if \<not> IsServerlessCapacityMode accModel then
                              (case SqlResourcesGetSqlDatabaseThroughput client rid w1 of
                                 ((throughputResp, err), w2) \<Rightarrow>
                                   emit (ClientCall ''SqlResourcesGetSqlDatabaseThroughput'' rid)
                                     (if err \<noteq> None then
                                        (if \<not> WasNotFound (HttpResponse throughputResp) then
                                           fail (Errorf ''reading Throughput on Cosmos SQL Database %q (Account: %q) ID: %v''
                                                   [ArgS (SqlDatabaseName rid),
                                                    ArgS (DatabaseAccountName rid),
                                                    ArgE (the err)]) d w2
                                         else
                                           (let d = Set d ''throughput'' VNil;
                                                d = Set d ''autoscale_settings'' VNil
                                            in succeed d w2))
                                      else
                                        (case Model throughputResp of
                                           None \<Rightarrow> crash NilPointerDereference d w2
                                         | Some throughputModel \<Rightarrow>
                                             succeed
                                               (SetResourceDataThroughputFromResponse sdk
                                                  throughputModel d) w2)))
                            else succeed d w1))))"

definition resourceCosmosDbSQLDatabaseRead ::
  "deps \<Rightarrow> ResourceData \<Rightarrow> 'w Client \<Rightarrow> 'w \<Rightarrow> 'w result" where
  "resourceCosmosDbSQLDatabaseRead sdk d meta w =
     (let client = Cosmos_CosmosDBClient meta in
      case ParseSqlDatabaseID sdk (rd_Id d) of
        Inl err \<Rightarrow> fail err d w
      | Inr rid \<Rightarrow>
          (case SqlResourcesGetSqlDatabase client rid w of
             ((resp, err), w1) \<Rightarrow>
               emit (ClientCall ''SqlResourcesGetSqlDatabase'' rid)
                 (if err \<noteq> None then
                    (if WasNotFound (HttpResponse resp)
                     then set_id '''' d (\<lambda>d. succeed d w1)
                     else fail (Errorf ''reading Cosmos SQL Database %q (Account: %q): %+v''
                                  [ArgS (SqlDatabaseName rid), ArgS (DatabaseAccountName rid),
                                   ArgE (the err)]) d w1)
                  else
                    (let d = Set d ''resource_group_name'' (VString (ResourceGroupName rid));
                         d = Set d ''account_name'' (VString (DatabaseAccountName rid))
                     in case Model resp of
                          None \<Rightarrow> crash NilPointerDereference d w1
                        | Some model \<Rightarrow>
                            (let d = (case Properties model of
                                        None \<Rightarrow> d
                                      | Some props \<Rightarrow>
                                          (case Resource props of
                                             None \<Rightarrow> d
                                           | Some res \<Rightarrow>
                                               Set d ''name''
                                                 (VString
                                                    (SqlDatabaseGetPropertiesResource.Id res))))
                             in readAccountAndThroughput sdk d meta rid w1)))))"

definition resourceCosmosDbSQLDatabaseCreate ::
  "deps \<Rightarrow> ResourceData \<Rightarrow> 'w Client \<Rightarrow> 'w \<Rightarrow> 'w result" where
  "resourceCosmosDbSQLDatabaseCreate sdk d meta w =
     (let client = Cosmos_CosmosDBClient meta;
          subscriptionId = Account_SubscriptionId meta;
          rid = SqlDatabaseId subscriptionId (GetString d ''resource_group_name'')
                  (GetString d ''account_name'') (GetString d ''name'')
      in case SqlResourcesGetSqlDatabase client rid w of
           ((existing, err), w1) \<Rightarrow>
             emit (ClientCall ''SqlResourcesGetSqlDatabase'' rid)
               (if err \<noteq> None \<and> \<not> WasNotFound (HttpResponse existing) then
                  fail (Errorf ''checking for presence of %s: %+v''
                          [ArgId rid, ArgE (the err)]) d w1
                else if err = None then
                  (case Model existing of
                     None \<Rightarrow> crash NilPointerDereference d w1
                   | Some model \<Rightarrow>
                       (case and_then (Id model = None) (deref_eq (Id model) '''') of
                          Inl p \<Rightarrow> crash p d w1
                        | Inr True \<Rightarrow>
                            fail (Errorf ''generating import ID for %s'' [ArgId rid]) d w1
                        | Inr False \<Rightarrow>
                            (case deref (Id model) of
                               Inl p \<Rightarrow> crash p d w1
                             | Inr existingId \<Rightarrow>
                                 fail (ImportAsExistsError
                                         ''azurerm_cosmosdb_sql_database'' existingId) d w1)))
                else
                  (let throughput =
                         (case GetOk d ''throughput'' of
                            (throughput, hasThroughput) \<Rightarrow>
                              if hasThroughput \<and> throughput \<noteq> VInt 0
                              then ConvertThroughputFromResourceData sdk throughput
                              else None);
                       autoScaleSettings =
                         (case GetOk d ''autoscale_settings'' of
                            (_, hasAutoscaleSettings) \<Rightarrow>
                              if hasAutoscaleSettings
                              then ExpandCosmosDbAutoscaleSettings sdk d
                              else None);
                       db = SqlDatabaseCreateUpdateParameters (SqlDatabaseName rid)
                              throughput autoScaleSettings
                   in case SqlResourcesCreateUpdateSqlDatabase client rid db w1 of
                        ((future, err), w2) \<Rightarrow>
                          emit (ClientCall ''SqlResourcesCreateUpdateSqlDatabase'' rid)
                            (if err \<noteq> None then
                               fail (Errorf ''issuing create/update request for %s: %+v''
                                       [ArgId rid, ArgE (the err)]) d w2
                             else
                               emit PollUntilDone
                                 (if Poller future \<noteq> None then
                                    fail (Errorf ''waiting on create/update future for %s: %+v''
                                            [ArgId rid, ArgE (the (Poller future))]) d w2
                                  else
                                    set_id (ID sdk rid) d
                                      (\<lambda>d. resourceCosmosDbSQLDatabaseRead sdk d meta w2))))))"


definition resourceCosmosDbSQLDatabaseDelete ::
  "deps \<Rightarrow> ResourceData \<Rightarrow> 'w Client \<Rightarrow> 'w \<Rightarrow> 'w result" where
  "resourceCosmosDbSQLDatabaseDelete sdk d meta w =
     (let client = Cosmos_CosmosDBClient meta in
      case ParseSqlDatabaseID sdk (rd_Id d) of
        Inl err \<Rightarrow> fail err d w
      | Inr rid \<Rightarrow>
          (case SqlResourcesDeleteSqlDatabase client rid w of
             ((future, err), w1) \<Rightarrow>
               emit (ClientCall ''SqlResourcesDeleteSqlDatabase'' rid)
                 (if err \<noteq> None \<and> \<not> WasNotFound (HttpResponse future) then
                    fail (Errorf ''deleting Cosmos SQL Database %q (Account: %q): %+v''
                            [ArgS (SqlDatabaseName rid), ArgS (DatabaseAccountName rid),
                             ArgE (the err)]) d w1
                  else
                    emit PollUntilDone
                      (if Poller future \<noteq> None then
                         fail (Errorf ''waiting on delete future for Cosmos SQL Database %q (Account: %q): %+v''
                                 [ArgS (SqlDatabaseName rid), ArgS (DatabaseAccountName rid),
                                  ArgE (the (Poller future))]) d w1
                       else succeed d w1))))"

section \<open>cosmosdb_sql_database_data_source.go\<close>

definition dataSourceCosmosDbSQLDatabaseRead ::
  "deps \<Rightarrow> ResourceData \<Rightarrow> 'w Client \<Rightarrow> 'w \<Rightarrow> 'w result" where
  "dataSourceCosmosDbSQLDatabaseRead sdk d meta w =
     (let client = Cosmos_CosmosDBClient meta;
          subscriptionId = Account_SubscriptionId meta;
          rid = SqlDatabaseId subscriptionId (GetString d ''resource_group_name'')
                  (GetString d ''account_name'') (GetString d ''name'')
      in case SqlResourcesGetSqlDatabase client rid w of
           ((resp, err), w1) \<Rightarrow>
             emit (ClientCall ''SqlResourcesGetSqlDatabase'' rid)
               (if err \<noteq> None then
                  (if WasNotFound (HttpResponse resp)
                   then fail (Errorf ''%s was not found'' [ArgId rid]) d w1
                   else fail (Errorf ''reading Cosmos SQL Database %q (Account: %q): %+v''
                                [ArgS (SqlDatabaseName rid), ArgS (DatabaseAccountName rid),
                                 ArgE (the err)]) d w1)
                else
                  set_id (ID sdk rid) d
                    (\<lambda>d.
                       let d = Set d ''resource_group_name'' (VString (ResourceGroupName rid));
                           d = Set d ''account_name'' (VString (DatabaseAccountName rid))
                       in case Model resp of
                            None \<Rightarrow> crash NilPointerDereference d w1
                          | Some model \<Rightarrow>
                              (let d = (case Properties model of
                                          None \<Rightarrow> d
                                        | Some props \<Rightarrow>
                                            (case Resource props of
                                               None \<Rightarrow> d
                                             | Some res \<Rightarrow>
                                                 Set d ''name''
                                                   (VString
                                                      (SqlDatabaseGetPropertiesResource.Id res))))
                               in readAccountAndThroughput sdk d meta rid w1))))"

section \<open>The SQL role assignment resource\<close>

text \<open>
  The handlers of the role resources take the lock named by the database account and by
  \<^verbatim>\<open>CosmosDbAccountResourceName\<close> with \<^verbatim>\<open>locks.ByName\<close> and defer
  \<^verbatim>\<open>locks.UnlockByName\<close> right after.
\<close>

definition resourceCosmosDbSQLRoleAssignmentRead ::
  "deps \<Rightarrow> ResourceData \<Rightarrow> 'w Client \<Rightarrow> 'w \<Rightarrow> 'w result" where
  "resourceCosmosDbSQLRoleAssignmentRead sdk d meta w =
     (let client = Cosmos_RbacsClient meta in
      case ParseAccountID sdk (rd_Id d) of
        Inl err \<Rightarrow> fail err d w
      | Inr rid \<Rightarrow>
          (case SqlResourcesGetSqlRoleAssignment client rid w of
             ((resp, err), w1) \<Rightarrow>
               emit (ClientCall ''SqlResourcesGetSqlRoleAssignment'' rid)
                 (if err \<noteq> None then
                    (if WasNotFound (HttpResponse resp)
                     then set_id '''' d (\<lambda>d. succeed d w1)
                     else fail (Errorf ''retrieving %s: %+v'' [ArgId rid, ArgE (the err)]) d w1)
                  else
                    (let d = Set d ''name'' (VString (RoleAssignmentId rid));
                         d = Set d ''resource_group_name'' (VString (ResourceGroupName rid));
                         d = Set d ''account_name'' (VString (DatabaseAccountName rid))
                     in case Model resp of
                          None \<Rightarrow> crash NilPointerDereference d w1
                        | Some model \<Rightarrow>
                            (case Properties model of
                               None \<Rightarrow> succeed d w1
                             | Some props \<Rightarrow>
                                 (let d = Set d ''principal_id'' (ptr (PrincipalId props));
                                      d = Set d ''role_definition_id''
                                            (ptr (SqlRoleAssignmentResource.RoleDefinitionId props));
                                      d = Set d ''scope'' (ptr (Scope props))
                                  in succeed d w1))))))"

text \<open>
  The part of \<^verbatim>\<open>resourceCosmosDbSQLRoleAssignmentCreate\<close> that runs while the lock is
  held, from the line after the deferred unlock to the end.
\<close>

definition resourceCosmosDbSQLRoleAssignmentCreate_locked ::
  "deps \<Rightarrow> ResourceData \<Rightarrow> 'w Client \<Rightarrow> resource_id \<Rightarrow> 'w \<Rightarrow> 'w result" where
  "resourceCosmosDbSQLRoleAssignmentCreate_locked sdk d meta rid w =
     (let client = Cosmos_RbacsClient meta in
      case SqlResourcesGetSqlRoleAssignment client rid w of
      ((existing, err), w1) \<Rightarrow>
        emit (ClientCall ''SqlResourcesGetSqlRoleAssignment'' rid)
          (if err \<noteq> None \<and> \<not> WasNotFound (HttpResponse existing) then
             fail (Errorf ''checking for presence of existing %s: %+v''
                     [ArgId rid, ArgE (the err)]) d w1
           else if \<not> WasNotFound (HttpResponse existing) then
             fail (ImportAsExistsError ''azurerm_cosmosdb_sql_role_assignment''
                     (ID sdk rid)) d w1
           else
             (let parameters =
                    SqlRoleAssignmentCreateUpdateParameters
                      (Some (GetString d ''principal_id''))
                      (Some (GetString d ''role_definition_id''))
                      (Some (GetString d ''scope''))
              in case SqlResourcesCreateUpdateSqlRoleAssignment client rid
                        parameters w1 of
                   ((future, err), w2) \<Rightarrow>
                     emit (ClientCall
                             ''SqlResourcesCreateUpdateSqlRoleAssignment'' rid)
                       (if err \<noteq> None then
                          fail (Errorf ''creating/updating %s: %+v''
                                  [ArgId rid, ArgE (the err)]) d w2
                        else
                          emit PollUntilDone
                            (if Poller future \<noteq> None then
                               fail (Errorf ''waiting for the completion of the creating/updating of %s: %+v''
                                       [ArgId rid, ArgE (the (Poller future))])
                                 d w2
                             else
                               set_id (ID sdk rid) d
                                 (\<lambda>d. resourceCosmosDbSQLRoleAssignmentRead
                                         sdk d meta w2))))))"

definition resourceCosmosDbSQLRoleAssignmentCreate ::
  "deps \<Rightarrow> ResourceData \<Rightarrow> 'w Client \<Rightarrow> 'w \<Rightarrow> 'w result" where
  "resourceCosmosDbSQLRoleAssignmentCreate sdk d meta w =
     (let subscriptionId = Account_SubscriptionId meta;
          client = Cosmos_RbacsClient meta;
          name = GetString d ''name''
      in case (if name = '''' then GenerateUUID sdk else Inr name) of
           Inl err \<Rightarrow>
             fail (Errorf ''generating UUID for Cosmos DB SQL Role Assignment: %+v''
                     [ArgE err]) d w
         | Inr name \<Rightarrow>
             (let resourceGroup = GetString d ''resource_group_name'';
                  accountName = GetString d ''account_name'';
                  rid = AccountId subscriptionId resourceGroup accountName name
              in emit (LockByName (DatabaseAccountName rid) (CosmosDbAccountResourceName sdk))
                   (deferred
                      (UnlockByName (DatabaseAccountName rid)
                         (CosmosDbAccountResourceName sdk))
                      (resourceCosmosDbSQLRoleAssignmentCreate_locked sdk d meta rid w))))"

text \<open>
  The part of \<^verbatim>\<open>resourceCosmosDbSQLRoleAssignmentUpdate\<close> that runs while the lock is
  held, from the line after the deferred unlock to the end.
\<close>

definition resourceCosmosDbSQLRoleAssignmentUpdate_locked ::
  "deps \<Rightarrow> ResourceData \<Rightarrow> 'w Client \<Rightarrow> resource_id \<Rightarrow> 'w \<Rightarrow> 'w result" where
  "resourceCosmosDbSQLRoleAssignmentUpdate_locked sdk d meta rid w =
     (let client = Cosmos_RbacsClient meta;
          parameters =
            SqlRoleAssignmentCreateUpdateParameters
              (Some (GetString d ''principal_id''))
              (Some (GetString d ''role_definition_id''))
              (Some (GetString d ''scope''))
      in case SqlResourcesCreateUpdateSqlRoleAssignment client rid parameters w of
           ((future, err), w1) \<Rightarrow>
             emit (ClientCall ''SqlResourcesCreateUpdateSqlRoleAssignment'' rid)
               (if err \<noteq> None then
                  fail (Errorf ''updating %s: %+v'' [ArgId rid, ArgE (the err)]) d w1
                else
                  emit PollUntilDone
                    (if Poller future \<noteq> None then
                       fail (Errorf ''waiting for the completion of the updating of %s: %+v''
                               [ArgId rid, ArgE (the (Poller future))]) d w1
                     else
                       set_id (ID sdk rid) d
                         (\<lambda>d. resourceCosmosDbSQLRoleAssignmentRead sdk d meta w1))))"

definition resourceCosmosDbSQLRoleAssignmentUpdate ::
  "deps \<Rightarrow> ResourceData \<Rightarrow> 'w Client \<Rightarrow> 'w \<Rightarrow> 'w result" where
  "resourceCosmosDbSQLRoleAssignmentUpdate sdk d meta w =
     (let client = Cosmos_RbacsClient meta in
      case ParseAccountID sdk (rd_Id d) of
        Inl err \<Rightarrow> fail err d w
      | Inr rid \<Rightarrow>
          emit (LockByName (DatabaseAccountName rid) (CosmosDbAccountResourceName sdk))
            (deferred
               (UnlockByName (DatabaseAccountName rid) (CosmosDbAccountResourceName sdk))
               (resourceCosmosDbSQLRoleAssignmentUpdate_locked sdk d meta rid w)))"

text \<open>
  The part of \<^verbatim>\<open>resourceCosmosDbSQLRoleAssignmentDelete\<close> that runs while the lock is
  held, from the line after the deferred unlock to the end.
\<close>

definition resourceCosmosDbSQLRoleAssignmentDelete_locked ::
  "deps \<Rightarrow> ResourceData \<Rightarrow> 'w Client \<Rightarrow> resource_id \<Rightarrow> 'w \<Rightarrow> 'w result" where
  "resourceCosmosDbSQLRoleAssignmentDelete_locked sdk d meta rid w =
     (let client = Cosmos_RbacsClient meta in
      case SqlResourcesDeleteSqlRoleAssignment client rid w of
      ((future, err), w1) \<Rightarrow>
        emit (ClientCall ''SqlResourcesDeleteSqlRoleAssignment'' rid)
          (if err \<noteq> None then
             fail (Errorf ''deleting %s: %+v'' [ArgId rid, ArgE (the err)]) d w1
           else
             emit PollUntilDone
               (if Poller future \<noteq> None then
                  fail (Errorf ''waiting for the completion of the deleting of %s: %+v''
                          [ArgId rid, ArgE (the (Poller future))]) d w1
                else succeed d w1)))"

definition resourceCosmosDbSQLRoleAssignmentDelete ::
  "deps \<Rightarrow> ResourceData \<Rightarrow> 'w Client \<Rightarrow> 'w \<Rightarrow> 'w result" where
  "resourceCosmosDbSQLRoleAssignmentDelete sdk d meta w =
     (let client = Cosmos_RbacsClient meta in
      case ParseAccountID sdk (rd_Id d) of
        Inl err \<Rightarrow> fail err d w
      | Inr rid \<Rightarrow>
          emit (LockByName (DatabaseAccountName rid) (CosmosDbAccountResourceName sdk))
            (deferred
               (UnlockByName (DatabaseAccountName rid) (CosmosDbAccountResourceName sdk))
               (resourceCosmosDbSQLRoleAssignmentDelete_locked sdk d meta rid w)))"

section \<open>The SQL role definition resource\<close>

text \<open>
  \<^verbatim>\<open>d.Set("permissions", ...)\<close> returns an error only for a value that does not fit
  the schema; the flattened permissions are a list of maps of string lists, as the schema
  declares them, so the read handler goes on.
\<close>

definition resourceCosmosDbSQLRoleDefinitionRead ::
  "deps \<Rightarrow> ResourceData \<Rightarrow> 'w Client \<Rightarrow> 'w \<Rightarrow> 'w result" where
  "resourceCosmosDbSQLRoleDefinitionRead sdk d meta w =
     (let client = Cosmos_RbacsClient meta in
      case ParseSqlRoleDefinitionID sdk (rd_Id d) of
        Inl err \<Rightarrow> fail err d w
      | Inr rid \<Rightarrow>
          (case SqlResourcesGetSqlRoleDefinition client rid w of
             ((resp, err), w1) \<Rightarrow>
               emit (ClientCall ''SqlResourcesGetSqlRoleDefinition'' rid)
                 (if err \<noteq> None then
                    (if WasNotFound (HttpResponse resp)
                     then set_id '''' d (\<lambda>d. succeed d w1)
                     else fail (Errorf ''retrieving %s: %+v'' [ArgId rid, ArgE (the err)]) d w1)
                  else
                    (let d = Set d ''role_definition_id''
                               (VString (resource_id.RoleDefinitionId rid));
                         d = Set d ''resource_group_name'' (VString (ResourceGroupName rid));
                         d = Set d ''account_name'' (VString (DatabaseAccountName rid))
                     in case Model resp of
                          None \<Rightarrow> crash NilPointerDereference d w1
                        | Some model \<Rightarrow>
                            (case Properties model of
                               None \<Rightarrow> succeed d w1
                             | Some props \<Rightarrow>
                                 (let d = Set d ''assignable_scopes''
                                            (VSlice (FlattenStringSlice (utils_pkg sdk)
                                                       (AssignableScopes props)));
                                      d = Set d ''name'' (ptr (RoleName props));
                                      d = Set d ''type'' (ptr (Type props));
                                      d = Set d ''permissions''
                                            (VSlice (flattenSqlRoleDefinitionPermissions
                                                       (utils_pkg sdk) (Permissions props)))
                                  in succeed d w1))))))"

text \<open>
  The part of \<^verbatim>\<open>resourceCosmosDbSQLRoleDefinitionCreate\<close> that runs while the lock is
  held, from the line after the deferred unlock to the end.
\<close>

definition resourceCosmosDbSQLRoleDefinitionCreate_locked ::
  "deps \<Rightarrow> ResourceData \<Rightarrow> 'w Client \<Rightarrow> resource_id \<Rightarrow> 'w \<Rightarrow> 'w result" where
  "resourceCosmosDbSQLRoleDefinitionCreate_locked sdk d meta rid w =
     (let client = Cosmos_RbacsClient meta in
      case SqlResourcesGetSqlRoleDefinition client rid w of
      ((existing, err), w1) \<Rightarrow>
        emit (ClientCall ''SqlResourcesGetSqlRoleDefinition'' rid)
          (if err \<noteq> None \<and> \<not> WasNotFound (HttpResponse existing) then
             fail (Errorf ''checking for presence of existing %s: %+v''
                     [ArgId rid, ArgE (the err)]) d w1
           else if \<not> WasNotFound (HttpResponse existing) then
             fail (ImportAsExistsError ''azurerm_cosmosdb_sql_role_definition''
                     (ID sdk rid)) d w1
           else
             (case ExpandStringSlice (utils_pkg sdk)
                     (GetSetList d ''assignable_scopes'') of
                Inl p \<Rightarrow> crash p d w1
              | Inr assignableScopes \<Rightarrow>
                  (case expandSqlRoleDefinitionPermissions (utils_pkg sdk)
                          (GetSetList d ''permissions'') of
                     Inl p \<Rightarrow> crash p d w1
                   | Inr permissions \<Rightarrow>
                       (let parameters =
                              SqlRoleDefinitionCreateUpdateParameters
                                (Some (GetString d ''name''))
                                assignableScopes permissions
                                (Some (GetString d ''type''))
                        in case SqlResourcesCreateUpdateSqlRoleDefinition
                                  client rid parameters w1 of
                             ((future, err), w2) \<Rightarrow>
                               emit (ClientCall
                                       ''SqlResourcesCreateUpdateSqlRoleDefinition''
                                       rid)
                                 (if err \<noteq> None then
                                    fail (Errorf ''creating %s: %+v''
                                            [ArgId rid, ArgE (the err)]) d w2
                                  else
                                    emit PollUntilDone
                                      (if Poller future \<noteq> None then
                                         fail (Errorf ''waiting for creation of %s: %+v''
                                                 [ArgId rid,
                                                  ArgE (the (Poller future))])
                                           d w2
                                       else
                                         set_id (ID sdk rid) d
                                           (\<lambda>d. resourceCosmosDbSQLRoleDefinitionRead
                                                   sdk d meta w2))))))))"

definition resourceCosmosDbSQLRoleDefinitionCreate ::
  "deps \<Rightarrow> ResourceData \<Rightarrow> 'w Client \<Rightarrow> 'w \<Rightarrow> 'w result" where
  "resourceCosmosDbSQLRoleDefinitionCreate sdk d meta w =
     (let subscriptionId = Account_SubscriptionId meta;
          client = Cosmos_RbacsClient meta;
          roleDefinitionId = GetString d ''role_definition_id''
      in case (if roleDefinitionId = '''' then GenerateUUID sdk else Inr roleDefinitionId) of
           Inl err \<Rightarrow>
             fail (Errorf ''generating UUID for Cosmos DB SQL Role Definition: %+v''
                     [ArgE err]) d w
         | Inr roleDefinitionId \<Rightarrow>
             (let resourceGroup = GetString d ''resource_group_name'';
                  accountName = GetString d ''account_name'';
                  rid = SqlRoleDefinitionId subscriptionId resourceGroup accountName
                          roleDefinitionId
              in emit (LockByName (DatabaseAccountName rid) (CosmosDbAccountResourceName sdk))
                   (deferred
                      (UnlockByName (DatabaseAccountName rid)
                         (CosmosDbAccountResourceName sdk))
                      (resourceCosmosDbSQLRoleDefinitionCreate_locked sdk d meta rid w))))"

text \<open>
  The part of \<^verbatim>\<open>resourceCosmosDbSQLRoleDefinitionUpdate\<close> that runs while the lock is
  held, from the line after the deferred unlock to the end.
\<close>

definition resourceCosmosDbSQLRoleDefinitionUpdate_locked ::
  "deps \<Rightarrow> ResourceData \<Rightarrow> 'w Client \<Rightarrow> resource_id \<Rightarrow> 'w \<Rightarrow> 'w result" where
  "resourceCosmosDbSQLRoleDefinitionUpdate_locked sdk d meta rid w =
     (let client = Cosmos_RbacsClient meta in
      case ExpandStringSlice (utils_pkg sdk) (GetSetList d ''assignable_scopes'') of
        Inl p \<Rightarrow> crash p d w
      | Inr assignableScopes \<Rightarrow>
          (case expandSqlRoleDefinitionPermissions (utils_pkg sdk)
                  (GetSetList d ''permissions'') of
             Inl p \<Rightarrow> crash p d w
           | Inr permissions \<Rightarrow>
               (let parameters =
                      SqlRoleDefinitionCreateUpdateParameters
                        (Some (GetString d ''name'')) assignableScopes permissions
                        (Some (GetString d ''type''))
                in case SqlResourcesCreateUpdateSqlRoleDefinition client rid
                          parameters w of
                     ((future, err), w1) \<Rightarrow>
                       emit (ClientCall ''SqlResourcesCreateUpdateSqlRoleDefinition'' rid)
                         (if err \<noteq> None then
                            fail (Errorf ''updating %s: %+v''
                                    [ArgId rid, ArgE (the err)]) d w1
                          else
                            emit PollUntilDone
                              (if Poller future \<noteq> None then
                                 fail (Errorf ''waiting for update of %s: %+v''
                                         [ArgId rid, ArgE (the (Poller future))]) d w1
                               else
                                 set_id (ID sdk rid) d
                                   (\<lambda>d. resourceCosmosDbSQLRoleDefinitionRead
                                           sdk d meta w1))))))"

definition resourceCosmosDbSQLRoleDefinitionUpdate ::
  "deps \<Rightarrow> ResourceData \<Rightarrow> 'w Client \<Rightarrow> 'w \<Rightarrow> 'w result" where
  "resourceCosmosDbSQLRoleDefinitionUpdate sdk d meta w =
     (let client = Cosmos_RbacsClient meta in
      case ParseSqlRoleDefinitionID sdk (rd_Id d) of
        Inl err \<Rightarrow> fail err d w
      | Inr rid \<Rightarrow>
          emit (LockByName (DatabaseAccountName rid) (CosmosDbAccountResourceName sdk))
            (deferred
               (UnlockByName (DatabaseAccountName rid) (CosmosDbAccountResourceName sdk))
               (resourceCosmosDbSQLRoleDefinitionUpdate_locked sdk d meta rid w)))"

text \<open>
  The part of \<^verbatim>\<open>resourceCosmosDbSQLRoleDefinitionDelete\<close> that runs while the lock is
  held, from the line after the deferred unlock to the end.
\<close>

definition resourceCosmosDbSQLRoleDefinitionDelete_locked ::
  "deps \<Rightarrow> ResourceData \<Rightarrow> 'w Client \<Rightarrow> resource_id \<Rightarrow> 'w \<Rightarrow> 'w result" where
  "resourceCosmosDbSQLRoleDefinitionDelete_locked sdk d meta rid w =
     (let client = Cosmos_RbacsClient meta in
      case SqlResourcesDeleteSqlRoleDefinition client rid w of
      ((future, err), w1) \<Rightarrow>
        emit (ClientCall ''SqlResourcesDeleteSqlRoleDefinition'' rid)
          (if err \<noteq> None then
             fail (Errorf ''deleting %s: %+v'' [ArgId rid, ArgE (the err)]) d w1
           else
             emit PollUntilDone
               (if Poller future \<noteq> None then
                  fail (Errorf ''waiting for deletion of %s: %+v''
                          [ArgId rid, ArgE (the (Poller future))]) d w1
                else succeed d w1)))"

definition resourceCosmosDbSQLRoleDefinitionDelete ::
  "deps \<Rightarrow> ResourceData \<Rightarrow> 'w Client \<Rightarrow> 'w \<Rightarrow> 'w result" where
  "resourceCosmosDbSQLRoleDefinitionDelete sdk d meta w =
     (let client = Cosmos_RbacsClient meta in
      case ParseSqlRoleDefinitionID sdk (rd_Id d) of
        Inl err \<Rightarrow> fail err d w
      | Inr rid \<Rightarrow>
          emit (LockByName (DatabaseAccountName rid) (CosmosDbAccountResourceName sdk))
            (deferred
               (UnlockByName (DatabaseAccountName rid) (CosmosDbAccountResourceName sdk))
               (resourceCosmosDbSQLRoleDefinitionDelete_locked sdk d meta rid w)))"

section \<open>Reading a trace\<close>

text \<open>The client methods called, in order, and the lock events, in order.\<close>

fun client_calls :: "event list \<Rightarrow> string list" where
  "client_calls [] = []"
| "client_calls (ClientCall m rid # es) = m # client_calls es"
| "client_calls (e # es) = client_calls es"

fun is_lock_event :: "event \<Rightarrow> bool" where
  "is_lock_event (LockByName a k) = True"
| "is_lock_event (UnlockByName a k) = True"
| "is_lock_event e = False"

definition lock_events :: "event list \<Rightarrow> event list" where
  "lock_events es = filter is_lock_event es"

section \<open>An instance of the imported declarations and of the remote\<close>

text \<open>
  For the examples: string-slice helpers that keep each string (expanding reads a nil
  item as the empty string and panics on any other item that is no string; flattening
  lists the strings, and nothing for a nil pointer); an identifier codec over one fixed
  scope, where the identifier string is the last name of the identifier; throughput
  helpers that change nothing.
\<close>

fun ExpandStringSlice_items :: "val list \<Rightarrow> panic + string list" where
  "ExpandStringSlice_items [] = Inr []"
| "ExpandStringSlice_items (VNil # rest) =
     (case ExpandStringSlice_items rest of Inl p \<Rightarrow> Inl p | Inr ss \<Rightarrow> Inr ('''' # ss))"
| "ExpandStringSlice_items (VString s # rest) =
     (case ExpandStringSlice_items rest of Inl p \<Rightarrow> Inl p | Inr ss \<Rightarrow> Inr (s # ss))"
| "ExpandStringSlice_items (item # rest) = Inl TypeAssertionFailed"

definition sample_utils :: utils where
  "sample_utils =
     \<lparr>ExpandStringSlice =
        (\<lambda>input. case ExpandStringSlice_items (elems input) of
                    Inl p \<Rightarrow> Inl p
                  | Inr ss \<Rightarrow> Inr (Some (Slice ss))),
      FlattenStringSlice =
        (\<lambda>input. case input of None \<Rightarrow> Slice [] | Some s \<Rightarrow> Slice (map VString (elems s)))\<rparr>"

definition sample_ID :: "resource_id \<Rightarrow> string" where
  "sample_ID rid =
     (case rid of
        TriggerId s g a db c n \<Rightarrow> n
      | UserDefinedFunctionId s g a db c n \<Rightarrow> n
      | StoredProcedureId s g a db c n \<Rightarrow> n
      | ContainerId s g a db c \<Rightarrow> c
      | SqlDatabaseId s g a db \<Rightarrow> db
      | DatabaseAccountId s g a \<Rightarrow> a
      | AccountId s g a n \<Rightarrow> n
      | SqlRoleDefinitionId s g a n \<Rightarrow> n)"

definition sample_parse :: "(string \<Rightarrow> resource_id) \<Rightarrow> string \<Rightarrow> error + resource_id" where
  "sample_parse mk s = (if s = '''' then Inl (ErrorString ''empty identifier'') else Inr (mk s))"

definition sample_deps :: deps where
  "sample_deps =
     \<lparr>ID = sample_ID,
      ParseContainerID = sample_parse (ContainerId ''sub'' ''rg'' ''acct'' ''db''),
      ParseTriggerID = sample_parse (TriggerId ''sub'' ''rg'' ''acct'' ''db'' ''coll''),
      ParseUserDefinedFunctionID =
        sample_parse (UserDefinedFunctionId ''sub'' ''rg'' ''acct'' ''db'' ''coll''),
      ParseStoredProcedureID =
        sample_parse (StoredProcedureId ''sub'' ''rg'' ''acct'' ''db'' ''coll''),
      ParseSqlDatabaseID = sample_parse (SqlDatabaseId ''sub'' ''rg'' ''acct''),
      ParseAccountID = sample_parse (AccountId ''sub'' ''rg'' ''acct''),
      ParseSqlRoleDefinitionID = sample_parse (SqlRoleDefinitionId ''sub'' ''rg'' ''acct''),
      GenerateUUID = Inr ''generated'',
      CosmosDbAccountResourceName = ''azurerm_cosmosdb_account'',
      utils_pkg = sample_utils,
      ConvertThroughputFromResourceData = (\<lambda>v. case v of VInt i \<Rightarrow> Some i | _ \<Rightarrow> None),
      ExpandCosmosDbAutoscaleSettings = (\<lambda>d. None),
      CheckForChangeFromAutoscaleAndManualThroughput = (\<lambda>d. None),
      HasThroughputChange = (\<lambda>d. False),
      ExpandCosmosDBThroughputSettingsUpdateParameters = (\<lambda>d. None),
      SetResourceDataThroughputFromResponse = (\<lambda>m d. d)\<rparr>"

text \<open>
  Remotes over a counter of the calls made so far. Every method of \<open>answering\<close>
  gives the same answer: \<open>gone\<close> answers 404 with an error and a poller that reports
  nothing, \<open>broken\<close> answers 500 with an error, \<open>nameless\<close> answers 200 with a model
  whose \<^verbatim>\<open>Id\<close> and \<^verbatim>\<open>Properties\<close> are nil. \<open>fresh\<close> holds nothing at its first
  call and every resource afterwards, and accepts every write.
\<close>

definition answering_get :: "nat \<Rightarrow> 'm option \<Rightarrow> error option \<Rightarrow> (nat, 'm) get_method" where
  "answering_get code m e rid w = ((\<lparr>HttpResponse = Some code, Model = m\<rparr>, e), Suc w)"

definition answering_put :: "nat \<Rightarrow> error option \<Rightarrow> error option \<Rightarrow> (nat, 'p) put_method" where
  "answering_put code e p rid body w = ((\<lparr>HttpResponse = Some code, Poller = p\<rparr>, e), Suc w)"

definition answering_delete :: "nat \<Rightarrow> error option \<Rightarrow> error option \<Rightarrow> nat delete_method" where
  "answering_delete code e p rid w = ((\<lparr>HttpResponse = Some code, Poller = p\<rparr>, e), Suc w)"

definition bare :: "bool \<Rightarrow> 'p GetResults option" where
  "bare model = (if model then Some \<lparr>Id = None, Properties = None\<rparr> else None)"

definition answering :: "nat \<Rightarrow> bool \<Rightarrow> error option \<Rightarrow> nat Client" where
  "answering code model e =
     \<lparr>Account_SubscriptionId = ''sub'',
      Cosmos_CosmosDBClient =
        \<lparr>SqlResourcesGetSqlTrigger = answering_get code (bare model) e,
         SqlResourcesCreateUpdateSqlTrigger = answering_put code e None,
         SqlResourcesDeleteSqlTrigger = answering_delete code e None,
         SqlResourcesGetSqlUserDefinedFunction = answering_get code (bare model) e,
         SqlResourcesCreateUpdateSqlUserDefinedFunction = answering_put code e None,
         SqlResourcesDeleteSqlUserDefinedFunction = answering_delete code e None,
         SqlResourcesGetSqlStoredProcedure = answering_get code (bare model) e,
         SqlResourcesCreateUpdateSqlStoredProcedure = answering_put code e None,
         SqlResourcesDeleteSqlStoredProcedure = answering_delete code e None,
         SqlResourcesGetSqlDatabase = answering_get code (bare model) e,
         SqlResourcesCreateUpdateSqlDatabase = answering_put code e None,
         SqlResourcesDeleteSqlDatabase = answering_delete code e None,
         DatabaseAccountsGet = answering_get code (bare model) e,
         SqlResourcesGetSqlDatabaseThroughput = answering_get code (bare model) e,
         SqlResourcesUpdateSqlDatabaseThroughput = answering_put code e None\<rparr>,
      Cosmos_RbacsClient =
        \<lparr>SqlResourcesGetSqlRoleAssignment = answering_get code (bare model) e,
         SqlResourcesCreateUpdateSqlRoleAssignment = answering_put code e None,
         SqlResourcesDeleteSqlRoleAssignment = answering_delete code e None,
         SqlResourcesGetSqlRoleDefinition = answering_get code (bare model) e,
         SqlResourcesCreateUpdateSqlRoleDefinition = answering_put code e None,
         SqlResourcesDeleteSqlRoleDefinition = answering_delete code e None\<rparr>\<rparr>"

definition gone :: "nat Client" where
  "gone = answering 404 False (Some (ErrorString ''not found''))"

definition broken :: "nat Client" where
  "broken = answering 500 False (Some (ErrorString ''internal server error''))"

definition nameless :: "nat Client" where
  "nameless = answering 200 True None"

definition fresh_get :: "'m \<Rightarrow> (nat, 'm) get_method" where
  "fresh_get m rid w =
     (if w = 0 then answering_get 404 None (Some (ErrorString ''not found'')) rid w
      else answering_get 200 (Some m) None rid w)"

definition fresh :: "nat Client" where
  "fresh =
     \<lparr>Account_SubscriptionId = ''sub'',
      Cosmos_CosmosDBClient =
        \<lparr>SqlResourcesGetSqlTrigger =
           fresh_get \<lparr>Id = Some ''t'', Properties = Some \<lparr>Resource = Some
             \<lparr>Body = Some ''remote body'', TriggerOperation = Some ''All'',
              TriggerType = Some ''Pre''\<rparr>\<rparr>\<rparr>,
         SqlResourcesCreateUpdateSqlTrigger = answering_put 202 None None,
         SqlResourcesDeleteSqlTrigger = answering_delete 202 None None,
         SqlResourcesGetSqlUserDefinedFunction =
           fresh_get \<lparr>Id = Some ''f'', Properties = Some \<lparr>Resource = Some
             \<lparr>Body = Some ''remote body''\<rparr>\<rparr>\<rparr>,
         SqlResourcesCreateUpdateSqlUserDefinedFunction = answering_put 202 None None,
         SqlResourcesDeleteSqlUserDefinedFunction = answering_delete 202 None None,
         SqlResourcesGetSqlStoredProcedure =
           fresh_get \<lparr>Id = Some ''p'', Properties = Some \<lparr>Resource = Some
             \<lparr>Body = Some ''remote body''\<rparr>\<rparr>\<rparr>,
         SqlResourcesCreateUpdateSqlStoredProcedure = answering_put 202 None None,
         SqlResourcesDeleteSqlStoredProcedure = answering_delete 202 None None,
         SqlResourcesGetSqlDatabase =
           fresh_get \<lparr>Id = Some ''db'', Properties = Some \<lparr>Resource = Some
             \<lparr>SqlDatabaseGetPropertiesResource.Id = ''db''\<rparr>\<rparr>\<rparr>,
         SqlResourcesCreateUpdateSqlDatabase = answering_put 202 None None,
         SqlResourcesDeleteSqlDatabase = answering_delete 202 None None,
         DatabaseAccountsGet =
           answering_get 200
             (Some \<lparr>Id = Some ''acct'', Properties = Some \<lparr>Capabilities = Some
                (Slice [\<lparr>Name = Some ''EnableServerless''\<rparr>])\<rparr>\<rparr>) None,
         SqlResourcesGetSqlDatabaseThroughput =
           answering_get 200
             (Some \<lparr>Id = Some ''thr'', Properties = Some \<lparr>Resource = Some
                \<lparr>Throughput = Some 400, AutoscaleSettings = None\<rparr>\<rparr>\<rparr>) None,
         SqlResourcesUpdateSqlDatabaseThroughput = answering_put 202 None None\<rparr>,
      Cosmos_RbacsClient =
        \<lparr>SqlResourcesGetSqlRoleAssignment =
           fresh_get \<lparr>Id = Some ''ra'', Properties = Some
             \<lparr>PrincipalId = Some ''principal'',
              RoleDefinitionId = Some ''definition'', Scope = Some ''scope''\<rparr>\<rparr>,
         SqlResourcesCreateUpdateSqlRoleAssignment = answering_put 202 None None,
         SqlResourcesDeleteSqlRoleAssignment = answering_delete 202 None None,
         SqlResourcesGetSqlRoleDefinition =
           fresh_get \<lparr>Id = Some ''rd'', Properties = Some
             \<lparr>RoleName = Some ''role'', AssignableScopes = Some (Slice [''scope'']),
              Permissions = Some (Slice [\<lparr>DataActions = Some (Slice [''read''])\<rparr>]),
              Type = Some ''CustomRole''\<rparr>\<rparr>,
         SqlResourcesCreateUpdateSqlRoleDefinition = answering_put 202 None None,
         SqlResourcesDeleteSqlRoleDefinition = answering_delete 202 None None\<rparr>\<rparr>"

text \<open>A configuration with every string field set to \<open>x\<close>, stored under the identifier \<open>x\<close>.\<close>

definition sample_data :: "bool \<Rightarrow> ResourceData" where
  "sample_data new = \<lparr>rd_Id = ''x'', rd_IsNewResource = new, rd_fields = (\<lambda>k. VString ''x'')\<rparr>"

text \<open>\<open>fresh\<close> with a database account that has no capabilities.\<close>

definition provisioned :: "nat Client" where
  "provisioned =
     fresh\<lparr>Cosmos_CosmosDBClient :=
       (Cosmos_CosmosDBClient fresh)\<lparr>DatabaseAccountsGet :=
         answering_get 200
           (Some \<lparr>Id = Some ''acct'', Properties = Some \<lparr>Capabilities = None\<rparr>\<rparr>) None\<rparr>\<rparr>"


text \<open>
  A second identifier codec, for the examples that read back what they have created:
  the identifier string is the path of the names of the identifier, joined by slashes,
  and parsing splits the path, so that parsing undoes \<open>path_ID\<close> on names without a
  slash.
\<close>

fun path :: "string list \<Rightarrow> string" where
  "path [] = []"
| "path [p] = p"
| "path (p # q # ps) = p @ CHR ''/'' # path (q # ps)"

fun split_path :: "string \<Rightarrow> string list" where
  "split_path [] = [[]]"
| "split_path (c # cs) =
     (if c = CHR ''/'' then [] # split_path cs
      else (case split_path cs of [] \<Rightarrow> [[c]] | p # ps \<Rightarrow> (c # p) # ps))"

definition path_ID :: "resource_id \<Rightarrow> string" where
  "path_ID rid =
     (case rid of
        TriggerId s g a db c n \<Rightarrow> path [s, g, a, db, c, n]
      | UserDefinedFunctionId s g a db c n \<Rightarrow> path [s, g, a, db, c, n]
      | StoredProcedureId s g a db c n \<Rightarrow> path [s, g, a, db, c, n]
      | ContainerId s g a db c \<Rightarrow> path [s, g, a, db, c]
      | SqlDatabaseId s g a db \<Rightarrow> path [s, g, a, db]
      | DatabaseAccountId s g a \<Rightarrow> path [s, g, a]
      | AccountId s g a n \<Rightarrow> path [s, g, a, n]
      | SqlRoleDefinitionId s g a n \<Rightarrow> path [s, g, a, n])"

definition path_parse4 ::
  "(string \<Rightarrow> string \<Rightarrow> string \<Rightarrow> string \<Rightarrow> resource_id) \<Rightarrow> string \<Rightarrow> error + resource_id" where
  "path_parse4 mk s =
     (case split_path s of
        [s, g, a, n] \<Rightarrow> Inr (mk s g a n)
      | _ \<Rightarrow> Inl (ErrorString ''parsing the identifier''))"

definition path_parse5 ::
  "(string \<Rightarrow> string \<Rightarrow> string \<Rightarrow> string \<Rightarrow> string \<Rightarrow> resource_id) \<Rightarrow> string
     \<Rightarrow> error + resource_id" where
  "path_parse5 mk s =
     (case split_path s of
        [s, g, a, db, c] \<Rightarrow> Inr (mk s g a db c)
      | _ \<Rightarrow> Inl (ErrorString ''parsing the identifier''))"

definition path_parse6 ::
  "(string \<Rightarrow> string \<Rightarrow> string \<Rightarrow> string \<Rightarrow> string \<Rightarrow> string \<Rightarrow> resource_id) \<Rightarrow> string
     \<Rightarrow> error + resource_id" where
  "path_parse6 mk s =
     (case split_path s of
        [s, g, a, db, c, n] \<Rightarrow> Inr (mk s g a db c n)
      | _ \<Rightarrow> Inl (ErrorString ''parsing the identifier''))"

definition path_deps :: deps where
  "path_deps =
     sample_deps
       \<lparr>ID := path_ID,
        ParseContainerID := path_parse5 ContainerId,
        ParseTriggerID := path_parse6 TriggerId,
        ParseUserDefinedFunctionID := path_parse6 UserDefinedFunctionId,
        ParseStoredProcedureID := path_parse6 StoredProcedureId,
        ParseSqlDatabaseID := path_parse4 SqlDatabaseId,
        ParseAccountID := path_parse4 AccountId,
        ParseSqlRoleDefinitionID := path_parse4 SqlRoleDefinitionId\<rparr>"


section \<open>Facts about results and about the instance\<close>

lemma result_simps [simp]:
  "events (ret oc d w) = []"
  "outcome (ret oc d w) = oc"
  "rd (ret oc d w) = d"
  "remote (ret oc d w) = w"
  "events (emit e r) = e # events r"
  "outcome (emit e r) = outcome r"
  "rd (emit e r) = rd r"
  "remote (emit e r) = remote r"
  "events (deferred e r) = events r @ [e]"
  "outcome (deferred e r) = outcome r"
  "rd (deferred e r) = rd r"
  "remote (deferred e r) = remote r"
  by (simp_all add: ret_def emit_def deferred_def)

lemma end_simps [simp]:
  "events (succeed d w) = []"
  "outcome (succeed d w) = Returned None"
  "rd (succeed d w) = d"
  "remote (succeed d w) = w"
  "events (fail err d w) = []"
  "outcome (fail err d w) = Returned (Some err)"
  "rd (fail err d w) = d"
  "remote (fail err d w) = w"
  "events (crash p d w) = []"
  "outcome (crash p d w) = Panicked p"
  "rd (crash p d w) = d"
  "remote (crash p d w) = w"
  "events (set_id s d k) = SetIdTo s # events (k (SetId d s))"
  "outcome (set_id s d k) = outcome (k (SetId d s))"
  "rd (set_id s d k) = rd (k (SetId d s))"
  "remote (set_id s d k) = remote (k (SetId d s))"
  by (simp_all add: succeed_def fail_def crash_def set_id_def)

lemma data_simps [simp]:
  "rd_Id (SetId d s) = s"
  "rd_Id (Set d k v) = rd_Id d"
  "rd_IsNewResource (SetId d s) = rd_IsNewResource d"
  "rd_IsNewResource (Set d k v) = rd_IsNewResource d"
  "Get (SetId d s) k = Get d k"
  "Get (Set d k v) k' = (if k' = k then v else Get d k')"
  "GetString (SetId d s) k = GetString d k"
  by (simp_all add: SetId_def Set_def Get_def GetString_def)

lemma client_calls_append [simp]:
  "client_calls (es @ es') = client_calls es @ client_calls es'"
  by (induction es rule: client_calls.induct) simp_all

lemma lock_events_simps [simp]:
  "lock_events [] = []"
  "lock_events (e # es) = (if is_lock_event e then e # lock_events es else lock_events es)"
  "lock_events (es @ es') = lock_events es @ lock_events es'"
  by (simp_all add: lock_events_def)

lemma sample_simps [simp]:
  "sample_parse mk ''x'' = Inr (mk ''x'')"
  "rd_Id (sample_data new) = ''x''"
  "rd_IsNewResource (sample_data new) = new"
  "GetString (sample_data new) k = ''x''"
  "GetSetList (sample_data new) k = Slice []"
  by (simp_all add: sample_parse_def sample_data_def GetString_def GetSetList_def)

lemma answering_simps [simp]:
  "answering_get code m e rid w = ((\<lparr>HttpResponse = Some code, Model = m\<rparr>, e), Suc w)"
  "answering_put code e p rid body w = ((\<lparr>HttpResponse = Some code, Poller = p\<rparr>, e), Suc w)"
  "answering_delete code e p rid w = ((\<lparr>HttpResponse = Some code, Poller = p\<rparr>, e), Suc w)"
  by (simp_all add: answering_get_def answering_put_def answering_delete_def)

lemmas role_locked_defs =
  resourceCosmosDbSQLRoleAssignmentCreate_locked_def
  resourceCosmosDbSQLRoleAssignmentUpdate_locked_def
  resourceCosmosDbSQLRoleAssignmentDelete_locked_def
  resourceCosmosDbSQLRoleDefinitionCreate_locked_def
  resourceCosmosDbSQLRoleDefinitionUpdate_locked_def
  resourceCosmosDbSQLRoleDefinitionDelete_locked_def

lemma sample_deps_simps:
  "ID sample_deps = sample_ID"
  "ParseContainerID sample_deps = sample_parse (ContainerId ''sub'' ''rg'' ''acct'' ''db'')"
  "ParseTriggerID sample_deps = sample_parse (TriggerId ''sub'' ''rg'' ''acct'' ''db'' ''coll'')"
  "ParseUserDefinedFunctionID sample_deps = sample_parse (UserDefinedFunctionId ''sub'' ''rg'' ''acct'' ''db'' ''coll'')"
  "ParseStoredProcedureID sample_deps = sample_parse (StoredProcedureId ''sub'' ''rg'' ''acct'' ''db'' ''coll'')"
  "ParseSqlDatabaseID sample_deps = sample_parse (SqlDatabaseId ''sub'' ''rg'' ''acct'')"
  "ParseAccountID sample_deps = sample_parse (AccountId ''sub'' ''rg'' ''acct'')"
  "ParseSqlRoleDefinitionID sample_deps = sample_parse (SqlRoleDefinitionId ''sub'' ''rg'' ''acct'')"
  "GenerateUUID sample_deps = Inr ''generated''"
  "CosmosDbAccountResourceName sample_deps = ''azurerm_cosmosdb_account''"
  "utils_pkg sample_deps = sample_utils"
  "ConvertThroughputFromResourceData sample_deps = (\<lambda>v. case v of VInt i \<Rightarrow> Some i | _ \<Rightarrow> None)"
  "ExpandCosmosDbAutoscaleSettings sample_deps = (\<lambda>d. None)"
  "CheckForChangeFromAutoscaleAndManualThroughput sample_deps = (\<lambda>d. None)"
  "HasThroughputChange sample_deps = (\<lambda>d. False)"
  "ExpandCosmosDBThroughputSettingsUpdateParameters sample_deps = (\<lambda>d. None)"
  "SetResourceDataThroughputFromResponse sample_deps = (\<lambda>m d. d)"
  by (simp_all add: sample_deps_def)



lemma split_path_plain: "CHR ''/'' \<notin> set p \<Longrightarrow> split_path p = [p]"
  by (induction p) auto

lemma split_path_slash:
  "CHR ''/'' \<notin> set p \<Longrightarrow> split_path (p @ CHR ''/'' # rest) = p # split_path rest"
  by (induction p) (auto split: list.splits)

lemma split_path_path:
  "ps \<noteq> [] \<Longrightarrow> \<forall>p \<in> set ps. CHR ''/'' \<notin> set p \<Longrightarrow> split_path (path ps) = ps"
  by (induction ps rule: path.induct) (simp_all add: split_path_plain split_path_slash)

lemma path_deps_simps:
  "ID path_deps = path_ID"
  "ParseContainerID path_deps = path_parse5 ContainerId"
  "ParseTriggerID path_deps = path_parse6 TriggerId"
  "ParseUserDefinedFunctionID path_deps = path_parse6 UserDefinedFunctionId"
  "ParseStoredProcedureID path_deps = path_parse6 StoredProcedureId"
  "ParseSqlDatabaseID path_deps = path_parse4 SqlDatabaseId"
  "ParseAccountID path_deps = path_parse4 AccountId"
  "ParseSqlRoleDefinitionID path_deps = path_parse4 SqlRoleDefinitionId"
  "GenerateUUID path_deps = Inr ''generated''"
  "CosmosDbAccountResourceName path_deps = ''azurerm_cosmosdb_account''"
  "utils_pkg path_deps = sample_utils"
  "ConvertThroughputFromResourceData path_deps = (\<lambda>v. case v of VInt i \<Rightarrow> Some i | _ \<Rightarrow> None)"
  "ExpandCosmosDbAutoscaleSettings path_deps = (\<lambda>d. None)"
  "CheckForChangeFromAutoscaleAndManualThroughput path_deps = (\<lambda>d. None)"
  "HasThroughputChange path_deps = (\<lambda>d. False)"
  "ExpandCosmosDBThroughputSettingsUpdateParameters path_deps = (\<lambda>d. None)"
  "SetResourceDataThroughputFromResponse path_deps = (\<lambda>m d. d)"
  by (simp_all add: path_deps_def sample_deps_def)

text \<open>Parsing undoes \<open>path_ID\<close> on names without a slash.\<close>

lemma path_round_trip:
  assumes "\<forall>p \<in> set [s, g, a, db, c, n]. CHR ''/'' \<notin> set p"
  shows "ParseTriggerID path_deps (ID path_deps (TriggerId s g a db c n))
           = Inr (TriggerId s g a db c n)"
    and "ParseUserDefinedFunctionID path_deps (ID path_deps (UserDefinedFunctionId s g a db c n))
           = Inr (UserDefinedFunctionId s g a db c n)"
    and "ParseStoredProcedureID path_deps (ID path_deps (StoredProcedureId s g a db c n))
           = Inr (StoredProcedureId s g a db c n)"
    and "ParseContainerID path_deps (ID path_deps (ContainerId s g a db c))
           = Inr (ContainerId s g a db c)"
    and "ParseSqlDatabaseID path_deps (ID path_deps (SqlDatabaseId s g a db))
           = Inr (SqlDatabaseId s g a db)"
    and "ParseAccountID path_deps (ID path_deps (AccountId s g a n)) = Inr (AccountId s g a n)"
    and "ParseSqlRoleDefinitionID path_deps (ID path_deps (SqlRoleDefinitionId s g a n))
           = Inr (SqlRoleDefinitionId s g a n)"
  using assms
  by (simp_all add: path_deps_simps path_ID_def path_parse4_def path_parse5_def path_parse6_def
        split_path_slash split_path_plain)



section \<open>Capability detection\<close>

lemma IsServerlessCapacityMode_range_iff:
  "IsServerlessCapacityMode_range vs = (\<exists>v. v \<in> set vs \<and> Name v = Some ''EnableServerless'')"
  by (induction vs) auto

text \<open>
  C6. \<^verbatim>\<open>IsServerlessCapacityMode\<close> is true exactly when the account's properties and
  their capability list are both non-nil and the list holds an entry whose name is non-nil
  and equal to "EnableServerless". For the capability list \<^verbatim>\<open>[{Name: "EnableServerless"}]\<close>
  it is true; for nil properties or a nil capability list it is false.
\<close>

theorem IsServerlessCapacityMode_spec:
  "IsServerlessCapacityMode accResp =
     (\<exists>props caps v. Properties accResp = Some props \<and> Capabilities props = Some caps
        \<and> v \<in> set (elems caps) \<and> Name v = Some ''EnableServerless'')
   \<and> IsServerlessCapacityMode
        \<lparr>Id = i, Properties = Some \<lparr>Capabilities = Some (Slice [\<lparr>Name = Some ''EnableServerless''\<rparr>])\<rparr>\<rparr>
   \<and> \<not> IsServerlessCapacityMode \<lparr>Id = i, Properties = None\<rparr>
   \<and> \<not> IsServerlessCapacityMode \<lparr>Id = i, Properties = Some \<lparr>Capabilities = None\<rparr>\<rparr>"
  by (auto simp: IsServerlessCapacityMode_def IsServerlessCapacityMode_range_iff
           split: option.splits)

section \<open>Flatten on nil and empty input\<close>

text \<open>
  C3. \<^verbatim>\<open>flattenSqlRoleDefinitionPermissions\<close> returns an empty slice that is not nil
  for a nil pointer and for a pointer to an empty slice. The two flatten functions of the
  restorable database accounts return an empty slice that is not nil for a pointer to an
  empty slice, and panic on a nil pointer; \<^verbatim>\<open>flattenCosmosDbRestorableDatabaseAccounts\<close>
  hands the pointer \<^verbatim>\<open>props.RestorableLocations\<close> on unchecked, so it panics on an account
  of the wanted name whose restorable locations are nil.
\<close>

theorem flatten_nil_and_empty:
  "flattenSqlRoleDefinitionPermissions u None = Slice []
   \<and> flattenSqlRoleDefinitionPermissions u (Some NilSlice) = Slice []
   \<and> flattenSqlRoleDefinitionPermissions u (Some (Slice [])) = Slice []
   \<and> flattenCosmosDbRestorableDatabaseAccountsRestorableLocations (Some NilSlice) = Inr (Slice [])
   \<and> flattenCosmosDbRestorableDatabaseAccountsRestorableLocations (Some (Slice [])) = Inr (Slice [])
   \<and> flattenCosmosDbRestorableDatabaseAccounts (Some NilSlice) accountName = Inr (Slice [])
   \<and> flattenCosmosDbRestorableDatabaseAccounts (Some (Slice [])) accountName = Inr (Slice [])
   \<and> flattenCosmosDbRestorableDatabaseAccountsRestorableLocations None = Inl NilPointerDereference
   \<and> flattenCosmosDbRestorableDatabaseAccounts None accountName = Inl NilPointerDereference
   \<and> flattenCosmosDbRestorableDatabaseAccounts
        (Some (Slice [\<lparr>Id = Some ''id'', Properties = Some
           \<lparr>AccountName = Some ''acct'', ApiType = None,
            CreationTime = None, DeletionTime = None,
            RestorableLocations = None\<rparr>\<rparr>])) ''acct''
       = Inl NilPointerDereference"
  by (simp add: flattenCosmosDbRestorableDatabaseAccountsRestorableLocations_def
        flattenCosmosDbRestorableDatabaseAccounts_def flattenSqlRoleDefinitionPermissions_def
        make0_def deref_or_zero_def)

section \<open>Expand after flatten\<close>

lemma flattenSqlRoleDefinitionPermissions_range_eq:
  "flattenSqlRoleDefinitionPermissions_range u ps (Slice xs) =
     Slice (xs @ map (\<lambda>p. VMap [(''data_actions'',
                                   VSlice (FlattenStringSlice u (DataActions p)))]) ps)"
  by (induction ps arbitrary: xs) (simp_all add: append_slice_def)

lemma flattenSqlRoleDefinitionPermissions_Some:
  "flattenSqlRoleDefinitionPermissions u (Some s) =
     Slice (map (\<lambda>p. VMap [(''data_actions'',
                              VSlice (FlattenStringSlice u (DataActions p)))]) (elems s))"
  using flattenSqlRoleDefinitionPermissions_range_eq [of u "elems s" "[]"]
  by (simp add: flattenSqlRoleDefinitionPermissions_def make0_def)

lemma expandSqlRoleDefinitionPermissions_range_sets:
  "(\<And>p. p \<in> set ps \<Longrightarrow>
      ExpandStringSlice u (Slice (elems (FlattenStringSlice u (DataActions p))))
        = Inr (DataActions p)) \<Longrightarrow>
   expandSqlRoleDefinitionPermissions_range u
      (map (\<lambda>p. VMap [(''data_actions'',
                        VSet (elems (FlattenStringSlice u (DataActions p))))]) ps) (Slice xs)
    = Inr (Slice (xs @ ps))"
  by (induction ps arbitrary: xs) (simp_all add: append_slice_def)

lemma expand_after_flatten:
  "expandSqlRoleDefinitionPermissions u (flattenSqlRoleDefinitionPermissions u x) =
     (case x of
        None \<Rightarrow> Inr (Some (Slice []))
      | Some s \<Rightarrow> if elems s = [] then Inr (Some (Slice [])) else Inl TypeAssertionFailed)"
proof (cases x)
  case None
  then show ?thesis
    by (simp add: expandSqlRoleDefinitionPermissions_def flattenSqlRoleDefinitionPermissions_def
          make0_def)
next
  case (Some s)
  show ?thesis
  proof (cases "elems s")
    case Nil
    with Some show ?thesis
      by (simp add: expandSqlRoleDefinitionPermissions_def
            flattenSqlRoleDefinitionPermissions_Some make0_def)
  next
    case (Cons p ps)
    with Some show ?thesis
      by (simp add: expandSqlRoleDefinitionPermissions_def
            flattenSqlRoleDefinitionPermissions_Some make0_def)
  qed
qed

text \<open>
  C4, as stated, fails: the nil pointer comes back as a pointer to an empty slice, and
  on a list that is not empty the composition panics, since flatten stores a
  \<^verbatim>\<open>[]interface{}\<close> under \<^verbatim>\<open>"data_actions"\<close> where expand asserts a \<^verbatim>\<open>*pluginsdk.Set\<close>.
\<close>

theorem expand_flatten_counterexample:
  "expandSqlRoleDefinitionPermissions sample_utils
      (flattenSqlRoleDefinitionPermissions sample_utils None) \<noteq> Inr None
   \<and> expandSqlRoleDefinitionPermissions sample_utils
       (flattenSqlRoleDefinitionPermissions sample_utils
          (Some (Slice [\<lparr>DataActions = Some (Slice [''read''])\<rparr>])))
     \<noteq> Inr (Some (Slice [\<lparr>DataActions = Some (Slice [''read''])\<rparr>]))"
  by (simp add: expand_after_flatten)

text \<open>
  C4, amended. Expand after flatten gives a pointer to an empty slice when the
  permissions are nil or empty (so it is the identity on a pointer to an empty slice that
  is not nil), and panics on the failed type assertion otherwise. Flatten gives one map
  per permission, holding under \<^verbatim>\<open>"data_actions"\<close> the flattened data actions; on the
  same maps with each of these lists handed over as a set of the same items, expand gives
  back the permissions, provided \<^verbatim>\<open>ExpandStringSlice\<close> undoes \<^verbatim>\<open>FlattenStringSlice\<close> on
  the data actions of each permission.
\<close>

theorem expand_flatten_permissions:
  "expandSqlRoleDefinitionPermissions u (flattenSqlRoleDefinitionPermissions u x) =
     (case x of
        None \<Rightarrow> Inr (Some (Slice []))
      | Some s \<Rightarrow> if elems s = [] then Inr (Some (Slice [])) else Inl TypeAssertionFailed)
   \<and> flattenSqlRoleDefinitionPermissions u (Some (Slice ps)) =
       Slice (map (\<lambda>p. VMap [(''data_actions'',
                                VSlice (FlattenStringSlice u (DataActions p)))]) ps)
   \<and> ((\<forall>p \<in> set ps.
          ExpandStringSlice u (Slice (elems (FlattenStringSlice u (DataActions p))))
            = Inr (DataActions p)) \<longrightarrow>
       expandSqlRoleDefinitionPermissions u
         (Slice (map (\<lambda>p. VMap [(''data_actions'',
                                  VSet (elems (FlattenStringSlice u (DataActions p))))]) ps))
         = Inr (Some (Slice ps)))"
proof (intro conjI impI)
  show "expandSqlRoleDefinitionPermissions u (flattenSqlRoleDefinitionPermissions u x) =
     (case x of
        None \<Rightarrow> Inr (Some (Slice []))
      | Some s \<Rightarrow> if elems s = [] then Inr (Some (Slice [])) else Inl TypeAssertionFailed)"
    by (rule expand_after_flatten)
next
  show "flattenSqlRoleDefinitionPermissions u (Some (Slice ps)) =
       Slice (map (\<lambda>p. VMap [(''data_actions'',
                                VSlice (FlattenStringSlice u (DataActions p)))]) ps)"
    by (simp add: flattenSqlRoleDefinitionPermissions_Some)
next
  assume "\<forall>p \<in> set ps.
          ExpandStringSlice u (Slice (elems (FlattenStringSlice u (DataActions p))))
            = Inr (DataActions p)"
  then have "expandSqlRoleDefinitionPermissions_range u
      (map (\<lambda>p. VMap [(''data_actions'',
                        VSet (elems (FlattenStringSlice u (DataActions p))))]) ps) (Slice [])
    = Inr (Slice ([] @ ps))"
    by (intro expandSqlRoleDefinitionPermissions_range_sets) simp
  then show "expandSqlRoleDefinitionPermissions u
         (Slice (map (\<lambda>p. VMap [(''data_actions'',
                                  VSet (elems (FlattenStringSlice u (DataActions p))))]) ps))
         = Inr (Some (Slice ps))"
    by (simp add: expandSqlRoleDefinitionPermissions_def make0_def)
qed

theorem expand_flatten_permissions_witness:
  "ExpandStringSlice sample_utils
      (Slice (elems (FlattenStringSlice sample_utils (Some (Slice [''read''])))))
     = Inr (Some (Slice [''read'']))
   \<and> expandSqlRoleDefinitionPermissions sample_utils
       (Slice [VMap [(''data_actions'', VSet [VString ''read''])]])
     = Inr (Some (Slice [\<lparr>DataActions = Some (Slice [''read''])\<rparr>]))
   \<and> expandSqlRoleDefinitionPermissions sample_utils
       (flattenSqlRoleDefinitionPermissions sample_utils (Some (Slice [])))
     = Inr (Some (Slice []))"
  using expand_flatten_permissions
          [of sample_utils "Some (Slice [])" "[\<lparr>DataActions = Some (Slice [''read''])\<rparr>]"]
  by (simp add: sample_utils_def)

section \<open>Read handlers: an error of the GET\<close>

lemma resourceCosmosDbSQLTriggerRead_get_error:
  "ParseTriggerID sdk (rd_Id d) = Inr rid \<Longrightarrow>
   SqlResourcesGetSqlTrigger (Cosmos_CosmosDBClient meta) rid w = ((resp, Some e), w') \<Longrightarrow>
   resourceCosmosDbSQLTriggerRead sdk d meta w =
     emit (ClientCall ''SqlResourcesGetSqlTrigger'' rid)
       (if WasNotFound (HttpResponse resp) then set_id '''' d (\<lambda>d. succeed d w')
        else fail
         (Errorf ''retrieving CosmosDb SQLTrigger %q: %+v'' [ArgId rid, ArgE e]) d w')"
  by (simp add: resourceCosmosDbSQLTriggerRead_def Let_def)

lemma resourceCosmosDbSQLFunctionRead_get_error:
  "ParseUserDefinedFunctionID sdk (rd_Id d) = Inr rid \<Longrightarrow>
   SqlResourcesGetSqlUserDefinedFunction (Cosmos_CosmosDBClient meta) rid w = ((resp, Some e), w') \<Longrightarrow>
   resourceCosmosDbSQLFunctionRead sdk d meta w =
     emit (ClientCall ''SqlResourcesGetSqlUserDefinedFunction'' rid)
       (if WasNotFound (HttpResponse resp) then set_id '''' d (\<lambda>d. succeed d w')
        else fail
         (Errorf ''retrieving CosmosDb SqlFunction %q: %+v'' [ArgId rid, ArgE e]) d w')"
  by (simp add: resourceCosmosDbSQLFunctionRead_def Let_def)

lemma resourceCosmosDbSQLStoredProcedureRead_get_error:
  "ParseStoredProcedureID sdk (rd_Id d) = Inr rid \<Longrightarrow>
   SqlResourcesGetSqlStoredProcedure (Cosmos_CosmosDBClient meta) rid w = ((resp, Some e), w') \<Longrightarrow>
   resourceCosmosDbSQLStoredProcedureRead sdk d meta w =
     emit (ClientCall ''SqlResourcesGetSqlStoredProcedure'' rid)
       (if WasNotFound (HttpResponse resp) then set_id '''' d (\<lambda>d. succeed d w')
        else fail
         (Errorf ''retrieving SQL Stored Procedure %q (Container %q / Database %q / Account %q): %+v''
          [ArgS (StoredProcedureName rid), ArgS (ContainerName rid), ArgS (SqlDatabaseName rid),
           ArgS (DatabaseAccountName rid), ArgE e]) d w')"
  by (simp add: resourceCosmosDbSQLStoredProcedureRead_def Let_def)

lemma resourceCosmosDbSQLDatabaseRead_get_error:
  "ParseSqlDatabaseID sdk (rd_Id d) = Inr rid \<Longrightarrow>
   SqlResourcesGetSqlDatabase (Cosmos_CosmosDBClient meta) rid w = ((resp, Some e), w') \<Longrightarrow>
   resourceCosmosDbSQLDatabaseRead sdk d meta w =
     emit (ClientCall ''SqlResourcesGetSqlDatabase'' rid)
       (if WasNotFound (HttpResponse resp) then set_id '''' d (\<lambda>d. succeed d w')
        else fail
         (Errorf ''reading Cosmos SQL Database %q (Account: %q): %+v''
          [ArgS (SqlDatabaseName rid), ArgS (DatabaseAccountName rid), ArgE e]) d w')"
  by (simp add: resourceCosmosDbSQLDatabaseRead_def Let_def)

lemma resourceCosmosDbSQLRoleAssignmentRead_get_error:
  "ParseAccountID sdk (rd_Id d) = Inr rid \<Longrightarrow>
   SqlResourcesGetSqlRoleAssignment (Cosmos_RbacsClient meta) rid w = ((resp, Some e), w') \<Longrightarrow>
   resourceCosmosDbSQLRoleAssignmentRead sdk d meta w =
     emit (ClientCall ''SqlResourcesGetSqlRoleAssignment'' rid)
       (if WasNotFound (HttpResponse resp) then set_id '''' d (\<lambda>d. succeed d w')
        else fail
         (Errorf ''retrieving %s: %+v'' [ArgId rid, ArgE e]) d w')"
  by (simp add: resourceCosmosDbSQLRoleAssignmentRead_def Let_def)

lemma resourceCosmosDbSQLRoleDefinitionRead_get_error:
  "ParseSqlRoleDefinitionID sdk (rd_Id d) = Inr rid \<Longrightarrow>
   SqlResourcesGetSqlRoleDefinition (Cosmos_RbacsClient meta) rid w = ((resp, Some e), w') \<Longrightarrow>
   resourceCosmosDbSQLRoleDefinitionRead sdk d meta w =
     emit (ClientCall ''SqlResourcesGetSqlRoleDefinition'' rid)
       (if WasNotFound (HttpResponse resp) then set_id '''' d (\<lambda>d. succeed d w')
        else fail
         (Errorf ''retrieving %s: %+v'' [ArgId rid, ArgE e]) d w')"
  by (simp add: resourceCosmosDbSQLRoleDefinitionRead_def Let_def)

lemma dataSourceCosmosDbSQLDatabaseRead_get_error:
  "rid = SqlDatabaseId (Account_SubscriptionId meta) (GetString d ''resource_group_name'')
           (GetString d ''account_name'') (GetString d ''name'') \<Longrightarrow>
   SqlResourcesGetSqlDatabase (Cosmos_CosmosDBClient meta) rid w = ((resp, Some e), w') \<Longrightarrow>
   dataSourceCosmosDbSQLDatabaseRead sdk d meta w =
     emit (ClientCall ''SqlResourcesGetSqlDatabase'' rid)
       (fail (if WasNotFound (HttpResponse resp)
              then Errorf ''%s was not found'' [ArgId rid]
              else Errorf ''reading Cosmos SQL Database %q (Account: %q): %+v''
                     [ArgS (SqlDatabaseName rid), ArgS (DatabaseAccountName rid), ArgE e]) d w')"
  by (simp add: dataSourceCosmosDbSQLDatabaseRead_def Let_def)

text \<open>
  C9, as stated, fails: the read handler of the database data source, against a remote
  whose GET answers 404 with an error, returns an error that says the database was not
  found, and leaves the stored identifier as it was.
\<close>

theorem data_source_read_not_found_counterexample:
  "SqlResourcesGetSqlDatabase (Cosmos_CosmosDBClient gone)
      (SqlDatabaseId ''sub'' ''x'' ''x'' ''x'') 0
     = ((\<lparr>HttpResponse = Some 404, Model = None\<rparr>, Some (ErrorString ''not found'')), 1)
   \<and> outcome (dataSourceCosmosDbSQLDatabaseRead sample_deps (sample_data False) gone 0)
       = Returned (Some (Errorf ''%s was not found''
                           [ArgId (SqlDatabaseId ''sub'' ''x'' ''x'' ''x'')]))
   \<and> outcome (dataSourceCosmosDbSQLDatabaseRead sample_deps (sample_data False) gone 0)
       \<noteq> Returned None
   \<and> rd_Id (rd (dataSourceCosmosDbSQLDatabaseRead sample_deps (sample_data False) gone 0))
       = ''x''"
  by (simp add: dataSourceCosmosDbSQLDatabaseRead_def gone_def answering_def bare_def
        WasNotFound_def Let_def)

text \<open>
  C9, amended. In each of the six read handlers of a resource (trigger, function, stored
  procedure, database, role assignment, role definition), once the stored identifier has
  parsed, an error of the GET whose response is "not found" is not returned: the handler
  sets the stored identifier to the empty string, changes nothing else, and returns nil.
  Any other error of the GET is returned inside an error that names the identifier (or
  its names) and wraps the cause, and the data stay as they were. The read handler of
  the database data source returns an error in both cases, "was not found" for a
  response that is not found, and never touches the data.
\<close>

theorem read_not_found_clears_identifier:
  "(ParseTriggerID sdk (rd_Id d) = Inr ridT \<longrightarrow>
    SqlResourcesGetSqlTrigger (Cosmos_CosmosDBClient meta) ridT w = ((respT, Some e), w') \<longrightarrow>
    (let r = resourceCosmosDbSQLTriggerRead sdk d meta w in
     if WasNotFound (HttpResponse respT)
     then outcome r = Returned None \<and> rd r = SetId d ''''
          \<and> events r = [ClientCall ''SqlResourcesGetSqlTrigger'' ridT, SetIdTo '''']
     else outcome r = Returned (Some
           (Errorf ''retrieving CosmosDb SQLTrigger %q: %+v'' [ArgId ridT, ArgE e]))
          \<and> rd r = d \<and> events r = [ClientCall ''SqlResourcesGetSqlTrigger'' ridT]))
   \<and> (ParseUserDefinedFunctionID sdk (rd_Id d) = Inr ridF \<longrightarrow>
    SqlResourcesGetSqlUserDefinedFunction (Cosmos_CosmosDBClient meta) ridF w = ((respF, Some e), w') \<longrightarrow>
    (let r = resourceCosmosDbSQLFunctionRead sdk d meta w in
     if WasNotFound (HttpResponse respF)
     then outcome r = Returned None \<and> rd r = SetId d ''''
          \<and> events r = [ClientCall ''SqlResourcesGetSqlUserDefinedFunction'' ridF, SetIdTo '''']
     else outcome r = Returned (Some
           (Errorf ''retrieving CosmosDb SqlFunction %q: %+v'' [ArgId ridF, ArgE e]))
          \<and> rd r = d \<and> events r = [ClientCall ''SqlResourcesGetSqlUserDefinedFunction'' ridF]))
   \<and> (ParseStoredProcedureID sdk (rd_Id d) = Inr ridP \<longrightarrow>
    SqlResourcesGetSqlStoredProcedure (Cosmos_CosmosDBClient meta) ridP w = ((respP, Some e), w') \<longrightarrow>
    (let r = resourceCosmosDbSQLStoredProcedureRead sdk d meta w in
     if WasNotFound (HttpResponse respP)
     then outcome r = Returned None \<and> rd r = SetId d ''''
          \<and> events r = [ClientCall ''SqlResourcesGetSqlStoredProcedure'' ridP, SetIdTo '''']
     else outcome r = Returned (Some
           (Errorf ''retrieving SQL Stored Procedure %q (Container %q / Database %q / Account %q): %+v''
          [ArgS (StoredProcedureName ridP), ArgS (ContainerName ridP), ArgS (SqlDatabaseName ridP),
           ArgS (DatabaseAccountName ridP), ArgE e]))
          \<and> rd r = d \<and> events r = [ClientCall ''SqlResourcesGetSqlStoredProcedure'' ridP]))
   \<and> (ParseSqlDatabaseID sdk (rd_Id d) = Inr ridD \<longrightarrow>
    SqlResourcesGetSqlDatabase (Cosmos_CosmosDBClient meta) ridD w = ((respD, Some e), w') \<longrightarrow>
    (let r = resourceCosmosDbSQLDatabaseRead sdk d meta w in
     if WasNotFound (HttpResponse respD)
     then outcome r = Returned None \<and> rd r = SetId d ''''
          \<and> events r = [ClientCall ''SqlResourcesGetSqlDatabase'' ridD, SetIdTo '''']
     else outcome r = Returned (Some
           (Errorf ''reading Cosmos SQL Database %q (Account: %q): %+v''
          [ArgS (SqlDatabaseName ridD), ArgS (DatabaseAccountName ridD), ArgE e]))
          \<and> rd r = d \<and> events r = [ClientCall ''SqlResourcesGetSqlDatabase'' ridD]))
   \<and> (ParseAccountID sdk (rd_Id d) = Inr ridA \<longrightarrow>
    SqlResourcesGetSqlRoleAssignment (Cosmos_RbacsClient meta) ridA w = ((respA, Some e), w') \<longrightarrow>
    (let r = resourceCosmosDbSQLRoleAssignmentRead sdk d meta w in
     if WasNotFound (HttpResponse respA)
     then outcome r = Returned None \<and> rd r = SetId d ''''
          \<and> events r = [ClientCall ''SqlResourcesGetSqlRoleAssignment'' ridA, SetIdTo '''']
     else outcome r = Returned (Some
           (Errorf ''retrieving %s: %+v'' [ArgId ridA, ArgE e]))
          \<and> rd r = d \<and> events r = [ClientCall ''SqlResourcesGetSqlRoleAssignment'' ridA]))
   \<and> (ParseSqlRoleDefinitionID sdk (rd_Id d) = Inr ridR \<longrightarrow>
    SqlResourcesGetSqlRoleDefinition (Cosmos_RbacsClient meta) ridR w = ((respR, Some e), w') \<longrightarrow>
    (let r = resourceCosmosDbSQLRoleDefinitionRead sdk d meta w in
     if WasNotFound (HttpResponse respR)
     then outcome r = Returned None \<and> rd r = SetId d ''''
          \<and> events r = [ClientCall ''SqlResourcesGetSqlRoleDefinition'' ridR, SetIdTo '''']
     else outcome r = Returned (Some
           (Errorf ''retrieving %s: %+v'' [ArgId ridR, ArgE e]))
          \<and> rd r = d \<and> events r = [ClientCall ''SqlResourcesGetSqlRoleDefinition'' ridR]))
   \<and> (ridS = SqlDatabaseId (Account_SubscriptionId meta) (GetString d ''resource_group_name'')
             (GetString d ''account_name'') (GetString d ''name'') \<longrightarrow>
    SqlResourcesGetSqlDatabase (Cosmos_CosmosDBClient meta) ridS w = ((respS, Some e), w') \<longrightarrow>
    (let r = dataSourceCosmosDbSQLDatabaseRead sdk d meta w in
     outcome r = Returned (Some
        (if WasNotFound (HttpResponse respS)
         then Errorf ''%s was not found'' [ArgId ridS]
         else Errorf ''reading Cosmos SQL Database %q (Account: %q): %+v''
          [ArgS (SqlDatabaseName ridS), ArgS (DatabaseAccountName ridS), ArgE e]))
     \<and> rd r = d \<and> events r = [ClientCall ''SqlResourcesGetSqlDatabase'' ridS]))"

  by (simp add: Let_def resourceCosmosDbSQLTriggerRead_get_error resourceCosmosDbSQLFunctionRead_get_error resourceCosmosDbSQLStoredProcedureRead_get_error resourceCosmosDbSQLDatabaseRead_get_error resourceCosmosDbSQLRoleAssignmentRead_get_error resourceCosmosDbSQLRoleDefinitionRead_get_error
        dataSourceCosmosDbSQLDatabaseRead_get_error)


theorem read_not_found_clears_identifier_witness:
  "ParseTriggerID sample_deps (rd_Id (sample_data False)) = Inr (TriggerId ''sub'' ''rg'' ''acct'' ''db'' ''coll'' ''x'')
   \<and> SqlResourcesGetSqlTrigger (Cosmos_CosmosDBClient gone) (TriggerId ''sub'' ''rg'' ''acct'' ''db'' ''coll'' ''x'') 0
       = ((\<lparr>HttpResponse = Some 404, Model = None\<rparr>, Some (ErrorString ''not found'')), 1)
   \<and> outcome (resourceCosmosDbSQLTriggerRead sample_deps (sample_data False) gone 0) = Returned None
   \<and> rd_Id (rd (resourceCosmosDbSQLTriggerRead sample_deps (sample_data False) gone 0)) = ''''
   \<and> outcome (resourceCosmosDbSQLTriggerRead sample_deps (sample_data False) broken 0) = Returned (Some
        (Errorf ''retrieving CosmosDb SQLTrigger %q: %+v'' [ArgId (TriggerId ''sub'' ''rg'' ''acct'' ''db'' ''coll'' ''x''), ArgE (ErrorString ''internal server error'')]))
   \<and> ParseUserDefinedFunctionID sample_deps (rd_Id (sample_data False)) = Inr (UserDefinedFunctionId ''sub'' ''rg'' ''acct'' ''db'' ''coll'' ''x'')
   \<and> SqlResourcesGetSqlUserDefinedFunction (Cosmos_CosmosDBClient gone) (UserDefinedFunctionId ''sub'' ''rg'' ''acct'' ''db'' ''coll'' ''x'') 0
       = ((\<lparr>HttpResponse = Some 404, Model = None\<rparr>, Some (ErrorString ''not found'')), 1)
   \<and> outcome (resourceCosmosDbSQLFunctionRead sample_deps (sample_data False) gone 0) = Returned None
   \<and> rd_Id (rd (resourceCosmosDbSQLFunctionRead sample_deps (sample_data False) gone 0)) = ''''
   \<and> outcome (resourceCosmosDbSQLFunctionRead sample_deps (sample_data False) broken 0) = Returned (Some
        (Errorf ''retrieving CosmosDb SqlFunction %q: %+v'' [ArgId (UserDefinedFunctionId ''sub'' ''rg'' ''acct'' ''db'' ''coll'' ''x''), ArgE (ErrorString ''internal server error'')]))
   \<and> ParseStoredProcedureID sample_deps (rd_Id (sample_data False)) = Inr (StoredProcedureId ''sub'' ''rg'' ''acct'' ''db'' ''coll'' ''x'')
   \<and> SqlResourcesGetSqlStoredProcedure (Cosmos_CosmosDBClient gone) (StoredProcedureId ''sub'' ''rg'' ''acct'' ''db'' ''coll'' ''x'') 0
       = ((\<lparr>HttpResponse = Some 404, Model = None\<rparr>, Some (ErrorString ''not found'')), 1)
   \<and> outcome (resourceCosmosDbSQLStoredProcedureRead sample_deps (sample_data False) gone 0) = Returned None
   \<and> rd_Id (rd (resourceCosmosDbSQLStoredProcedureRead sample_deps (sample_data False) gone 0)) = ''''
   \<and> outcome (resourceCosmosDbSQLStoredProcedureRead sample_deps (sample_data False) broken 0) = Returned (Some
        (Errorf ''retrieving SQL Stored Procedure %q (Container %q / Database %q / Account %q): %+v''
          [ArgS (StoredProcedureName (StoredProcedureId ''sub'' ''rg'' ''acct'' ''db'' ''coll'' ''x'')), ArgS (ContainerName (StoredProcedureId ''sub'' ''rg'' ''acct'' ''db'' ''coll'' ''x'')), ArgS (SqlDatabaseName (StoredProcedureId ''sub'' ''rg'' ''acct'' ''db'' ''coll'' ''x'')),
           ArgS (DatabaseAccountName (StoredProcedureId ''sub'' ''rg'' ''acct'' ''db'' ''coll'' ''x'')), ArgE (ErrorString ''internal server error'')]))
   \<and> ParseSqlDatabaseID sample_deps (rd_Id (sample_data False)) = Inr (SqlDatabaseId ''sub'' ''rg'' ''acct'' ''x'')
   \<and> SqlResourcesGetSqlDatabase (Cosmos_CosmosDBClient gone) (SqlDatabaseId ''sub'' ''rg'' ''acct'' ''x'') 0
       = ((\<lparr>HttpResponse = Some 404, Model = None\<rparr>, Some (ErrorString ''not found'')), 1)
   \<and> outcome (resourceCosmosDbSQLDatabaseRead sample_deps (sample_data False) gone 0) = Returned None
   \<and> rd_Id (rd (resourceCosmosDbSQLDatabaseRead sample_deps (sample_data False) gone 0)) = ''''
   \<and> outcome (resourceCosmosDbSQLDatabaseRead sample_deps (sample_data False) broken 0) = Returned (Some
        (Errorf ''reading Cosmos SQL Database %q (Account: %q): %+v''
          [ArgS (SqlDatabaseName (SqlDatabaseId ''sub'' ''rg'' ''acct'' ''x'')), ArgS (DatabaseAccountName (SqlDatabaseId ''sub'' ''rg'' ''acct'' ''x'')), ArgE (ErrorString ''internal server error'')]))
   \<and> ParseAccountID sample_deps (rd_Id (sample_data False)) = Inr (AccountId ''sub'' ''rg'' ''acct'' ''x'')
   \<and> SqlResourcesGetSqlRoleAssignment (Cosmos_RbacsClient gone) (AccountId ''sub'' ''rg'' ''acct'' ''x'') 0
       = ((\<lparr>HttpResponse = Some 404, Model = None\<rparr>, Some (ErrorString ''not found'')), 1)
   \<and> outcome (resourceCosmosDbSQLRoleAssignmentRead sample_deps (sample_data False) gone 0) = Returned None
   \<and> rd_Id (rd (resourceCosmosDbSQLRoleAssignmentRead sample_deps (sample_data False) gone 0)) = ''''
   \<and> outcome (resourceCosmosDbSQLRoleAssignmentRead sample_deps (sample_data False) broken 0) = Returned (Some
        (Errorf ''retrieving %s: %+v'' [ArgId (AccountId ''sub'' ''rg'' ''acct'' ''x''), ArgE (ErrorString ''internal server error'')]))
   \<and> ParseSqlRoleDefinitionID sample_deps (rd_Id (sample_data False)) = Inr (SqlRoleDefinitionId ''sub'' ''rg'' ''acct'' ''x'')
   \<and> SqlResourcesGetSqlRoleDefinition (Cosmos_RbacsClient gone) (SqlRoleDefinitionId ''sub'' ''rg'' ''acct'' ''x'') 0
       = ((\<lparr>HttpResponse = Some 404, Model = None\<rparr>, Some (ErrorString ''not found'')), 1)
   \<and> outcome (resourceCosmosDbSQLRoleDefinitionRead sample_deps (sample_data False) gone 0) = Returned None
   \<and> rd_Id (rd (resourceCosmosDbSQLRoleDefinitionRead sample_deps (sample_data False) gone 0)) = ''''
   \<and> outcome (resourceCosmosDbSQLRoleDefinitionRead sample_deps (sample_data False) broken 0) = Returned (Some
        (Errorf ''retrieving %s: %+v'' [ArgId (SqlRoleDefinitionId ''sub'' ''rg'' ''acct'' ''x''), ArgE (ErrorString ''internal server error'')]))
   \<and> SqlResourcesGetSqlDatabase (Cosmos_CosmosDBClient gone) (SqlDatabaseId ''sub'' ''x'' ''x'' ''x'') 0
       = ((\<lparr>HttpResponse = Some 404, Model = None\<rparr>, Some (ErrorString ''not found'')), 1)
   \<and> outcome (dataSourceCosmosDbSQLDatabaseRead sample_deps (sample_data False) gone 0)
       = Returned (Some (Errorf ''%s was not found'' [ArgId (SqlDatabaseId ''sub'' ''x'' ''x'' ''x'')]))
   \<and> rd (dataSourceCosmosDbSQLDatabaseRead sample_deps (sample_data False) gone 0) = sample_data False
   \<and> outcome (dataSourceCosmosDbSQLDatabaseRead sample_deps (sample_data False) broken 0)
       = Returned (Some (Errorf ''reading Cosmos SQL Database %q (Account: %q): %+v''
          [ArgS ''x'', ArgS ''x'', ArgE (ErrorString ''internal server error'')]))"

  using read_not_found_clears_identifier
          [where sdk = sample_deps and d = "sample_data False" and w = 0 and w' = 1 and meta = gone and e = "ErrorString ''not found''"
           and ridT = "TriggerId ''sub'' ''rg'' ''acct'' ''db'' ''coll'' ''x''" and ridF = "UserDefinedFunctionId ''sub'' ''rg'' ''acct'' ''db'' ''coll'' ''x''" and ridP = "StoredProcedureId ''sub'' ''rg'' ''acct'' ''db'' ''coll'' ''x''" and ridD = "SqlDatabaseId ''sub'' ''rg'' ''acct'' ''x''" and ridA = "AccountId ''sub'' ''rg'' ''acct'' ''x''" and ridR = "SqlRoleDefinitionId ''sub'' ''rg'' ''acct'' ''x''" and ridS = "SqlDatabaseId ''sub'' ''x'' ''x'' ''x''"
           and respT = "\<lparr>HttpResponse = Some 404, Model = None\<rparr>" and respF = "\<lparr>HttpResponse = Some 404, Model = None\<rparr>" and respP = "\<lparr>HttpResponse = Some 404, Model = None\<rparr>" and respD = "\<lparr>HttpResponse = Some 404, Model = None\<rparr>" and respA = "\<lparr>HttpResponse = Some 404, Model = None\<rparr>" and respR = "\<lparr>HttpResponse = Some 404, Model = None\<rparr>" and respS = "\<lparr>HttpResponse = Some 404, Model = None\<rparr>"]
        read_not_found_clears_identifier
          [where sdk = sample_deps and d = "sample_data False" and w = 0 and w' = 1 and meta = broken and e = "ErrorString ''internal server error''"
           and ridT = "TriggerId ''sub'' ''rg'' ''acct'' ''db'' ''coll'' ''x''" and ridF = "UserDefinedFunctionId ''sub'' ''rg'' ''acct'' ''db'' ''coll'' ''x''" and ridP = "StoredProcedureId ''sub'' ''rg'' ''acct'' ''db'' ''coll'' ''x''" and ridD = "SqlDatabaseId ''sub'' ''rg'' ''acct'' ''x''" and ridA = "AccountId ''sub'' ''rg'' ''acct'' ''x''" and ridR = "SqlRoleDefinitionId ''sub'' ''rg'' ''acct'' ''x''" and ridS = "SqlDatabaseId ''sub'' ''x'' ''x'' ''x''"
           and respT = "\<lparr>HttpResponse = Some 500, Model = None\<rparr>" and respF = "\<lparr>HttpResponse = Some 500, Model = None\<rparr>" and respP = "\<lparr>HttpResponse = Some 500, Model = None\<rparr>" and respD = "\<lparr>HttpResponse = Some 500, Model = None\<rparr>" and respA = "\<lparr>HttpResponse = Some 500, Model = None\<rparr>" and respR = "\<lparr>HttpResponse = Some 500, Model = None\<rparr>" and respS = "\<lparr>HttpResponse = Some 500, Model = None\<rparr>"]
  by (simp add: sample_deps_def gone_def broken_def answering_def bare_def WasNotFound_def Let_def)

section \<open>Create handlers: the existence check\<close>

lemma resourceCosmosDbSQLTriggerCreateUpdate_found:
  "ParseContainerID sdk (GetString d ''container_id'') = Inr c \<Longrightarrow>
   rd_IsNewResource d \<Longrightarrow>
   rid = TriggerId (Account_SubscriptionId meta) (ResourceGroupName c) (DatabaseAccountName c)
           (SqlDatabaseName c) (ContainerName c) (GetString d ''name'') \<Longrightarrow>
   SqlResourcesGetSqlTrigger (Cosmos_CosmosDBClient meta) rid w = ((existing, err), w') \<Longrightarrow>
   \<not> WasNotFound (HttpResponse existing) \<Longrightarrow>
   resourceCosmosDbSQLTriggerCreateUpdate sdk d meta w =
     emit (ClientCall ''SqlResourcesGetSqlTrigger'' rid)
       (fail (case err of
                None \<Rightarrow> ImportAsExistsError ''azurerm_cosmosdb_sql_trigger'' (ID sdk rid)
              | Some e \<Rightarrow> Errorf ''checking for existing CosmosDb SQLTrigger %q: %+v'' [ArgId rid, ArgE e]) d w')"
  by (simp add: resourceCosmosDbSQLTriggerCreateUpdate_def role_locked_defs Let_def split: option.splits)

lemma resourceCosmosDbSQLTriggerCreateUpdate_first_call:
  "rd_IsNewResource d \<Longrightarrow>
   client_calls (events (resourceCosmosDbSQLTriggerCreateUpdate sdk d meta w)) = [] \<or>
   (\<exists>rest. client_calls (events (resourceCosmosDbSQLTriggerCreateUpdate sdk d meta w)) = ''SqlResourcesGetSqlTrigger'' # rest)"
  by (simp add: resourceCosmosDbSQLTriggerCreateUpdate_def role_locked_defs Let_def split: sum.splits prod.splits)

lemma resourceCosmosDbSQLFunctionCreateUpdate_found:
  "ParseContainerID sdk (GetString d ''container_id'') = Inr c \<Longrightarrow>
   rd_IsNewResource d \<Longrightarrow>
   rid = UserDefinedFunctionId (Account_SubscriptionId meta) (ResourceGroupName c) (DatabaseAccountName c)
           (SqlDatabaseName c) (ContainerName c) (GetString d ''name'') \<Longrightarrow>
   SqlResourcesGetSqlUserDefinedFunction (Cosmos_CosmosDBClient meta) rid w = ((existing, err), w') \<Longrightarrow>
   \<not> WasNotFound (HttpResponse existing) \<Longrightarrow>
   resourceCosmosDbSQLFunctionCreateUpdate sdk d meta w =
     emit (ClientCall ''SqlResourcesGetSqlUserDefinedFunction'' rid)
       (fail (case err of
                None \<Rightarrow> ImportAsExistsError ''azurerm_cosmosdb_sql_function'' (ID sdk rid)
              | Some e \<Rightarrow> Errorf ''checking for existing CosmosDb SqlFunction %q: %+v'' [ArgId rid, ArgE e]) d w')"
  by (simp add: resourceCosmosDbSQLFunctionCreateUpdate_def role_locked_defs Let_def split: option.splits)

lemma resourceCosmosDbSQLFunctionCreateUpdate_first_call:
  "rd_IsNewResource d \<Longrightarrow>
   client_calls (events (resourceCosmosDbSQLFunctionCreateUpdate sdk d meta w)) = [] \<or>
   (\<exists>rest. client_calls (events (resourceCosmosDbSQLFunctionCreateUpdate sdk d meta w)) = ''SqlResourcesGetSqlUserDefinedFunction'' # rest)"
  by (simp add: resourceCosmosDbSQLFunctionCreateUpdate_def role_locked_defs Let_def split: sum.splits prod.splits)

lemma resourceCosmosDbSQLRoleAssignmentCreate_found:
  "(if GetString d ''name'' = '''' then GenerateUUID sdk
    else Inr (GetString d ''name'')) = Inr n \<Longrightarrow>
   rid = AccountId (Account_SubscriptionId meta) (GetString d ''resource_group_name'')
           (GetString d ''account_name'') n \<Longrightarrow>
   SqlResourcesGetSqlRoleAssignment (Cosmos_RbacsClient meta) rid w = ((existing, err), w') \<Longrightarrow>
   \<not> WasNotFound (HttpResponse existing) \<Longrightarrow>
   resourceCosmosDbSQLRoleAssignmentCreate sdk d meta w =
     emit (LockByName (GetString d ''account_name'') (CosmosDbAccountResourceName sdk))
       (deferred (UnlockByName (GetString d ''account_name'') (CosmosDbAccountResourceName sdk))
          (emit (ClientCall ''SqlResourcesGetSqlRoleAssignment'' rid)
             (fail (case err of
                      None \<Rightarrow> ImportAsExistsError ''azurerm_cosmosdb_sql_role_assignment'' (ID sdk rid)
                    | Some e \<Rightarrow> Errorf ''checking for presence of existing %s: %+v''
                                  [ArgId rid, ArgE e]) d w')))"
  by (simp add: resourceCosmosDbSQLRoleAssignmentCreate_def role_locked_defs Let_def split: option.splits)

lemma resourceCosmosDbSQLRoleAssignmentCreate_first_call:
  "client_calls (events (resourceCosmosDbSQLRoleAssignmentCreate sdk d meta w)) = [] \<or>
   (\<exists>rest. client_calls (events (resourceCosmosDbSQLRoleAssignmentCreate sdk d meta w)) = ''SqlResourcesGetSqlRoleAssignment'' # rest)"
  by (simp add: resourceCosmosDbSQLRoleAssignmentCreate_def role_locked_defs Let_def split: sum.splits prod.splits)

lemma resourceCosmosDbSQLRoleDefinitionCreate_found:
  "(if GetString d ''role_definition_id'' = '''' then GenerateUUID sdk
    else Inr (GetString d ''role_definition_id'')) = Inr n \<Longrightarrow>
   rid = SqlRoleDefinitionId (Account_SubscriptionId meta) (GetString d ''resource_group_name'')
           (GetString d ''account_name'') n \<Longrightarrow>
   SqlResourcesGetSqlRoleDefinition (Cosmos_RbacsClient meta) rid w = ((existing, err), w') \<Longrightarrow>
   \<not> WasNotFound (HttpResponse existing) \<Longrightarrow>
   resourceCosmosDbSQLRoleDefinitionCreate sdk d meta w =
     emit (LockByName (GetString d ''account_name'') (CosmosDbAccountResourceName sdk))
       (deferred (UnlockByName (GetString d ''account_name'') (CosmosDbAccountResourceName sdk))
          (emit (ClientCall ''SqlResourcesGetSqlRoleDefinition'' rid)
             (fail (case err of
                      None \<Rightarrow> ImportAsExistsError ''azurerm_cosmosdb_sql_role_definition'' (ID sdk rid)
                    | Some e \<Rightarrow> Errorf ''checking for presence of existing %s: %+v''
                                  [ArgId rid, ArgE e]) d w')))"
  by (simp add: resourceCosmosDbSQLRoleDefinitionCreate_def role_locked_defs Let_def split: option.splits)

lemma resourceCosmosDbSQLRoleDefinitionCreate_first_call:
  "client_calls (events (resourceCosmosDbSQLRoleDefinitionCreate sdk d meta w)) = [] \<or>
   (\<exists>rest. client_calls (events (resourceCosmosDbSQLRoleDefinitionCreate sdk d meta w)) = ''SqlResourcesGetSqlRoleDefinition'' # rest)"
  by (simp add: resourceCosmosDbSQLRoleDefinitionCreate_def role_locked_defs Let_def split: sum.splits prod.splits)

lemma resourceCosmosDbSQLStoredProcedureCreate_probe_error:
  "rid = StoredProcedureId (Account_SubscriptionId meta) (GetString d ''resource_group_name'')
             (GetString d ''account_name'') (GetString d ''database_name'')
             (GetString d ''container_name'') (GetString d ''name'') \<Longrightarrow>
   SqlResourcesGetSqlStoredProcedure (Cosmos_CosmosDBClient meta) rid w = ((existing, Some e), w') \<Longrightarrow>
   \<not> WasNotFound (HttpResponse existing) \<Longrightarrow>
   resourceCosmosDbSQLStoredProcedureCreate sdk d meta w =
     emit (ClientCall ''SqlResourcesGetSqlStoredProcedure'' rid)
       (fail (Errorf ''checking for presence of %s: %+v'' [ArgId rid, ArgE e]) d w')"
  by (simp add: resourceCosmosDbSQLStoredProcedureCreate_def role_locked_defs Let_def)

lemma resourceCosmosDbSQLStoredProcedureCreate_probe_success:
  "rid = StoredProcedureId (Account_SubscriptionId meta) (GetString d ''resource_group_name'')
             (GetString d ''account_name'') (GetString d ''database_name'')
             (GetString d ''container_name'') (GetString d ''name'') \<Longrightarrow>
   SqlResourcesGetSqlStoredProcedure (Cosmos_CosmosDBClient meta) rid w = ((existing, None), w') \<Longrightarrow>
   resourceCosmosDbSQLStoredProcedureCreate sdk d meta w =
     emit (ClientCall ''SqlResourcesGetSqlStoredProcedure'' rid)
       (case Model existing of
          None \<Rightarrow> crash NilPointerDereference d w'
        | Some m \<Rightarrow>
            (case Id m of
               None \<Rightarrow> crash NilPointerDereference d w'
             | Some s \<Rightarrow> fail (ImportAsExistsError ''azurerm_cosmosdb_sql_stored_procedure'' s) d w'))"
  by (simp add: resourceCosmosDbSQLStoredProcedureCreate_def role_locked_defs Let_def and_then_def deref_eq_def deref_def split: option.splits)

lemma resourceCosmosDbSQLStoredProcedureCreate_first_call:
  "\<exists>rest. client_calls (events (resourceCosmosDbSQLStoredProcedureCreate sdk d meta w)) = ''SqlResourcesGetSqlStoredProcedure'' # rest"
  by (simp add: resourceCosmosDbSQLStoredProcedureCreate_def role_locked_defs Let_def split: sum.splits prod.splits)

lemma resourceCosmosDbSQLDatabaseCreate_probe_error:
  "rid = SqlDatabaseId (Account_SubscriptionId meta) (GetString d ''resource_group_name'')
             (GetString d ''account_name'') (GetString d ''name'') \<Longrightarrow>
   SqlResourcesGetSqlDatabase (Cosmos_CosmosDBClient meta) rid w = ((existing, Some e), w') \<Longrightarrow>
   \<not> WasNotFound (HttpResponse existing) \<Longrightarrow>
   resourceCosmosDbSQLDatabaseCreate sdk d meta w =
     emit (ClientCall ''SqlResourcesGetSqlDatabase'' rid)
       (fail (Errorf ''checking for presence of %s: %+v'' [ArgId rid, ArgE e]) d w')"
  by (simp add: resourceCosmosDbSQLDatabaseCreate_def role_locked_defs Let_def)

lemma resourceCosmosDbSQLDatabaseCreate_probe_success:
  "rid = SqlDatabaseId (Account_SubscriptionId meta) (GetString d ''resource_group_name'')
             (GetString d ''account_name'') (GetString d ''name'') \<Longrightarrow>
   SqlResourcesGetSqlDatabase (Cosmos_CosmosDBClient meta) rid w = ((existing, None), w') \<Longrightarrow>
   resourceCosmosDbSQLDatabaseCreate sdk d meta w =
     emit (ClientCall ''SqlResourcesGetSqlDatabase'' rid)
       (case Model existing of
          None \<Rightarrow> crash NilPointerDereference d w'
        | Some m \<Rightarrow>
            (case Id m of
               None \<Rightarrow> crash NilPointerDereference d w'
             | Some s \<Rightarrow> fail (ImportAsExistsError ''azurerm_cosmosdb_sql_database'' s) d w'))"
  by (simp add: resourceCosmosDbSQLDatabaseCreate_def role_locked_defs Let_def and_then_def deref_eq_def deref_def split: option.splits)

lemma resourceCosmosDbSQLDatabaseCreate_first_call:
  "\<exists>rest. client_calls (events (resourceCosmosDbSQLDatabaseCreate sdk d meta w)) = ''SqlResourcesGetSqlDatabase'' # rest"
  by (simp add: resourceCosmosDbSQLDatabaseCreate_def role_locked_defs Let_def split: sum.splits prod.splits)

text \<open>
  C2, as stated, fails: a probe that ends in an error with a response other than 404 (here
  500) makes the create handler return the error of the check, not the "already exists"
  error.
\<close>

theorem create_probe_error_counterexample:
  "\<not> WasNotFound (HttpResponse (fst (fst (SqlResourcesGetSqlTrigger (Cosmos_CosmosDBClient broken)
         (TriggerId ''sub'' ''rg'' ''acct'' ''db'' ''x'' ''x'') 0))))
   \<and> outcome (resourceCosmosDbSQLTriggerCreateUpdate sample_deps (sample_data True) broken 0)
       = Returned (Some (Errorf ''checking for existing CosmosDb SQLTrigger %q: %+v''
           [ArgId (TriggerId ''sub'' ''rg'' ''acct'' ''db'' ''x'' ''x''),
            ArgE (ErrorString ''internal server error'')]))
   \<and> outcome (resourceCosmosDbSQLTriggerCreateUpdate sample_deps (sample_data True) broken 0)
       \<noteq> Returned (Some (ImportAsExistsError ''azurerm_cosmosdb_sql_trigger''
            (ID sample_deps (TriggerId ''sub'' ''rg'' ''acct'' ''db'' ''x'' ''x''))))"
  by (simp add: resourceCosmosDbSQLTriggerCreateUpdate_def sample_deps_def broken_def
        answering_def bare_def WasNotFound_def Let_def)

text \<open>
  C2, amended. In every create handler the existence check is the first call of a client
  method (the trigger and function handlers make it for a new resource only). When the
  response of the check is not a 404, the check is the only call of a client method, so
  no create call is issued, and the handler returns an error: the error of the check,
  wrapped, when the check ended in an error, and otherwise the import-as-exists error
  that names the identifier. The stored procedure and database handlers take the second
  branch whenever the check ended without error, and name the identifier the remote
  gave; for them the statement is about a model whose \<^verbatim>\<open>Id\<close> is not nil.
\<close>

theorem create_existence_check:
  "(ParseContainerID sdk (GetString d ''container_id'') = Inr cT \<longrightarrow> rd_IsNewResource d \<longrightarrow>
     ridT = TriggerId (Account_SubscriptionId meta) (ResourceGroupName cT)
             (DatabaseAccountName cT) (SqlDatabaseName cT) (ContainerName cT)
             (GetString d ''name'') \<longrightarrow>
     SqlResourcesGetSqlTrigger (Cosmos_CosmosDBClient meta) ridT w = ((existingT, err), w') \<longrightarrow>
     \<not> WasNotFound (HttpResponse existingT) \<longrightarrow>
     (let r = resourceCosmosDbSQLTriggerCreateUpdate sdk d meta w in
      events r = [ClientCall ''SqlResourcesGetSqlTrigger'' ridT]
      \<and> outcome r = Returned (Some (case err of
            None \<Rightarrow> ImportAsExistsError ''azurerm_cosmosdb_sql_trigger'' (ID sdk ridT)
          | Some e \<Rightarrow> Errorf ''checking for existing CosmosDb SQLTrigger %q: %+v'' [ArgId ridT, ArgE e]))))
   \<and> (rd_IsNewResource d \<longrightarrow>
        client_calls (events (resourceCosmosDbSQLTriggerCreateUpdate sdk d meta w)) = [] \<or>
        (\<exists>rest. client_calls (events (resourceCosmosDbSQLTriggerCreateUpdate sdk d meta w))
           = ''SqlResourcesGetSqlTrigger'' # rest))
   \<and> (ParseContainerID sdk (GetString d ''container_id'') = Inr cF \<longrightarrow> rd_IsNewResource d \<longrightarrow>
     ridF = UserDefinedFunctionId (Account_SubscriptionId meta) (ResourceGroupName cF)
             (DatabaseAccountName cF) (SqlDatabaseName cF) (ContainerName cF)
             (GetString d ''name'') \<longrightarrow>
     SqlResourcesGetSqlUserDefinedFunction (Cosmos_CosmosDBClient meta) ridF w = ((existingF, err), w') \<longrightarrow>
     \<not> WasNotFound (HttpResponse existingF) \<longrightarrow>
     (let r = resourceCosmosDbSQLFunctionCreateUpdate sdk d meta w in
      events r = [ClientCall ''SqlResourcesGetSqlUserDefinedFunction'' ridF]
      \<and> outcome r = Returned (Some (case err of
            None \<Rightarrow> ImportAsExistsError ''azurerm_cosmosdb_sql_function'' (ID sdk ridF)
          | Some e \<Rightarrow> Errorf ''checking for existing CosmosDb SqlFunction %q: %+v'' [ArgId ridF, ArgE e]))))
   \<and> (rd_IsNewResource d \<longrightarrow>
        client_calls (events (resourceCosmosDbSQLFunctionCreateUpdate sdk d meta w)) = [] \<or>
        (\<exists>rest. client_calls (events (resourceCosmosDbSQLFunctionCreateUpdate sdk d meta w))
           = ''SqlResourcesGetSqlUserDefinedFunction'' # rest))
   \<and> ((if GetString d ''name'' = '''' then GenerateUUID sdk
       else Inr (GetString d ''name'')) = Inr nA \<longrightarrow>
     ridA = AccountId (Account_SubscriptionId meta) (GetString d ''resource_group_name'')
             (GetString d ''account_name'') nA \<longrightarrow>
     SqlResourcesGetSqlRoleAssignment (Cosmos_RbacsClient meta) ridA w = ((existingA, err), w') \<longrightarrow>
     \<not> WasNotFound (HttpResponse existingA) \<longrightarrow>
     (let r = resourceCosmosDbSQLRoleAssignmentCreate sdk d meta w in
      client_calls (events r) = [''SqlResourcesGetSqlRoleAssignment'']
      \<and> outcome r = Returned (Some (case err of
            None \<Rightarrow> ImportAsExistsError ''azurerm_cosmosdb_sql_role_assignment'' (ID sdk ridA)
          | Some e \<Rightarrow> Errorf ''checking for presence of existing %s: %+v''
                        [ArgId ridA, ArgE e]))))
   \<and> (client_calls (events (resourceCosmosDbSQLRoleAssignmentCreate sdk d meta w)) = [] \<or>
        (\<exists>rest. client_calls (events (resourceCosmosDbSQLRoleAssignmentCreate sdk d meta w))
           = ''SqlResourcesGetSqlRoleAssignment'' # rest))
   \<and> ((if GetString d ''role_definition_id'' = '''' then GenerateUUID sdk
       else Inr (GetString d ''role_definition_id'')) = Inr nR \<longrightarrow>
     ridR = SqlRoleDefinitionId (Account_SubscriptionId meta) (GetString d ''resource_group_name'')
             (GetString d ''account_name'') nR \<longrightarrow>
     SqlResourcesGetSqlRoleDefinition (Cosmos_RbacsClient meta) ridR w = ((existingR, err), w') \<longrightarrow>
     \<not> WasNotFound (HttpResponse existingR) \<longrightarrow>
     (let r = resourceCosmosDbSQLRoleDefinitionCreate sdk d meta w in
      client_calls (events r) = [''SqlResourcesGetSqlRoleDefinition'']
      \<and> outcome r = Returned (Some (case err of
            None \<Rightarrow> ImportAsExistsError ''azurerm_cosmosdb_sql_role_definition'' (ID sdk ridR)
          | Some e \<Rightarrow> Errorf ''checking for presence of existing %s: %+v''
                        [ArgId ridR, ArgE e]))))
   \<and> (client_calls (events (resourceCosmosDbSQLRoleDefinitionCreate sdk d meta w)) = [] \<or>
        (\<exists>rest. client_calls (events (resourceCosmosDbSQLRoleDefinitionCreate sdk d meta w))
           = ''SqlResourcesGetSqlRoleDefinition'' # rest))
   \<and> (ridP = StoredProcedureId (Account_SubscriptionId meta) (GetString d ''resource_group_name'')
             (GetString d ''account_name'') (GetString d ''database_name'')
             (GetString d ''container_name'') (GetString d ''name'') \<longrightarrow>
     SqlResourcesGetSqlStoredProcedure (Cosmos_CosmosDBClient meta) ridP w = ((existingP, Some e), w') \<longrightarrow>
     \<not> WasNotFound (HttpResponse existingP) \<longrightarrow>
     (let r = resourceCosmosDbSQLStoredProcedureCreate sdk d meta w in
      events r = [ClientCall ''SqlResourcesGetSqlStoredProcedure'' ridP]
      \<and> outcome r = Returned (Some (Errorf ''checking for presence of %s: %+v''
                                      [ArgId ridP, ArgE e]))))
   \<and> (ridP = StoredProcedureId (Account_SubscriptionId meta) (GetString d ''resource_group_name'')
             (GetString d ''account_name'') (GetString d ''database_name'')
             (GetString d ''container_name'') (GetString d ''name'') \<longrightarrow>
     SqlResourcesGetSqlStoredProcedure (Cosmos_CosmosDBClient meta) ridP w = ((existingP, None), w') \<longrightarrow>
     Model existingP = Some mP \<longrightarrow> Id mP = Some s \<longrightarrow>
     (let r = resourceCosmosDbSQLStoredProcedureCreate sdk d meta w in
      events r = [ClientCall ''SqlResourcesGetSqlStoredProcedure'' ridP]
      \<and> outcome r = Returned (Some (ImportAsExistsError ''azurerm_cosmosdb_sql_stored_procedure'' s))))
   \<and> (\<exists>rest. client_calls (events (resourceCosmosDbSQLStoredProcedureCreate sdk d meta w))
           = ''SqlResourcesGetSqlStoredProcedure'' # rest)
   \<and> (ridD = SqlDatabaseId (Account_SubscriptionId meta) (GetString d ''resource_group_name'')
             (GetString d ''account_name'') (GetString d ''name'') \<longrightarrow>
     SqlResourcesGetSqlDatabase (Cosmos_CosmosDBClient meta) ridD w = ((existingD, Some e), w') \<longrightarrow>
     \<not> WasNotFound (HttpResponse existingD) \<longrightarrow>
     (let r = resourceCosmosDbSQLDatabaseCreate sdk d meta w in
      events r = [ClientCall ''SqlResourcesGetSqlDatabase'' ridD]
      \<and> outcome r = Returned (Some (Errorf ''checking for presence of %s: %+v''
                                      [ArgId ridD, ArgE e]))))
   \<and> (ridD = SqlDatabaseId (Account_SubscriptionId meta) (GetString d ''resource_group_name'')
             (GetString d ''account_name'') (GetString d ''name'') \<longrightarrow>
     SqlResourcesGetSqlDatabase (Cosmos_CosmosDBClient meta) ridD w = ((existingD, None), w') \<longrightarrow>
     Model existingD = Some mD \<longrightarrow> Id mD = Some s \<longrightarrow>
     (let r = resourceCosmosDbSQLDatabaseCreate sdk d meta w in
      events r = [ClientCall ''SqlResourcesGetSqlDatabase'' ridD]
      \<and> outcome r = Returned (Some (ImportAsExistsError ''azurerm_cosmosdb_sql_database'' s))))
   \<and> (\<exists>rest. client_calls (events (resourceCosmosDbSQLDatabaseCreate sdk d meta w))
           = ''SqlResourcesGetSqlDatabase'' # rest)"
proof -
  have c1: "(ParseContainerID sdk (GetString d ''container_id'') = Inr cT \<longrightarrow> rd_IsNewResource d \<longrightarrow>
     ridT = TriggerId (Account_SubscriptionId meta) (ResourceGroupName cT)
             (DatabaseAccountName cT) (SqlDatabaseName cT) (ContainerName cT)
             (GetString d ''name'') \<longrightarrow>
     SqlResourcesGetSqlTrigger (Cosmos_CosmosDBClient meta) ridT w = ((existingT, err), w') \<longrightarrow>
     \<not> WasNotFound (HttpResponse existingT) \<longrightarrow>
     (let r = resourceCosmosDbSQLTriggerCreateUpdate sdk d meta w in
      events r = [ClientCall ''SqlResourcesGetSqlTrigger'' ridT]
      \<and> outcome r = Returned (Some (case err of
            None \<Rightarrow> ImportAsExistsError ''azurerm_cosmosdb_sql_trigger'' (ID sdk ridT)
          | Some e \<Rightarrow> Errorf ''checking for existing CosmosDb SQLTrigger %q: %+v'' [ArgId ridT, ArgE e]))))"
    by (simp add: resourceCosmosDbSQLTriggerCreateUpdate_found Let_def split: option.splits)
  have c2: "(rd_IsNewResource d \<longrightarrow>
        client_calls (events (resourceCosmosDbSQLTriggerCreateUpdate sdk d meta w)) = [] \<or>
        (\<exists>rest. client_calls (events (resourceCosmosDbSQLTriggerCreateUpdate sdk d meta w))
           = ''SqlResourcesGetSqlTrigger'' # rest))"
    using resourceCosmosDbSQLTriggerCreateUpdate_first_call [of d sdk meta w] by simp
  have c3: "(ParseContainerID sdk (GetString d ''container_id'') = Inr cF \<longrightarrow> rd_IsNewResource d \<longrightarrow>
     ridF = UserDefinedFunctionId (Account_SubscriptionId meta) (ResourceGroupName cF)
             (DatabaseAccountName cF) (SqlDatabaseName cF) (ContainerName cF)
             (GetString d ''name'') \<longrightarrow>
     SqlResourcesGetSqlUserDefinedFunction (Cosmos_CosmosDBClient meta) ridF w = ((existingF, err), w') \<longrightarrow>
     \<not> WasNotFound (HttpResponse existingF) \<longrightarrow>
     (let r = resourceCosmosDbSQLFunctionCreateUpdate sdk d meta w in
      events r = [ClientCall ''SqlResourcesGetSqlUserDefinedFunction'' ridF]
      \<and> outcome r = Returned (Some (case err of
            None \<Rightarrow> ImportAsExistsError ''azurerm_cosmosdb_sql_function'' (ID sdk ridF)
          | Some e \<Rightarrow> Errorf ''checking for existing CosmosDb SqlFunction %q: %+v'' [ArgId ridF, ArgE e]))))"
    by (simp add: resourceCosmosDbSQLFunctionCreateUpdate_found Let_def split: option.splits)
  have c4: "(rd_IsNewResource d \<longrightarrow>
        client_calls (events (resourceCosmosDbSQLFunctionCreateUpdate sdk d meta w)) = [] \<or>
        (\<exists>rest. client_calls (events (resourceCosmosDbSQLFunctionCreateUpdate sdk d meta w))
           = ''SqlResourcesGetSqlUserDefinedFunction'' # rest))"
    using resourceCosmosDbSQLFunctionCreateUpdate_first_call [of d sdk meta w] by simp
  have c5: "((if GetString d ''name'' = '''' then GenerateUUID sdk
       else Inr (GetString d ''name'')) = Inr nA \<longrightarrow>
     ridA = AccountId (Account_SubscriptionId meta) (GetString d ''resource_group_name'')
             (GetString d ''account_name'') nA \<longrightarrow>
     SqlResourcesGetSqlRoleAssignment (Cosmos_RbacsClient meta) ridA w = ((existingA, err), w') \<longrightarrow>
     \<not> WasNotFound (HttpResponse existingA) \<longrightarrow>
     (let r = resourceCosmosDbSQLRoleAssignmentCreate sdk d meta w in
      client_calls (events r) = [''SqlResourcesGetSqlRoleAssignment'']
      \<and> outcome r = Returned (Some (case err of
            None \<Rightarrow> ImportAsExistsError ''azurerm_cosmosdb_sql_role_assignment'' (ID sdk ridA)
          | Some e \<Rightarrow> Errorf ''checking for presence of existing %s: %+v''
                        [ArgId ridA, ArgE e]))))"
    by (simp add: resourceCosmosDbSQLRoleAssignmentCreate_found Let_def split: option.splits)
  have c6: "(client_calls (events (resourceCosmosDbSQLRoleAssignmentCreate sdk d meta w)) = [] \<or>
        (\<exists>rest. client_calls (events (resourceCosmosDbSQLRoleAssignmentCreate sdk d meta w))
           = ''SqlResourcesGetSqlRoleAssignment'' # rest))"
    by (rule resourceCosmosDbSQLRoleAssignmentCreate_first_call)
  have c7: "((if GetString d ''role_definition_id'' = '''' then GenerateUUID sdk
       else Inr (GetString d ''role_definition_id'')) = Inr nR \<longrightarrow>
     ridR = SqlRoleDefinitionId (Account_SubscriptionId meta) (GetString d ''resource_group_name'')
             (GetString d ''account_name'') nR \<longrightarrow>
     SqlResourcesGetSqlRoleDefinition (Cosmos_RbacsClient meta) ridR w = ((existingR, err), w') \<longrightarrow>
     \<not> WasNotFound (HttpResponse existingR) \<longrightarrow>
     (let r = resourceCosmosDbSQLRoleDefinitionCreate sdk d meta w in
      client_calls (events r) = [''SqlResourcesGetSqlRoleDefinition'']
      \<and> outcome r = Returned (Some (case err of
            None \<Rightarrow> ImportAsExistsError ''azurerm_cosmosdb_sql_role_definition'' (ID sdk ridR)
          | Some e \<Rightarrow> Errorf ''checking for presence of existing %s: %+v''
                        [ArgId ridR, ArgE e]))))"
    by (simp add: resourceCosmosDbSQLRoleDefinitionCreate_found Let_def split: option.splits)
  have c8: "(client_calls (events (resourceCosmosDbSQLRoleDefinitionCreate sdk d meta w)) = [] \<or>
        (\<exists>rest. client_calls (events (resourceCosmosDbSQLRoleDefinitionCreate sdk d meta w))
           = ''SqlResourcesGetSqlRoleDefinition'' # rest))"
    by (rule resourceCosmosDbSQLRoleDefinitionCreate_first_call)
  have c9: "(ridP = StoredProcedureId (Account_SubscriptionId meta) (GetString d ''resource_group_name'')
             (GetString d ''account_name'') (GetString d ''database_name'')
             (GetString d ''container_name'') (GetString d ''name'') \<longrightarrow>
     SqlResourcesGetSqlStoredProcedure (Cosmos_CosmosDBClient meta) ridP w = ((existingP, Some e), w') \<longrightarrow>
     \<not> WasNotFound (HttpResponse existingP) \<longrightarrow>
     (let r = resourceCosmosDbSQLStoredProcedureCreate sdk d meta w in
      events r = [ClientCall ''SqlResourcesGetSqlStoredProcedure'' ridP]
      \<and> outcome r = Returned (Some (Errorf ''checking for presence of %s: %+v''
                                      [ArgId ridP, ArgE e]))))"
    by (simp add: resourceCosmosDbSQLStoredProcedureCreate_probe_error Let_def)
  have c10: "(ridP = StoredProcedureId (Account_SubscriptionId meta) (GetString d ''resource_group_name'')
             (GetString d ''account_name'') (GetString d ''database_name'')
             (GetString d ''container_name'') (GetString d ''name'') \<longrightarrow>
     SqlResourcesGetSqlStoredProcedure (Cosmos_CosmosDBClient meta) ridP w = ((existingP, None), w') \<longrightarrow>
     Model existingP = Some mP \<longrightarrow> Id mP = Some s \<longrightarrow>
     (let r = resourceCosmosDbSQLStoredProcedureCreate sdk d meta w in
      events r = [ClientCall ''SqlResourcesGetSqlStoredProcedure'' ridP]
      \<and> outcome r = Returned (Some (ImportAsExistsError ''azurerm_cosmosdb_sql_stored_procedure'' s))))"
    by (simp add: resourceCosmosDbSQLStoredProcedureCreate_probe_success Let_def)
  have c11: "(\<exists>rest. client_calls (events (resourceCosmosDbSQLStoredProcedureCreate sdk d meta w))
           = ''SqlResourcesGetSqlStoredProcedure'' # rest)"
    by (rule resourceCosmosDbSQLStoredProcedureCreate_first_call)
  have c12: "(ridD = SqlDatabaseId (Account_SubscriptionId meta) (GetString d ''resource_group_name'')
             (GetString d ''account_name'') (GetString d ''name'') \<longrightarrow>
     SqlResourcesGetSqlDatabase (Cosmos_CosmosDBClient meta) ridD w = ((existingD, Some e), w') \<longrightarrow>
     \<not> WasNotFound (HttpResponse existingD) \<longrightarrow>
     (let r = resourceCosmosDbSQLDatabaseCreate sdk d meta w in
      events r = [ClientCall ''SqlResourcesGetSqlDatabase'' ridD]
      \<and> outcome r = Returned (Some (Errorf ''checking for presence of %s: %+v''
                                      [ArgId ridD, ArgE e]))))"
    by (simp add: resourceCosmosDbSQLDatabaseCreate_probe_error Let_def)
  have c13: "(ridD = SqlDatabaseId (Account_SubscriptionId meta) (GetString d ''resource_group_name'')
             (GetString d ''account_name'') (GetString d ''name'') \<longrightarrow>
     SqlResourcesGetSqlDatabase (Cosmos_CosmosDBClient meta) ridD w = ((existingD, None), w') \<longrightarrow>
     Model existingD = Some mD \<longrightarrow> Id mD = Some s \<longrightarrow>
     (let r = resourceCosmosDbSQLDatabaseCreate sdk d meta w in
      events r = [ClientCall ''SqlResourcesGetSqlDatabase'' ridD]
      \<and> outcome r = Returned (Some (ImportAsExistsError ''azurerm_cosmosdb_sql_database'' s))))"
    by (simp add: resourceCosmosDbSQLDatabaseCreate_probe_success Let_def)
  have c14: "(\<exists>rest. client_calls (events (resourceCosmosDbSQLDatabaseCreate sdk d meta w))
           = ''SqlResourcesGetSqlDatabase'' # rest)"
    by (rule resourceCosmosDbSQLDatabaseCreate_first_call)
  show ?thesis
    using c1 c2 c3 c4 c5 c6 c7 c8 c9 c10 c11 c12 c13 c14 by blast
qed

theorem create_existence_check_witness:
  "ParseContainerID sample_deps (GetString (sample_data True) ''container_id'') = Inr (ContainerId ''sub'' ''rg'' ''acct'' ''db'' ''x'')
   \<and> rd_IsNewResource (sample_data True)
   \<and> SqlResourcesGetSqlTrigger (Cosmos_CosmosDBClient broken) (TriggerId ''sub'' ''rg'' ''acct'' ''db'' ''x'' ''x'') 0
       = ((\<lparr>HttpResponse = Some 500, Model = None\<rparr>, Some (ErrorString ''internal server error'')), 1)
   \<and> events (resourceCosmosDbSQLTriggerCreateUpdate sample_deps (sample_data True) broken 0) = [ClientCall ''SqlResourcesGetSqlTrigger'' (TriggerId ''sub'' ''rg'' ''acct'' ''db'' ''x'' ''x'')]
   \<and> outcome (resourceCosmosDbSQLTriggerCreateUpdate sample_deps (sample_data True) broken 0) = Returned (Some (Errorf ''checking for existing CosmosDb SQLTrigger %q: %+v''
        [ArgId (TriggerId ''sub'' ''rg'' ''acct'' ''db'' ''x'' ''x''), ArgE (ErrorString ''internal server error'')]))
   \<and> ParseContainerID sample_deps (GetString (sample_data True) ''container_id'') = Inr (ContainerId ''sub'' ''rg'' ''acct'' ''db'' ''x'')
   \<and> rd_IsNewResource (sample_data True)
   \<and> SqlResourcesGetSqlUserDefinedFunction (Cosmos_CosmosDBClient broken) (UserDefinedFunctionId ''sub'' ''rg'' ''acct'' ''db'' ''x'' ''x'') 0
       = ((\<lparr>HttpResponse = Some 500, Model = None\<rparr>, Some (ErrorString ''internal server error'')), 1)
   \<and> events (resourceCosmosDbSQLFunctionCreateUpdate sample_deps (sample_data True) broken 0) = [ClientCall ''SqlResourcesGetSqlUserDefinedFunction'' (UserDefinedFunctionId ''sub'' ''rg'' ''acct'' ''db'' ''x'' ''x'')]
   \<and> outcome (resourceCosmosDbSQLFunctionCreateUpdate sample_deps (sample_data True) broken 0) = Returned (Some (Errorf ''checking for existing CosmosDb SqlFunction %q: %+v''
        [ArgId (UserDefinedFunctionId ''sub'' ''rg'' ''acct'' ''db'' ''x'' ''x''), ArgE (ErrorString ''internal server error'')]))
   \<and> SqlResourcesGetSqlRoleAssignment (Cosmos_RbacsClient broken) (AccountId ''sub'' ''x'' ''x'' ''x'') 0
       = ((\<lparr>HttpResponse = Some 500, Model = None\<rparr>, Some (ErrorString ''internal server error'')), 1)
   \<and> client_calls (events (resourceCosmosDbSQLRoleAssignmentCreate sample_deps (sample_data True) broken 0)) = [''SqlResourcesGetSqlRoleAssignment'']
   \<and> outcome (resourceCosmosDbSQLRoleAssignmentCreate sample_deps (sample_data True) broken 0) = Returned (Some (Errorf ''checking for presence of existing %s: %+v''
        [ArgId (AccountId ''sub'' ''x'' ''x'' ''x''), ArgE (ErrorString ''internal server error'')]))
   \<and> SqlResourcesGetSqlRoleDefinition (Cosmos_RbacsClient broken) (SqlRoleDefinitionId ''sub'' ''x'' ''x'' ''x'') 0
       = ((\<lparr>HttpResponse = Some 500, Model = None\<rparr>, Some (ErrorString ''internal server error'')), 1)
   \<and> client_calls (events (resourceCosmosDbSQLRoleDefinitionCreate sample_deps (sample_data True) broken 0)) = [''SqlResourcesGetSqlRoleDefinition'']
   \<and> outcome (resourceCosmosDbSQLRoleDefinitionCreate sample_deps (sample_data True) broken 0) = Returned (Some (Errorf ''checking for presence of existing %s: %+v''
        [ArgId (SqlRoleDefinitionId ''sub'' ''x'' ''x'' ''x''), ArgE (ErrorString ''internal server error'')]))
   \<and> SqlResourcesGetSqlStoredProcedure (Cosmos_CosmosDBClient broken) (StoredProcedureId ''sub'' ''x'' ''x'' ''x'' ''x'' ''x'') 0
       = ((\<lparr>HttpResponse = Some 500, Model = None\<rparr>, Some (ErrorString ''internal server error'')), 1)
   \<and> events (resourceCosmosDbSQLStoredProcedureCreate sample_deps (sample_data True) broken 0) = [ClientCall ''SqlResourcesGetSqlStoredProcedure'' (StoredProcedureId ''sub'' ''x'' ''x'' ''x'' ''x'' ''x'')]
   \<and> outcome (resourceCosmosDbSQLStoredProcedureCreate sample_deps (sample_data True) broken 0) = Returned (Some (Errorf ''checking for presence of %s: %+v''
        [ArgId (StoredProcedureId ''sub'' ''x'' ''x'' ''x'' ''x'' ''x''), ArgE (ErrorString ''internal server error'')]))
   \<and> SqlResourcesGetSqlStoredProcedure (Cosmos_CosmosDBClient fresh) (StoredProcedureId ''sub'' ''x'' ''x'' ''x'' ''x'' ''x'') 1
       = ((\<lparr>HttpResponse = Some 200, Model = Some (\<lparr>Id = Some ''p'', Properties = Some \<lparr>Resource = Some \<lparr>Body = Some ''remote body''\<rparr>\<rparr>\<rparr>)\<rparr>, None), 2)
   \<and> outcome (resourceCosmosDbSQLStoredProcedureCreate sample_deps (sample_data True) fresh 1)
       = Returned (Some (ImportAsExistsError ''azurerm_cosmosdb_sql_stored_procedure'' ''p''))
   \<and> SqlResourcesGetSqlDatabase (Cosmos_CosmosDBClient broken) (SqlDatabaseId ''sub'' ''x'' ''x'' ''x'') 0
       = ((\<lparr>HttpResponse = Some 500, Model = None\<rparr>, Some (ErrorString ''internal server error'')), 1)
   \<and> events (resourceCosmosDbSQLDatabaseCreate sample_deps (sample_data True) broken 0) = [ClientCall ''SqlResourcesGetSqlDatabase'' (SqlDatabaseId ''sub'' ''x'' ''x'' ''x'')]
   \<and> outcome (resourceCosmosDbSQLDatabaseCreate sample_deps (sample_data True) broken 0) = Returned (Some (Errorf ''checking for presence of %s: %+v''
        [ArgId (SqlDatabaseId ''sub'' ''x'' ''x'' ''x''), ArgE (ErrorString ''internal server error'')]))
   \<and> SqlResourcesGetSqlDatabase (Cosmos_CosmosDBClient fresh) (SqlDatabaseId ''sub'' ''x'' ''x'' ''x'') 1
       = ((\<lparr>HttpResponse = Some 200, Model = Some (\<lparr>Id = Some ''db'', Properties = Some \<lparr>Resource = Some \<lparr>SqlDatabaseGetPropertiesResource.Id = ''db''\<rparr>\<rparr>\<rparr>)\<rparr>, None), 2)
   \<and> outcome (resourceCosmosDbSQLDatabaseCreate sample_deps (sample_data True) fresh 1)
       = Returned (Some (ImportAsExistsError ''azurerm_cosmosdb_sql_database'' ''db''))"
  using create_existence_check
          [where sdk = sample_deps and d = "sample_data True" and meta = broken and w = 0
             and w' = 1 and err = "Some (ErrorString ''internal server error'')"
             and e = "ErrorString ''internal server error''"
             and cT = "ContainerId ''sub'' ''rg'' ''acct'' ''db'' ''x''" and ridT = "TriggerId ''sub'' ''rg'' ''acct'' ''db'' ''x'' ''x''" and existingT = "\<lparr>HttpResponse = Some 500, Model = None\<rparr>"
             and cF = "ContainerId ''sub'' ''rg'' ''acct'' ''db'' ''x''" and ridF = "UserDefinedFunctionId ''sub'' ''rg'' ''acct'' ''db'' ''x'' ''x''" and existingF = "\<lparr>HttpResponse = Some 500, Model = None\<rparr>"
             and nA = "''x''" and ridA = "AccountId ''sub'' ''x'' ''x'' ''x''" and existingA = "\<lparr>HttpResponse = Some 500, Model = None\<rparr>"
             and nR = "''x''" and ridR = "SqlRoleDefinitionId ''sub'' ''x'' ''x'' ''x''" and existingR = "\<lparr>HttpResponse = Some 500, Model = None\<rparr>"
             and ridP = "StoredProcedureId ''sub'' ''x'' ''x'' ''x'' ''x'' ''x''" and existingP = "\<lparr>HttpResponse = Some 500, Model = None\<rparr>"
             and ridD = "SqlDatabaseId ''sub'' ''x'' ''x'' ''x''" and existingD = "\<lparr>HttpResponse = Some 500, Model = None\<rparr>"]
        create_existence_check
          [where sdk = sample_deps and d = "sample_data True" and meta = fresh and w = 1
             and w' = 2 and s = "''p''"
             and ridP = "StoredProcedureId ''sub'' ''x'' ''x'' ''x'' ''x'' ''x''" and existingP = "\<lparr>HttpResponse = Some 200, Model = Some (\<lparr>Id = Some ''p'', Properties = Some \<lparr>Resource = Some \<lparr>Body = Some ''remote body''\<rparr>\<rparr>\<rparr>)\<rparr>" and mP = "\<lparr>Id = Some ''p'', Properties = Some \<lparr>Resource = Some \<lparr>Body = Some ''remote body''\<rparr>\<rparr>\<rparr>"]
        create_existence_check
          [where sdk = sample_deps and d = "sample_data True" and meta = fresh and w = 1
             and w' = 2 and s = "''db''"
             and ridD = "SqlDatabaseId ''sub'' ''x'' ''x'' ''x''" and existingD = "\<lparr>HttpResponse = Some 200, Model = Some (\<lparr>Id = Some ''db'', Properties = Some \<lparr>Resource = Some \<lparr>SqlDatabaseGetPropertiesResource.Id = ''db''\<rparr>\<rparr>\<rparr>)\<rparr>" and mD = "\<lparr>Id = Some ''db'', Properties = Some \<lparr>Resource = Some \<lparr>SqlDatabaseGetPropertiesResource.Id = ''db''\<rparr>\<rparr>\<rparr>"]
  by (simp add: sample_deps_def broken_def fresh_def fresh_get_def answering_def bare_def
        WasNotFound_def Let_def)

section \<open>Create handlers: the guard before the import-as-exists error\<close>

text \<open>
  C10. In the stored procedure and database create handlers the guard
  \<^verbatim>\<open>existing.Model.Id == nil && *existing.Model.Id == ""\<close> is false for every
  \<^verbatim>\<open>Id\<close> that is not nil and dereferences nil for the one that is, so it is never true
  and the "generating import ID" return is never taken. After a check that ended without
  error the handler issues no further call; it panics when the model or its \<^verbatim>\<open>Id\<close>
  is nil and returns the import-as-exists error for that \<^verbatim>\<open>Id\<close> otherwise.
\<close>

theorem create_import_guard:
  "and_then (Id m = None) (deref_eq (Id m) '''') =
     (case Id m of None \<Rightarrow> Inl NilPointerDereference | Some s \<Rightarrow> Inr False)
   \<and> (ridP = StoredProcedureId (Account_SubscriptionId meta) (GetString d ''resource_group_name'')
             (GetString d ''account_name'') (GetString d ''database_name'')
             (GetString d ''container_name'') (GetString d ''name'') \<longrightarrow>
     SqlResourcesGetSqlStoredProcedure (Cosmos_CosmosDBClient meta) ridP w = ((existingP, None), w') \<longrightarrow>
     (let r = resourceCosmosDbSQLStoredProcedureCreate sdk d meta w in
      events r = [ClientCall ''SqlResourcesGetSqlStoredProcedure'' ridP]
      \<and> outcome r =
          (case Model existingP of
             None \<Rightarrow> Panicked NilPointerDereference
           | Some m \<Rightarrow>
               (case Id m of
                  None \<Rightarrow> Panicked NilPointerDereference
                | Some s \<Rightarrow> Returned (Some (ImportAsExistsError ''azurerm_cosmosdb_sql_stored_procedure'' s))))))
   \<and> (ridD = SqlDatabaseId (Account_SubscriptionId meta) (GetString d ''resource_group_name'')
             (GetString d ''account_name'') (GetString d ''name'') \<longrightarrow>
     SqlResourcesGetSqlDatabase (Cosmos_CosmosDBClient meta) ridD w = ((existingD, None), w') \<longrightarrow>
     (let r = resourceCosmosDbSQLDatabaseCreate sdk d meta w in
      events r = [ClientCall ''SqlResourcesGetSqlDatabase'' ridD]
      \<and> outcome r =
          (case Model existingD of
             None \<Rightarrow> Panicked NilPointerDereference
           | Some m \<Rightarrow>
               (case Id m of
                  None \<Rightarrow> Panicked NilPointerDereference
                | Some s \<Rightarrow> Returned (Some (ImportAsExistsError ''azurerm_cosmosdb_sql_database'' s))))))"
  by (simp add: resourceCosmosDbSQLStoredProcedureCreate_probe_success resourceCosmosDbSQLDatabaseCreate_probe_success
        and_then_def deref_eq_def deref_def Let_def split: option.splits)

theorem create_import_guard_witness:
  "SqlResourcesGetSqlStoredProcedure (Cosmos_CosmosDBClient nameless) (StoredProcedureId ''sub'' ''x'' ''x'' ''x'' ''x'' ''x'') 0
       = ((\<lparr>HttpResponse = Some 200, Model = Some \<lparr>Id = None, Properties = None\<rparr>\<rparr>, None), 1)
   \<and> outcome (resourceCosmosDbSQLStoredProcedureCreate sample_deps (sample_data True) nameless 0)
       = Panicked NilPointerDereference
   \<and> SqlResourcesGetSqlStoredProcedure (Cosmos_CosmosDBClient fresh) (StoredProcedureId ''sub'' ''x'' ''x'' ''x'' ''x'' ''x'') 1
       = ((\<lparr>HttpResponse = Some 200, Model = Some (\<lparr>Id = Some ''p'', Properties = Some \<lparr>Resource = Some \<lparr>Body = Some ''remote body''\<rparr>\<rparr>\<rparr>)\<rparr>, None), 2)
   \<and> outcome (resourceCosmosDbSQLStoredProcedureCreate sample_deps (sample_data True) fresh 1)
       = Returned (Some (ImportAsExistsError ''azurerm_cosmosdb_sql_stored_procedure'' ''p''))
   \<and> SqlResourcesGetSqlDatabase (Cosmos_CosmosDBClient nameless) (SqlDatabaseId ''sub'' ''x'' ''x'' ''x'') 0
       = ((\<lparr>HttpResponse = Some 200, Model = Some \<lparr>Id = None, Properties = None\<rparr>\<rparr>, None), 1)
   \<and> outcome (resourceCosmosDbSQLDatabaseCreate sample_deps (sample_data True) nameless 0)
       = Panicked NilPointerDereference
   \<and> SqlResourcesGetSqlDatabase (Cosmos_CosmosDBClient fresh) (SqlDatabaseId ''sub'' ''x'' ''x'' ''x'') 1
       = ((\<lparr>HttpResponse = Some 200, Model = Some (\<lparr>Id = Some ''db'', Properties = Some \<lparr>Resource = Some \<lparr>SqlDatabaseGetPropertiesResource.Id = ''db''\<rparr>\<rparr>\<rparr>)\<rparr>, None), 2)
   \<and> outcome (resourceCosmosDbSQLDatabaseCreate sample_deps (sample_data True) fresh 1)
       = Returned (Some (ImportAsExistsError ''azurerm_cosmosdb_sql_database'' ''db''))"
  using create_import_guard
          [where sdk = sample_deps and d = "sample_data True" and meta = nameless and w = 0
             and w' = 1 and m = "\<lparr>Id = None, Properties = None :: unit option\<rparr>" and ridP = "StoredProcedureId ''sub'' ''x'' ''x'' ''x'' ''x'' ''x''" and existingP = "\<lparr>HttpResponse = Some 200, Model = Some \<lparr>Id = None, Properties = None\<rparr>\<rparr>" and ridD = "SqlDatabaseId ''sub'' ''x'' ''x'' ''x''" and existingD = "\<lparr>HttpResponse = Some 200, Model = Some \<lparr>Id = None, Properties = None\<rparr>\<rparr>"]
        create_import_guard
          [where sdk = sample_deps and d = "sample_data True" and meta = fresh and w = 1
             and w' = 2 and m = "\<lparr>Id = None, Properties = None :: unit option\<rparr>" and ridP = "StoredProcedureId ''sub'' ''x'' ''x'' ''x'' ''x'' ''x''" and existingP = "\<lparr>HttpResponse = Some 200, Model = Some (\<lparr>Id = Some ''p'', Properties = Some \<lparr>Resource = Some \<lparr>Body = Some ''remote body''\<rparr>\<rparr>\<rparr>)\<rparr>" and ridD = "SqlDatabaseId ''sub'' ''x'' ''x'' ''x''" and existingD = "\<lparr>HttpResponse = Some 200, Model = Some (\<lparr>Id = Some ''db'', Properties = Some \<lparr>Resource = Some \<lparr>SqlDatabaseGetPropertiesResource.Id = ''db''\<rparr>\<rparr>\<rparr>)\<rparr>"]
  by (simp add: sample_deps_def nameless_def fresh_def fresh_get_def answering_def bare_def
        Let_def)

section \<open>Delete handlers at a response that was not found\<close>

text \<open>
  C1. Against a remote that answers the delete call with 404 and an error, and whose
  poller reports nothing, the delete handlers of the trigger, the function, the role
  assignment and the role definition return the error of the delete call, wrapped; the
  delete handlers of the stored procedure and of the database go on to the poller and
  return nil.
\<close>

theorem delete_not_found_outcomes:
  "WasNotFound (HttpResponse (fst (fst (SqlResourcesDeleteSqlTrigger (Cosmos_CosmosDBClient gone)
        (TriggerId ''sub'' ''rg'' ''acct'' ''db'' ''coll'' ''x'') 0))))
   \<and> outcome (resourceCosmosDbSQLTriggerDelete sample_deps (sample_data False) gone 0)
       = Returned (Some (Errorf ''deleting CosmosDb SQLResourcesSQLTrigger %q: %+v''
            [ArgId (TriggerId ''sub'' ''rg'' ''acct'' ''db'' ''coll'' ''x''),
             ArgE (ErrorString ''not found'')]))
   \<and> outcome (resourceCosmosDbSQLFunctionDelete sample_deps (sample_data False) gone 0)
       = Returned (Some (Errorf ''deleting CosmosDb SqlFunction %q: %+v''
            [ArgId (UserDefinedFunctionId ''sub'' ''rg'' ''acct'' ''db'' ''coll'' ''x''),
             ArgE (ErrorString ''not found'')]))
   \<and> outcome (resourceCosmosDbSQLRoleAssignmentDelete sample_deps (sample_data False) gone 0)
       = Returned (Some (Errorf ''deleting %s: %+v''
            [ArgId (AccountId ''sub'' ''rg'' ''acct'' ''x''), ArgE (ErrorString ''not found'')]))
   \<and> outcome (resourceCosmosDbSQLRoleDefinitionDelete sample_deps (sample_data False) gone 0)
       = Returned (Some (Errorf ''deleting %s: %+v''
            [ArgId (SqlRoleDefinitionId ''sub'' ''rg'' ''acct'' ''x''),
             ArgE (ErrorString ''not found'')]))
   \<and> outcome (resourceCosmosDbSQLStoredProcedureDelete sample_deps (sample_data False) gone 0) = Returned None
   \<and> outcome (resourceCosmosDbSQLDatabaseDelete sample_deps (sample_data False) gone 0) = Returned None"
  by (simp add: role_locked_defs resourceCosmosDbSQLTriggerDelete_def resourceCosmosDbSQLFunctionDelete_def resourceCosmosDbSQLRoleAssignmentDelete_def resourceCosmosDbSQLRoleDefinitionDelete_def resourceCosmosDbSQLStoredProcedureDelete_def resourceCosmosDbSQLDatabaseDelete_def
        sample_deps_def gone_def answering_def WasNotFound_def Let_def)

section \<open>The throughput fetch and the serverless predicate\<close>

lemma readAccountAndThroughput_serverless:
  "DatabaseAccountsGet (Cosmos_CosmosDBClient meta)
      (DatabaseAccountId (Account_SubscriptionId meta) (ResourceGroupName rid)
         (DatabaseAccountName rid)) w = ((accResp, aerr), w') \<Longrightarrow>
   Model accResp = Some acc \<Longrightarrow> IsServerlessCapacityMode acc \<Longrightarrow>
   client_calls (events (readAccountAndThroughput sdk d meta rid w)) = [''DatabaseAccountsGet'']"
  by (simp add: readAccountAndThroughput_def Let_def or_else_def deref_eq_def deref_def
        split: option.splits bool.splits)

lemma readAccountAndThroughput_calls:
  "client_calls (events (readAccountAndThroughput sdk d meta rid w)) = [''DatabaseAccountsGet''] \<or>
   client_calls (events (readAccountAndThroughput sdk d meta rid w))
     = [''DatabaseAccountsGet'', ''SqlResourcesGetSqlDatabaseThroughput'']
     \<and> (\<exists>accResp w' acc.
          DatabaseAccountsGet (Cosmos_CosmosDBClient meta)
            (DatabaseAccountId (Account_SubscriptionId meta) (ResourceGroupName rid)
               (DatabaseAccountName rid)) w = ((accResp, None), w')
          \<and> Model accResp = Some acc \<and> \<not> IsServerlessCapacityMode acc)"
  by (auto simp add: readAccountAndThroughput_def Let_def or_else_def deref_eq_def deref_def
        split: option.splits prod.splits bool.splits)

lemma readAccountAndThroughput_fetch:
  assumes "''SqlResourcesGetSqlDatabaseThroughput''
     \<in> set (client_calls (events (readAccountAndThroughput sdk d meta rid w)))"
  shows "\<exists>accResp w' acc.
          DatabaseAccountsGet (Cosmos_CosmosDBClient meta)
            (DatabaseAccountId (Account_SubscriptionId meta) (ResourceGroupName rid)
               (DatabaseAccountName rid)) w = ((accResp, None), w')
          \<and> Model accResp = Some acc \<and> \<not> IsServerlessCapacityMode acc"
  using readAccountAndThroughput_calls [of sdk d meta rid w] assms by auto

lemma resourceCosmosDbSQLDatabaseRead_calls:
  "ParseSqlDatabaseID sdk (rd_Id d) = Inr rid \<Longrightarrow>
   SqlResourcesGetSqlDatabase (Cosmos_CosmosDBClient meta) rid w = ((resp, err), w0) \<Longrightarrow>
   client_calls (events (resourceCosmosDbSQLDatabaseRead sdk d meta w))
     = [''SqlResourcesGetSqlDatabase''] \<or>
   (\<exists>d'. client_calls (events (resourceCosmosDbSQLDatabaseRead sdk d meta w)) =
      ''SqlResourcesGetSqlDatabase''
        # client_calls (events (readAccountAndThroughput sdk d' meta rid w0)))"
  by (cases "Model resp") (auto simp add: resourceCosmosDbSQLDatabaseRead_def Let_def)

lemma dataSourceCosmosDbSQLDatabaseRead_calls:
  "rid = SqlDatabaseId (Account_SubscriptionId meta) (GetString d ''resource_group_name'')
           (GetString d ''account_name'') (GetString d ''name'') \<Longrightarrow>
   SqlResourcesGetSqlDatabase (Cosmos_CosmosDBClient meta) rid w = ((resp, err), w0) \<Longrightarrow>
   client_calls (events (dataSourceCosmosDbSQLDatabaseRead sdk d meta w))
     = [''SqlResourcesGetSqlDatabase''] \<or>
   (\<exists>d'. client_calls (events (dataSourceCosmosDbSQLDatabaseRead sdk d meta w)) =
      ''SqlResourcesGetSqlDatabase''
        # client_calls (events (readAccountAndThroughput sdk d' meta rid w0)))"
  by (cases "Model resp") (auto simp add: dataSourceCosmosDbSQLDatabaseRead_def Let_def)

lemma resourceCosmosDbSQLDatabaseRead_serverless:
  assumes "ParseSqlDatabaseID sdk (rd_Id d) = Inr rid"
    and "SqlResourcesGetSqlDatabase (Cosmos_CosmosDBClient meta) rid w = (r0, w0)"
    and "DatabaseAccountsGet (Cosmos_CosmosDBClient meta)
          (DatabaseAccountId (Account_SubscriptionId meta) (ResourceGroupName rid)
             (DatabaseAccountName rid)) w0 = ((accResp, aerr), w')"
    and "Model accResp = Some acc" and "IsServerlessCapacityMode acc"
  shows "''SqlResourcesGetSqlDatabaseThroughput''
     \<notin> set (client_calls (events (resourceCosmosDbSQLDatabaseRead sdk d meta w)))"
proof -
  obtain resp err where "r0 = (resp, err)"
    by (cases r0)
  with assms(2) resourceCosmosDbSQLDatabaseRead_calls [OF assms(1), of meta w resp err w0]
  show ?thesis
    using readAccountAndThroughput_serverless [OF assms(3) assms(4) assms(5)] by auto
qed

lemma dataSourceCosmosDbSQLDatabaseRead_serverless:
  assumes "rid = SqlDatabaseId (Account_SubscriptionId meta)
                   (GetString d ''resource_group_name'') (GetString d ''account_name'')
                   (GetString d ''name'')"
    and "SqlResourcesGetSqlDatabase (Cosmos_CosmosDBClient meta) rid w = (r0, w0)"
    and "DatabaseAccountsGet (Cosmos_CosmosDBClient meta)
          (DatabaseAccountId (Account_SubscriptionId meta) (ResourceGroupName rid)
             (DatabaseAccountName rid)) w0 = ((accResp, aerr), w')"
    and "Model accResp = Some acc" and "IsServerlessCapacityMode acc"
  shows "''SqlResourcesGetSqlDatabaseThroughput''
     \<notin> set (client_calls (events (dataSourceCosmosDbSQLDatabaseRead sdk d meta w)))"
proof -
  obtain resp err where "r0 = (resp, err)"
    by (cases r0)
  with assms(2) dataSourceCosmosDbSQLDatabaseRead_calls [OF assms(1), of w resp err w0 sdk]
  show ?thesis
    using readAccountAndThroughput_serverless [OF assms(3) assms(4) assms(5)] by auto
qed

lemma resourceCosmosDbSQLDatabaseRead_fetch:
  assumes "''SqlResourcesGetSqlDatabaseThroughput''
     \<in> set (client_calls (events (resourceCosmosDbSQLDatabaseRead sdk d meta w)))"
  shows "\<exists>rid r0 w0 accResp w' acc.
     ParseSqlDatabaseID sdk (rd_Id d) = Inr rid
     \<and> SqlResourcesGetSqlDatabase (Cosmos_CosmosDBClient meta) rid w = (r0, w0)
     \<and> DatabaseAccountsGet (Cosmos_CosmosDBClient meta)
          (DatabaseAccountId (Account_SubscriptionId meta) (ResourceGroupName rid)
             (DatabaseAccountName rid)) w0 = ((accResp, None), w')
     \<and> Model accResp = Some acc \<and> \<not> IsServerlessCapacityMode acc"
proof (cases "ParseSqlDatabaseID sdk (rd_Id d)")
  case (Inl e)
  with assms show ?thesis
    by (simp add: resourceCosmosDbSQLDatabaseRead_def)
next
  case (Inr rid)
  obtain resp err w0
    where get: "SqlResourcesGetSqlDatabase (Cosmos_CosmosDBClient meta) rid w = ((resp, err), w0)"
    by (metis surj_pair)
  from resourceCosmosDbSQLDatabaseRead_calls [OF Inr get] assms
  obtain d' where "''SqlResourcesGetSqlDatabaseThroughput''
      \<in> set (client_calls (events (readAccountAndThroughput sdk d' meta rid w0)))"
    by auto
  from readAccountAndThroughput_fetch [OF this] Inr get show ?thesis
    by blast
qed

lemma dataSourceCosmosDbSQLDatabaseRead_fetch:
  assumes "''SqlResourcesGetSqlDatabaseThroughput''
     \<in> set (client_calls (events (dataSourceCosmosDbSQLDatabaseRead sdk d meta w)))"
    and rid: "rid = SqlDatabaseId (Account_SubscriptionId meta)
                   (GetString d ''resource_group_name'') (GetString d ''account_name'')
                   (GetString d ''name'')"
  shows "\<exists>r0 w0 accResp w' acc.
     SqlResourcesGetSqlDatabase (Cosmos_CosmosDBClient meta) rid w = (r0, w0)
     \<and> DatabaseAccountsGet (Cosmos_CosmosDBClient meta)
          (DatabaseAccountId (Account_SubscriptionId meta) (ResourceGroupName rid)
             (DatabaseAccountName rid)) w0 = ((accResp, None), w')
     \<and> Model accResp = Some acc \<and> \<not> IsServerlessCapacityMode acc"
proof -
  obtain resp err w0
    where get: "SqlResourcesGetSqlDatabase (Cosmos_CosmosDBClient meta) rid w = ((resp, err), w0)"
    by (metis surj_pair)
  from dataSourceCosmosDbSQLDatabaseRead_calls [OF rid get, of sdk] assms(1)
  obtain d' where "''SqlResourcesGetSqlDatabaseThroughput''
      \<in> set (client_calls (events (readAccountAndThroughput sdk d' meta rid w0)))"
    by auto
  from readAccountAndThroughput_fetch [OF this] get show ?thesis
    by blast
qed

text \<open>
  C5. In \<^verbatim>\<open>resourceCosmosDbSQLDatabaseRead\<close> and in \<^verbatim>\<open>dataSourceCosmosDbSQLDatabaseRead\<close>,
  when the database account the handler fetches is in serverless capacity mode, the
  handler does not call \<^verbatim>\<open>SqlResourcesGetSqlDatabaseThroughput\<close>; and whenever it does
  call it, it has fetched, without error, a database account for which
  \<^verbatim>\<open>IsServerlessCapacityMode\<close> is false.
\<close>

theorem throughput_not_fetched_when_serverless:
  "(ParseSqlDatabaseID sdk (rd_Id d) = Inr rid \<longrightarrow>
    SqlResourcesGetSqlDatabase (Cosmos_CosmosDBClient meta) rid w = (r0, w0) \<longrightarrow>
    DatabaseAccountsGet (Cosmos_CosmosDBClient meta)
      (DatabaseAccountId (Account_SubscriptionId meta) (ResourceGroupName rid)
         (DatabaseAccountName rid)) w0 = ((accResp, aerr), w') \<longrightarrow>
    Model accResp = Some acc \<longrightarrow> IsServerlessCapacityMode acc \<longrightarrow>
    ''SqlResourcesGetSqlDatabaseThroughput''
      \<notin> set (client_calls (events (resourceCosmosDbSQLDatabaseRead sdk d meta w))))
   \<and> (ridS = SqlDatabaseId (Account_SubscriptionId meta)
               (GetString d ''resource_group_name'') (GetString d ''account_name'')
               (GetString d ''name'') \<longrightarrow>
    SqlResourcesGetSqlDatabase (Cosmos_CosmosDBClient meta) ridS w = (r0, w0) \<longrightarrow>
    DatabaseAccountsGet (Cosmos_CosmosDBClient meta)
      (DatabaseAccountId (Account_SubscriptionId meta) (ResourceGroupName ridS)
         (DatabaseAccountName ridS)) w0 = ((accResp, aerr), w') \<longrightarrow>
    Model accResp = Some acc \<longrightarrow> IsServerlessCapacityMode acc \<longrightarrow>
    ''SqlResourcesGetSqlDatabaseThroughput''
      \<notin> set (client_calls (events (dataSourceCosmosDbSQLDatabaseRead sdk d meta w))))
   \<and> (''SqlResourcesGetSqlDatabaseThroughput''
         \<in> set (client_calls (events (resourceCosmosDbSQLDatabaseRead sdk d meta w))) \<longrightarrow>
       (\<exists>rid r0 w0 accResp w' acc.
          ParseSqlDatabaseID sdk (rd_Id d) = Inr rid
          \<and> SqlResourcesGetSqlDatabase (Cosmos_CosmosDBClient meta) rid w = (r0, w0)
          \<and> DatabaseAccountsGet (Cosmos_CosmosDBClient meta)
               (DatabaseAccountId (Account_SubscriptionId meta) (ResourceGroupName rid)
                  (DatabaseAccountName rid)) w0 = ((accResp, None), w')
          \<and> Model accResp = Some acc \<and> \<not> IsServerlessCapacityMode acc))
   \<and> (''SqlResourcesGetSqlDatabaseThroughput''
         \<in> set (client_calls (events (dataSourceCosmosDbSQLDatabaseRead sdk d meta w))) \<longrightarrow>
       ridS = SqlDatabaseId (Account_SubscriptionId meta)
               (GetString d ''resource_group_name'') (GetString d ''account_name'')
               (GetString d ''name'') \<longrightarrow>
       (\<exists>r0 w0 accResp w' acc.
          SqlResourcesGetSqlDatabase (Cosmos_CosmosDBClient meta) ridS w = (r0, w0)
          \<and> DatabaseAccountsGet (Cosmos_CosmosDBClient meta)
               (DatabaseAccountId (Account_SubscriptionId meta) (ResourceGroupName ridS)
                  (DatabaseAccountName ridS)) w0 = ((accResp, None), w')
          \<and> Model accResp = Some acc \<and> \<not> IsServerlessCapacityMode acc))"
proof (intro conjI impI)
  assume "ParseSqlDatabaseID sdk (rd_Id d) = Inr rid"
    and "SqlResourcesGetSqlDatabase (Cosmos_CosmosDBClient meta) rid w = (r0, w0)"
    and "DatabaseAccountsGet (Cosmos_CosmosDBClient meta)
          (DatabaseAccountId (Account_SubscriptionId meta) (ResourceGroupName rid)
             (DatabaseAccountName rid)) w0 = ((accResp, aerr), w')"
    and "Model accResp = Some acc" and "IsServerlessCapacityMode acc"
  then show "''SqlResourcesGetSqlDatabaseThroughput''
      \<notin> set (client_calls (events (resourceCosmosDbSQLDatabaseRead sdk d meta w)))"
    by (rule resourceCosmosDbSQLDatabaseRead_serverless)
next
  assume "ridS = SqlDatabaseId (Account_SubscriptionId meta)
               (GetString d ''resource_group_name'') (GetString d ''account_name'')
               (GetString d ''name'')"
    and "SqlResourcesGetSqlDatabase (Cosmos_CosmosDBClient meta) ridS w = (r0, w0)"
    and "DatabaseAccountsGet (Cosmos_CosmosDBClient meta)
          (DatabaseAccountId (Account_SubscriptionId meta) (ResourceGroupName ridS)
             (DatabaseAccountName ridS)) w0 = ((accResp, aerr), w')"
    and "Model accResp = Some acc" and "IsServerlessCapacityMode acc"
  then show "''SqlResourcesGetSqlDatabaseThroughput''
      \<notin> set (client_calls (events (dataSourceCosmosDbSQLDatabaseRead sdk d meta w)))"
    by (rule dataSourceCosmosDbSQLDatabaseRead_serverless)
next
  assume "''SqlResourcesGetSqlDatabaseThroughput''
         \<in> set (client_calls (events (resourceCosmosDbSQLDatabaseRead sdk d meta w)))"
  then show "\<exists>rid r0 w0 accResp w' acc.
          ParseSqlDatabaseID sdk (rd_Id d) = Inr rid
          \<and> SqlResourcesGetSqlDatabase (Cosmos_CosmosDBClient meta) rid w = (r0, w0)
          \<and> DatabaseAccountsGet (Cosmos_CosmosDBClient meta)
               (DatabaseAccountId (Account_SubscriptionId meta) (ResourceGroupName rid)
                  (DatabaseAccountName rid)) w0 = ((accResp, None), w')
          \<and> Model accResp = Some acc \<and> \<not> IsServerlessCapacityMode acc"
    by (rule resourceCosmosDbSQLDatabaseRead_fetch)
next
  assume "''SqlResourcesGetSqlDatabaseThroughput''
         \<in> set (client_calls (events (dataSourceCosmosDbSQLDatabaseRead sdk d meta w)))"
    and "ridS = SqlDatabaseId (Account_SubscriptionId meta)
               (GetString d ''resource_group_name'') (GetString d ''account_name'')
               (GetString d ''name'')"
  then show "\<exists>r0 w0 accResp w' acc.
          SqlResourcesGetSqlDatabase (Cosmos_CosmosDBClient meta) ridS w = (r0, w0)
          \<and> DatabaseAccountsGet (Cosmos_CosmosDBClient meta)
               (DatabaseAccountId (Account_SubscriptionId meta) (ResourceGroupName ridS)
                  (DatabaseAccountName ridS)) w0 = ((accResp, None), w')
          \<and> Model accResp = Some acc \<and> \<not> IsServerlessCapacityMode acc"
    by (rule dataSourceCosmosDbSQLDatabaseRead_fetch)
qed

lemma sample_database_calls:
  "client_calls (events (resourceCosmosDbSQLDatabaseRead sample_deps (sample_data False) fresh 1))
     = [''SqlResourcesGetSqlDatabase'', ''DatabaseAccountsGet'']"
  "client_calls (events (dataSourceCosmosDbSQLDatabaseRead sample_deps (sample_data False) fresh 1))
     = [''SqlResourcesGetSqlDatabase'', ''DatabaseAccountsGet'']"
  "client_calls (events (resourceCosmosDbSQLDatabaseRead sample_deps (sample_data False)
                           provisioned 1))
     = [''SqlResourcesGetSqlDatabase'', ''DatabaseAccountsGet'',
        ''SqlResourcesGetSqlDatabaseThroughput'']"
  "client_calls (events (dataSourceCosmosDbSQLDatabaseRead sample_deps (sample_data False)
                           provisioned 1))
     = [''SqlResourcesGetSqlDatabase'', ''DatabaseAccountsGet'',
        ''SqlResourcesGetSqlDatabaseThroughput'']"
  "ParseSqlDatabaseID sample_deps ''x'' = Inr (SqlDatabaseId ''sub'' ''rg'' ''acct'' ''x'')"
  "Account_SubscriptionId fresh = ''sub''"
  "SqlResourcesGetSqlDatabase (Cosmos_CosmosDBClient fresh) rid 1
     = ((\<lparr>HttpResponse = Some 200, Model = Some
           \<lparr>Id = Some ''db'', Properties = Some \<lparr>Resource = Some
              \<lparr>SqlDatabaseGetPropertiesResource.Id = ''db''\<rparr>\<rparr>\<rparr>\<rparr>, None), 2)"
  "DatabaseAccountsGet (Cosmos_CosmosDBClient fresh) aid 2
      = ((\<lparr>HttpResponse = Some 200, Model = Some
            \<lparr>Id = Some ''acct'', Properties = Some \<lparr>Capabilities = Some
               (Slice [\<lparr>Name = Some ''EnableServerless''\<rparr>])\<rparr>\<rparr>\<rparr>, None), 3)"
  by (simp_all add: resourceCosmosDbSQLDatabaseRead_def dataSourceCosmosDbSQLDatabaseRead_def
        readAccountAndThroughput_def sample_deps_def fresh_def provisioned_def fresh_get_def
        IsServerlessCapacityMode_def or_else_def deref_eq_def deref_def Let_def)

theorem throughput_not_fetched_when_serverless_witness:
  "ParseSqlDatabaseID sample_deps (rd_Id (sample_data False))
      = Inr (SqlDatabaseId ''sub'' ''rg'' ''acct'' ''x'')
   \<and> DatabaseAccountsGet (Cosmos_CosmosDBClient fresh) (DatabaseAccountId ''sub'' ''rg'' ''acct'') 2
      = ((\<lparr>HttpResponse = Some 200, Model = Some
            \<lparr>Id = Some ''acct'', Properties = Some \<lparr>Capabilities = Some
               (Slice [\<lparr>Name = Some ''EnableServerless''\<rparr>])\<rparr>\<rparr>\<rparr>, None), 3)
   \<and> IsServerlessCapacityMode
        \<lparr>Id = Some ''acct'', Properties = Some \<lparr>Capabilities = Some
           (Slice [\<lparr>Name = Some ''EnableServerless''\<rparr>])\<rparr>\<rparr>
   \<and> ''SqlResourcesGetSqlDatabaseThroughput''
      \<notin> set (client_calls (events
           (resourceCosmosDbSQLDatabaseRead sample_deps (sample_data False) fresh 1)))
   \<and> ''SqlResourcesGetSqlDatabaseThroughput''
      \<notin> set (client_calls (events
           (dataSourceCosmosDbSQLDatabaseRead sample_deps (sample_data False) fresh 1)))
   \<and> ''SqlResourcesGetSqlDatabaseThroughput''
      \<in> set (client_calls (events
           (resourceCosmosDbSQLDatabaseRead sample_deps (sample_data False) provisioned 1)))
   \<and> ''SqlResourcesGetSqlDatabaseThroughput''
      \<in> set (client_calls (events
           (dataSourceCosmosDbSQLDatabaseRead sample_deps (sample_data False) provisioned 1)))
   \<and> \<not> IsServerlessCapacityMode
        \<lparr>Id = Some ''acct'', Properties = Some \<lparr>Capabilities = None\<rparr>\<rparr>"
  using throughput_not_fetched_when_serverless
          [where sdk = sample_deps and d = "sample_data False" and meta = fresh and w = 1
             and rid = "SqlDatabaseId ''sub'' ''rg'' ''acct'' ''x''"
             and ridS = "SqlDatabaseId ''sub'' ''x'' ''x'' ''x''"
             and ?w0.0 = 2 and w' = 3 and aerr = None
             and ?r0.0 = "(\<lparr>HttpResponse = Some 200, Model = Some
                  \<lparr>Id = Some ''db'', Properties = Some \<lparr>Resource = Some
                     \<lparr>SqlDatabaseGetPropertiesResource.Id = ''db''\<rparr>\<rparr>\<rparr>\<rparr>, None)"
             and accResp = "\<lparr>HttpResponse = Some 200, Model = Some
                  \<lparr>Id = Some ''acct'', Properties = Some \<lparr>Capabilities = Some
                     (Slice [\<lparr>Name = Some ''EnableServerless''\<rparr>])\<rparr>\<rparr>\<rparr>"
             and acc = "\<lparr>Id = Some ''acct'', Properties = Some \<lparr>Capabilities = Some
                     (Slice [\<lparr>Name = Some ''EnableServerless''\<rparr>])\<rparr>\<rparr>"]
        throughput_not_fetched_when_serverless
          [where sdk = sample_deps and d = "sample_data False" and meta = provisioned and w = 1
             and rid = "SqlDatabaseId ''sub'' ''rg'' ''acct'' ''x''"
             and ridS = "SqlDatabaseId ''sub'' ''x'' ''x'' ''x''"
             and ?w0.0 = 2 and w' = 3 and aerr = None
             and ?r0.0 = "(\<lparr>HttpResponse = Some 200, Model = Some
                  \<lparr>Id = Some ''db'', Properties = Some \<lparr>Resource = Some
                     \<lparr>SqlDatabaseGetPropertiesResource.Id = ''db''\<rparr>\<rparr>\<rparr>\<rparr>, None)"
             and accResp = "\<lparr>HttpResponse = Some 200, Model = Some
                  \<lparr>Id = Some ''acct'', Properties = Some \<lparr>Capabilities = None\<rparr>\<rparr>\<rparr>"
             and acc = "\<lparr>Id = Some ''acct'', Properties = Some \<lparr>Capabilities = None\<rparr>\<rparr>"]
  by (simp add: sample_database_calls IsServerlessCapacityMode_def del: One_nat_def)

section \<open>Locks of the role resources\<close>

lemma resourceCosmosDbSQLRoleAssignmentRead_no_locks:
  "lock_events (events (resourceCosmosDbSQLRoleAssignmentRead sdk d meta w)) = []"
  by (simp add: resourceCosmosDbSQLRoleAssignmentRead_def Let_def case_prod_beta
           split: sum.splits option.splits)

lemma resourceCosmosDbSQLRoleDefinitionRead_no_locks:
  "lock_events (events (resourceCosmosDbSQLRoleDefinitionRead sdk d meta w)) = []"
  by (simp add: resourceCosmosDbSQLRoleDefinitionRead_def Let_def case_prod_beta
           split: sum.splits option.splits)

lemma role_locked_no_locks:
  "lock_events (events (resourceCosmosDbSQLRoleAssignmentCreate_locked sdk d meta rid w)) = []"
  "lock_events (events (resourceCosmosDbSQLRoleAssignmentUpdate_locked sdk d meta rid w)) = []"
  "lock_events (events (resourceCosmosDbSQLRoleAssignmentDelete_locked sdk d meta rid w)) = []"
  "lock_events (events (resourceCosmosDbSQLRoleDefinitionCreate_locked sdk d meta rid w)) = []"
  "lock_events (events (resourceCosmosDbSQLRoleDefinitionUpdate_locked sdk d meta rid w)) = []"
  "lock_events (events (resourceCosmosDbSQLRoleDefinitionDelete_locked sdk d meta rid w)) = []"
  by (simp_all add: role_locked_defs Let_def case_prod_beta
        resourceCosmosDbSQLRoleAssignmentRead_no_locks
        resourceCosmosDbSQLRoleDefinitionRead_no_locks split: sum.splits)

text \<open>
  C7. Each of the create, update and delete handlers of the SQL role assignment and of
  the SQL role definition either does nothing observable (the identifier could not be
  generated or parsed: no lock is taken and no client call is made), or its trace starts
  with \<^verbatim>\<open>locks.ByName\<close> on the database account name and
  \<^verbatim>\<open>CosmosDbAccountResourceName\<close>, ends with \<^verbatim>\<open>locks.UnlockByName\<close> on the same
  pair, and holds no other lock event in between. So every client call comes after the
  lock is taken, the lock is released on every way out (error returns and panics
  included), and it is taken once.
\<close>

theorem lock_discipline:
  "(case (if GetString d ''name'' = '''' then GenerateUUID sdk else Inr (GetString d ''name'')) of
      Inl e \<Rightarrow> events (resourceCosmosDbSQLRoleAssignmentCreate sdk d meta w) = []
    | Inr n \<Rightarrow> \<exists>es. events (resourceCosmosDbSQLRoleAssignmentCreate sdk d meta w)
                    = LockByName (GetString d ''account_name'') (CosmosDbAccountResourceName sdk)
                        # es @ [UnlockByName (GetString d ''account_name'')
                                  (CosmosDbAccountResourceName sdk)]
                  \<and> lock_events es = [])
   \<and> (case ParseAccountID sdk (rd_Id d) of
      Inl e \<Rightarrow> events (resourceCosmosDbSQLRoleAssignmentUpdate sdk d meta w) = []
    | Inr rid \<Rightarrow> \<exists>es. events (resourceCosmosDbSQLRoleAssignmentUpdate sdk d meta w)
                    = LockByName (DatabaseAccountName rid) (CosmosDbAccountResourceName sdk)
                        # es @ [UnlockByName (DatabaseAccountName rid)
                                  (CosmosDbAccountResourceName sdk)]
                  \<and> lock_events es = [])
   \<and> (case ParseAccountID sdk (rd_Id d) of
      Inl e \<Rightarrow> events (resourceCosmosDbSQLRoleAssignmentDelete sdk d meta w) = []
    | Inr rid \<Rightarrow> \<exists>es. events (resourceCosmosDbSQLRoleAssignmentDelete sdk d meta w)
                    = LockByName (DatabaseAccountName rid) (CosmosDbAccountResourceName sdk)
                        # es @ [UnlockByName (DatabaseAccountName rid)
                                  (CosmosDbAccountResourceName sdk)]
                  \<and> lock_events es = [])
   \<and> (case (if GetString d ''role_definition_id'' = '''' then GenerateUUID sdk
            else Inr (GetString d ''role_definition_id'')) of
      Inl e \<Rightarrow> events (resourceCosmosDbSQLRoleDefinitionCreate sdk d meta w) = []
    | Inr n \<Rightarrow> \<exists>es. events (resourceCosmosDbSQLRoleDefinitionCreate sdk d meta w)
                    = LockByName (GetString d ''account_name'') (CosmosDbAccountResourceName sdk)
                        # es @ [UnlockByName (GetString d ''account_name'')
                                  (CosmosDbAccountResourceName sdk)]
                  \<and> lock_events es = [])
   \<and> (case ParseSqlRoleDefinitionID sdk (rd_Id d) of
      Inl e \<Rightarrow> events (resourceCosmosDbSQLRoleDefinitionUpdate sdk d meta w) = []
    | Inr rid \<Rightarrow> \<exists>es. events (resourceCosmosDbSQLRoleDefinitionUpdate sdk d meta w)
                    = LockByName (DatabaseAccountName rid) (CosmosDbAccountResourceName sdk)
                        # es @ [UnlockByName (DatabaseAccountName rid)
                                  (CosmosDbAccountResourceName sdk)]
                  \<and> lock_events es = [])
   \<and> (case ParseSqlRoleDefinitionID sdk (rd_Id d) of
      Inl e \<Rightarrow> events (resourceCosmosDbSQLRoleDefinitionDelete sdk d meta w) = []
    | Inr rid \<Rightarrow> \<exists>es. events (resourceCosmosDbSQLRoleDefinitionDelete sdk d meta w)
                    = LockByName (DatabaseAccountName rid) (CosmosDbAccountResourceName sdk)
                        # es @ [UnlockByName (DatabaseAccountName rid)
                                  (CosmosDbAccountResourceName sdk)]
                  \<and> lock_events es = [])"
  by (simp add: resourceCosmosDbSQLRoleAssignmentCreate_def
        resourceCosmosDbSQLRoleAssignmentUpdate_def resourceCosmosDbSQLRoleAssignmentDelete_def
        resourceCosmosDbSQLRoleDefinitionCreate_def
        resourceCosmosDbSQLRoleDefinitionUpdate_def resourceCosmosDbSQLRoleDefinitionDelete_def
        Let_def role_locked_no_locks split: sum.splits)

theorem lock_discipline_witness:
  "(\<exists>es. events (resourceCosmosDbSQLRoleAssignmentCreate sample_deps (sample_data True) fresh 0)
           = LockByName ''x'' ''azurerm_cosmosdb_account''
               # es @ [UnlockByName ''x'' ''azurerm_cosmosdb_account'']
         \<and> lock_events es = [])
   \<and> (\<exists>es. events (resourceCosmosDbSQLRoleDefinitionDelete sample_deps (sample_data False) broken 0)
           = LockByName ''acct'' ''azurerm_cosmosdb_account''
               # es @ [UnlockByName ''acct'' ''azurerm_cosmosdb_account'']
         \<and> lock_events es = [])"
  using lock_discipline [where sdk = sample_deps and d = "sample_data True" and meta = fresh
                           and w = 0]
        lock_discipline [where sdk = sample_deps and d = "sample_data False" and meta = broken
                           and w = 0]
  by (simp add: sample_deps_def)

section \<open>Create and update handlers: the read at the end\<close>




end
